theory Spec2Isabelle
  imports Complex_Main
begin

section \<open>GLSL values and built-ins\<close>

text \<open>
  The renderer of \<^verbatim>\<open>src/src/config/defaults.ts\<close> (class \<^verbatim>\<open>WebGLRenderer\<close>) runs two
  fragment shaders. A GLSL \<^verbatim>\<open>float\<close> is modelled by a real number. A \<^verbatim>\<open>sampler2D\<close> is the
  function that \<^verbatim>\<open>texture2D\<close> computes for the bound texture: it takes a texture
  coordinate and returns the RGBA value (wrap mode and filtering are part of that
  function). Every texture and the drawing buffer of the renderer are RGBA with
  \<^verbatim>\<open>UNSIGNED_BYTE\<close> channels; what a draw leaves in one is the shader's value clamped to
  \<open>[0, 1]\<close> channel by channel (\<open>storedImage\<close> below). Not modelled are the rounding of
  the \<^verbatim>\<open>mediump\<close> arithmetic, the rounding of a stored channel to a multiple of \<open>1 / 255\<close>,
  and the texel grid: an image is a function of the real texture coordinate, which is
  what a draw writes at the centre of each texel; between the centres the texture's
  filter interpolates.
\<close>

type_synonym vec2 = "real \<times> real"
type_synonym vec4 = "real \<times> real \<times> real \<times> real"
type_synonym sampler2D = "vec2 \<Rightarrow> vec4"

definition red :: "vec4 \<Rightarrow> real" where
  \<comment> \<open>the swizzle \<^verbatim>\<open>.r\<close>\<close>
  "red c = fst c"

definition vec2_add :: "vec2 \<Rightarrow> vec2 \<Rightarrow> vec2" where
  "vec2_add a b = (fst a + fst b, snd a + snd b)"

definition vec2_mul :: "vec2 \<Rightarrow> vec2 \<Rightarrow> vec2" where
  \<comment> \<open>component-wise product of two \<^verbatim>\<open>vec2\<close>\<close>
  "vec2_mul a b = (fst a * fst b, snd a * snd b)"

definition vec2_scale :: "vec2 \<Rightarrow> real \<Rightarrow> vec2" where
  "vec2_scale a k = (fst a * k, snd a * k)"

definition vec2_recip :: "vec2 \<Rightarrow> vec2" where
  \<comment> \<open>\<^verbatim>\<open>1.0 / v\<close> for a \<^verbatim>\<open>vec2\<close>\<close>
  "vec2_recip a = (1 / fst a, 1 / snd a)"

fun vec4_add :: "vec4 \<Rightarrow> vec4 \<Rightarrow> vec4" where
  "vec4_add (r1, g1, b1, a1) (r2, g2, b2, a2) = (r1 + r2, g1 + g2, b1 + b2, a1 + a2)"

fun vec4_scale :: "vec4 \<Rightarrow> real \<Rightarrow> vec4" where
  "vec4_scale (r, g, b, a) k = (r * k, g * k, b * k, a * k)"

fun vec4_div :: "vec4 \<Rightarrow> real \<Rightarrow> vec4" where
  "vec4_div (r, g, b, a) k = (r / k, g / k, b / k, a / k)"

definition clamp :: "real \<Rightarrow> real \<Rightarrow> real \<Rightarrow> real" where
  "clamp x minVal maxVal = min (max x minVal) maxVal"

definition mix :: "real \<Rightarrow> real \<Rightarrow> real \<Rightarrow> real" where
  "mix x y a = x * (1 - a) + y * a"

definition vec4_mix :: "vec4 \<Rightarrow> vec4 \<Rightarrow> real \<Rightarrow> vec4" where
  "vec4_mix x y a = vec4_add (vec4_scale x (1 - a)) (vec4_scale y a)"

definition smoothstep :: "real \<Rightarrow> real \<Rightarrow> real \<Rightarrow> real" where
  \<comment> \<open>the GLSL built-in: Hermite interpolation of the clamped ratio. With equal edges
      the ratio is a division by zero, which GLSL leaves undefined: the quotient is
      infinite and clamps to 1 above the edge and to 0 below it, a step; at the edge
      itself (\<open>0 / 0\<close>) the step is taken to be 0.\<close>
  "smoothstep edge0 edge1 x =
     (if edge1 = edge0 then (if x > edge0 then 1 else 0)
      else (let t = clamp ((x - edge0) / (edge1 - edge0)) 0 1 in t * t * (3 - 2 * t)))"

section \<open>The state-update fragment shader\<close>

record stateUpdateUniforms =
  u_smoothingFactor :: real
  u_smoothstepMin :: real
  u_smoothstepMax :: real
  u_selfieModel :: int
  u_resolution :: vec2
  u_stateBlurRadius :: real

definition sampleBlurred :: "vec2 \<Rightarrow> sampler2D \<Rightarrow> vec2 \<Rightarrow> real \<Rightarrow> real" where
  \<comment> \<open>\<^verbatim>\<open>sampleBlurred(tex, coord, radius)\<close>; the uniform \<^verbatim>\<open>u_resolution\<close> it reads is the
      first argument.\<close>
  "sampleBlurred resolution tex coord radius =
     (let ts = vec2_recip resolution;
          s = radius
      in (red (tex (vec2_add coord (vec2_mul (- s, - s) ts))) * 1 +
          red (tex (vec2_add coord (vec2_mul (0, - s) ts))) * 2 +
          red (tex (vec2_add coord (vec2_mul (s, - s) ts))) * 1 +
          red (tex (vec2_add coord (vec2_mul (- s, 0) ts))) * 2 +
          red (tex coord) * 4 +
          red (tex (vec2_add coord (vec2_mul (s, 0) ts))) * 2 +
          red (tex (vec2_add coord (vec2_mul (- s, s) ts))) * 1 +
          red (tex (vec2_add coord (vec2_mul (0, s) ts))) * 2 +
          red (tex (vec2_add coord (vec2_mul (s, s) ts))) * 1) / 16)"

definition stateUpdate_main ::
  "stateUpdateUniforms \<Rightarrow> sampler2D \<Rightarrow> sampler2D \<Rightarrow> sampler2D \<Rightarrow> vec2 \<Rightarrow> vec4" where
  \<comment> \<open>\<^verbatim>\<open>main()\<close> of \<^verbatim>\<open>stateUpdateFragmentShaderSource\<close>: the value of \<^verbatim>\<open>gl_FragColor\<close> for the
      fragment whose varying is \<^verbatim>\<open>v_texCoord\<close>.\<close>
  "stateUpdate_main U categoryTexture confidenceTexture prevStateTexture v_texCoord =
     (let prevCoord = (fst v_texCoord, 1 - snd v_texCoord);
          categoryValue0 = red (categoryTexture v_texCoord);
          confidenceValue0 = red (confidenceTexture v_texCoord);
          categoryValue1 = (if u_selfieModel U = 1 then 1 - categoryValue0 else categoryValue0);
          confidenceValue1 = (if u_selfieModel U = 1 then 1 - confidenceValue0 else confidenceValue0);
          categoryValue = (if categoryValue1 > 0 then 1 else categoryValue1);
          confidenceValue = (if categoryValue1 > 0 then 1 - confidenceValue1 else confidenceValue1);
          nonLinearConfidence = smoothstep (u_smoothstepMin U) (u_smoothstepMax U) confidenceValue;
          prevCategoryValue = sampleBlurred (u_resolution U) prevStateTexture prevCoord (u_stateBlurRadius U);
          alpha0 = u_smoothingFactor U * nonLinearConfidence;
          alpha = (if categoryValue < 0.5 \<and> prevCategoryValue > 0.3
                   then alpha0 * mix 0.7 0.25 (smoothstep 0.3 0.8 prevCategoryValue)
                   else alpha0);
          newCategoryValue = alpha * categoryValue + (1 - alpha) * prevCategoryValue
      in (newCategoryValue, 0, 0, 0))"

text \<open>
  The full-screen quad: the position buffer holds the corners \<open>(-1,-1) (1,-1) (-1,1) (1,1)\<close>
  and the texture-coordinate buffer gives them \<open>(0,1) (1,1) (0,0) (1,0)\<close>. The fragment at
  the normalised framebuffer position \<open>(x, y)\<close> (origin bottom left) therefore receives
  \<^verbatim>\<open>v_texCoord\<close> \<open>= (x, 1 - y)\<close>.
\<close>

definition quadTexCoord :: "vec2 \<Rightarrow> vec2" where
  "quadTexCoord p = (fst p, 1 - snd p)"

definition drawQuad :: "(vec2 \<Rightarrow> vec4) \<Rightarrow> sampler2D" where
  \<comment> \<open>\<^verbatim>\<open>gl.drawArrays(gl.TRIANGLES, 0, 6)\<close> into a colour attachment: the image that the
      attachment holds afterwards, as a function of its texture coordinate.\<close>
  "drawQuad fragmentShader = (\<lambda>p. fragmentShader (quadTexCoord p))"

definition uniformTexture :: "real \<Rightarrow> sampler2D" where
  \<comment> \<open>a texture whose red channel is the same at every coordinate\<close>
  "uniformTexture v = (\<lambda>_. (v, 0, 0, 0))"

fun stateUpdatePasses ::
  "stateUpdateUniforms \<Rightarrow> (real \<times> real) list \<Rightarrow> sampler2D \<Rightarrow> sampler2D" where
  \<comment> \<open>consecutive state-update passes on spatially uniform model output: each list
      entry is the raw (category, confidence) of one frame, and the value that one pass
      computes is the previous state of the next, taken as the shader computes it.
      \<open>storedPasses\<close> below puts it into the mask texture first; the two agree as long
      as the masks stay within \<open>[0, 1]\<close>.\<close>
  "stateUpdatePasses U [] prevState = prevState"
| "stateUpdatePasses U ((category, confidence) # frames) prevState =
     stateUpdatePasses U frames
       (drawQuad (stateUpdate_main U (uniformTexture category) (uniformTexture confidence) prevState))"

definition maskAt :: "sampler2D \<Rightarrow> vec2 \<Rightarrow> real" where
  \<comment> \<open>the smoothed mask of the pixel whose \<^verbatim>\<open>v_texCoord\<close> is \<open>c\<close>, read from a state
      texture (the shaders address it with \<^verbatim>\<open>vec2(v_texCoord.x, 1.0 - v_texCoord.y)\<close>)\<close>
  "maskAt stateTexture c = red (stateTexture (fst c, 1 - snd c))"

subsection \<open>The stage as the specification words it\<close>

text \<open>
  The per-pixel rule of the state-update stage, written from the specification's
  steps 1 to 7 over plain numbers: the raw category and confidence of the pixel and the
  blurred previous mask value. It is compared with \<^const>\<open>stateUpdate_main\<close> below.
\<close>

definition spec_category :: "bool \<Rightarrow> real \<Rightarrow> real" where
  "spec_category polarity rawCategory =
     (let category = (if polarity then 1 - rawCategory else rawCategory)
      in if category > 0 then 1 else category)"

definition spec_confidence :: "bool \<Rightarrow> real \<Rightarrow> real \<Rightarrow> real" where
  "spec_confidence polarity rawCategory rawConfidence =
     (let category = (if polarity then 1 - rawCategory else rawCategory);
          confidence = (if polarity then 1 - rawConfidence else rawConfidence)
      in if category > 0 then 1 - confidence else confidence)"

definition spec_alphaBase :: "real \<Rightarrow> real \<Rightarrow> real \<Rightarrow> real \<Rightarrow> real" where
  "spec_alphaBase smoothing smoothstepMin smoothstepMax confidence =
     smoothing * smoothstep smoothstepMin smoothstepMax confidence"

definition spec_stickiness :: "real \<Rightarrow> real \<Rightarrow> real" where
  \<comment> \<open>the factor applied to alpha: the interpolation between 0.7 and 0.25 for a
      background pixel over a foreground history, and 1 otherwise\<close>
  "spec_stickiness category blurredPrevious =
     (if category < 0.5 \<and> blurredPrevious > 0.3
      then mix 0.7 0.25 (smoothstep 0.3 0.8 blurredPrevious) else 1)"

definition spec_newMask :: "real \<Rightarrow> real \<Rightarrow> real \<Rightarrow> real" where
  "spec_newMask alpha category blurredPrevious =
     alpha * category + (1 - alpha) * blurredPrevious"

definition spec_weight :: "int \<Rightarrow> int \<Rightarrow> real" where
  \<comment> \<open>centre 4, edge-adjacent 2, corner 1\<close>
  "spec_weight i j = (if i = 0 \<and> j = 0 then 4 else if i = 0 \<or> j = 0 then 2 else 1)"

definition spec_blurredPrevious :: "vec2 \<Rightarrow> real \<Rightarrow> (vec2 \<Rightarrow> real) \<Rightarrow> vec2 \<Rightarrow> real" where
  \<comment> \<open>the 3 by 3 weighted average of the previous mask around pixel \<open>c\<close>, the
      neighbours \<open>radius\<close> texels away (a texel is \<open>1 / resolution\<close>)\<close>
  "spec_blurredPrevious resolution radius previousMask c =
     (\<Sum>(i, j) \<leftarrow> [(i, j). i \<leftarrow> [-1, 0, 1], j \<leftarrow> [-1, 0, 1]].
        spec_weight i j *
        previousMask (fst c + of_int i * radius / fst resolution,
                      snd c + of_int j * radius / snd resolution)) / 16"

definition spec_pixel :: "stateUpdateUniforms \<Rightarrow> real \<Rightarrow> real \<Rightarrow> real \<Rightarrow> real" where
  \<comment> \<open>steps 1 to 7 for one pixel\<close>
  "spec_pixel U rawCategory rawConfidence blurredPrevious =
     (let polarity = (u_selfieModel U = 1);
          category = spec_category polarity rawCategory;
          confidence = spec_confidence polarity rawCategory rawConfidence;
          alpha = spec_alphaBase (u_smoothingFactor U) (u_smoothstepMin U) (u_smoothstepMax U) confidence
                  * spec_stickiness category blurredPrevious
      in spec_newMask alpha category blurredPrevious)"

fun spec_pixelRun :: "stateUpdateUniforms \<Rightarrow> (real \<times> real) list \<Rightarrow> real \<Rightarrow> real" where
  \<comment> \<open>the mask of one pixel after a sequence of frames, each the raw (category,
      confidence) of that pixel, on a spatially uniform history\<close>
  "spec_pixelRun U [] m = m"
| "spec_pixelRun U ((category, confidence) # frames) m =
     spec_pixelRun U frames (spec_pixel U category confidence m)"

definition defaultUniforms :: "vec2 \<Rightarrow> stateUpdateUniforms" where
  \<comment> \<open>the segmentation values of \<^verbatim>\<open>defaultConfig\<close> (smoothing 0.7, smoothstepMin 0.25,
      smoothstepMax 0.85, stateBlurRadius 6.0) with the polarity flag unset\<close>
  "defaultUniforms resolution =
     \<lparr>u_smoothingFactor = 0.7, u_smoothstepMin = 0.25, u_smoothstepMax = 0.85,
      u_selfieModel = 0, u_resolution = resolution, u_stateBlurRadius = 6\<rparr>"

section \<open>The blending fragment shader\<close>

record blendUniforms =
  u_bgImageDimensions :: vec2
  u_canvasDimensions :: vec2
  u_borderSmooth :: real
  u_bgBlur :: real
  u_bgBlurRadius :: real
  u_enabled :: int
  u_blendSpatialBlur :: real
  u_vbgSmoothstepMin :: real
  u_vbgSmoothstepMax :: real

definition PI :: real where
  \<comment> \<open>\<^verbatim>\<open>const float PI = 3.141592653589793;\<close>\<close>
  "PI = 3.141592653589793"

definition gaussianWeight :: "real \<Rightarrow> real \<Rightarrow> real" where
  "gaussianWeight offset sigma = exp (- (offset * offset) / (2 * sigma * sigma))"

definition getMixedFragColor ::
  "sampler2D \<Rightarrow> sampler2D \<Rightarrow> sampler2D \<Rightarrow> vec2 \<Rightarrow> vec2 \<Rightarrow> vec2 \<Rightarrow> vec2 \<Rightarrow> vec4" where
  \<comment> \<open>the three samplers and \<^verbatim>\<open>v_texCoord\<close>, which the GLSL function reads as globals,
      come first\<close>
  "getMixedFragColor frameTexture currentStateTexture backgroundTexture v_texCoord
       bgTexCoord categoryCoord offset =
     (let backgroundColor = backgroundTexture (vec2_add bgTexCoord offset);
          frameColor = frameTexture (vec2_add v_texCoord offset);
          categoryValue = red (currentStateTexture (vec2_add categoryCoord offset))
      in vec4_mix backgroundColor frameColor categoryValue)"

function blurColor_radii ::
  "sampler2D \<Rightarrow> sampler2D \<Rightarrow> sampler2D \<Rightarrow> vec2 \<Rightarrow> vec2 \<Rightarrow> real \<Rightarrow> real \<Rightarrow> bool \<Rightarrow> vec2 \<Rightarrow>
   int \<Rightarrow> vec4 \<times> real \<Rightarrow> vec4 \<times> real" where
  \<comment> \<open>the inner loop \<^verbatim>\<open>for (int i = -10; i <= 10; i++)\<close> of \<^verbatim>\<open>blurColor\<close>, on the pair
      (\<^verbatim>\<open>blurredColor\<close>, \<^verbatim>\<open>totalWeight\<close>)\<close>
  "blurColor_radii frameTexture currentStateTexture backgroundTexture v_texCoord texelSize
       blur radius mixed direction i acc =
     (if i \<le> 10 then
        (let categoryCoord = (fst v_texCoord, 1 - snd v_texCoord);
             offset = of_int i * (radius / 10);
             weight = gaussianWeight offset blur;
             v_offset = vec2_scale (vec2_mul direction texelSize) offset;
             sample = (if mixed
                       then getMixedFragColor frameTexture currentStateTexture backgroundTexture
                              v_texCoord v_texCoord categoryCoord v_offset
                       else frameTexture (vec2_add v_texCoord v_offset))
         in blurColor_radii frameTexture currentStateTexture backgroundTexture v_texCoord texelSize
              blur radius mixed direction (i + 1)
              (vec4_add (fst acc) (vec4_scale sample weight), snd acc + weight))
      else acc)"
  by pat_completeness auto
termination
  by (relation "measure (\<lambda>(f, s, b, v, t, bl, r, m, d, i, acc). nat (11 - i))") auto

function blurColor_angles ::
  "sampler2D \<Rightarrow> sampler2D \<Rightarrow> sampler2D \<Rightarrow> vec2 \<Rightarrow> vec2 \<Rightarrow> real \<Rightarrow> real \<Rightarrow> bool \<Rightarrow>
   real \<Rightarrow> vec4 \<times> real \<Rightarrow> vec4 \<times> real" where
  \<comment> \<open>the outer loop \<^verbatim>\<open>for (float angle = 0.0; angle <= 2.0 * PI; angle += PI / 12.0)\<close>\<close>
  "blurColor_angles frameTexture currentStateTexture backgroundTexture v_texCoord texelSize
       blur radius mixed angle acc =
     (if angle \<le> 2 * PI then
        (let direction = (cos angle, sin angle)
         in blurColor_angles frameTexture currentStateTexture backgroundTexture v_texCoord texelSize
              blur radius mixed (angle + PI / 12)
              (blurColor_radii frameTexture currentStateTexture backgroundTexture v_texCoord
                 texelSize blur radius mixed direction (- 10) acc))
      else acc)"
  by pat_completeness auto
termination
proof (relation "measure (\<lambda>(f, s, b, v, t, bl, r, m, angle, acc). nat (\<lfloor>(2 * PI - angle) * 12 / PI\<rfloor> + 1))")
  show "wf (measure (\<lambda>(f, s, b, v, t, bl, r, m, angle, acc). nat (\<lfloor>(2 * PI - angle) * 12 / PI\<rfloor> + 1)))"
    by simp
next
  fix angle :: real
  assume le: "angle \<le> 2 * PI"
  have pos: "0 < PI" by (simp add: PI_def)
  define x where "x = (2 * PI - angle) * 12 / PI"
  have step: "(2 * PI - (angle + PI / 12)) * 12 / PI = x - 1"
    unfolding x_def using pos by (simp add: field_simps)
  have "0 \<le> x" unfolding x_def using le pos by simp
  then have "0 \<le> \<lfloor>x\<rfloor>" by simp
  then have "nat (\<lfloor>x - 1\<rfloor> + 1) < nat (\<lfloor>x\<rfloor> + 1)" by simp
  then have key: "nat (\<lfloor>(2 * PI - (angle + PI / 12)) * 12 / PI\<rfloor> + 1)
                < nat (\<lfloor>(2 * PI - angle) * 12 / PI\<rfloor> + 1)"
    unfolding step unfolding x_def .
  show "\<And>f s b v t bl r m x acc.
       ((f, s, b, v, t, bl, r, m, angle + PI / 12, x), (f, s, b, v, t, bl, r, m, angle, acc))
       \<in> measure (\<lambda>(f, s, b, v, t, bl, r, m, angle, acc). nat (\<lfloor>(2 * PI - angle) * 12 / PI\<rfloor> + 1))"
    by (simp only: in_measure prod.case key)
qed

definition blurColor ::
  "blendUniforms \<Rightarrow> sampler2D \<Rightarrow> sampler2D \<Rightarrow> sampler2D \<Rightarrow> vec2 \<Rightarrow> real \<Rightarrow> real \<Rightarrow> bool \<Rightarrow> vec4" where
  "blurColor U frameTexture currentStateTexture backgroundTexture v_texCoord blur radius mixed =
     (let texelSize = vec2_recip (u_canvasDimensions U);
          acc = blurColor_angles frameTexture currentStateTexture backgroundTexture v_texCoord
                  texelSize blur radius mixed 0 ((0, 0, 0, 0), 0)
      in vec4_div (fst acc) (snd acc))"

definition blurredState :: "sampler2D \<Rightarrow> vec2 \<Rightarrow> real \<Rightarrow> vec2 \<Rightarrow> real" where
  \<comment> \<open>the nine weighted samples of \<^verbatim>\<open>u_currentStateTexture\<close> followed by
      \<^verbatim>\<open>categoryValue /= 16.0\<close>, which \<^verbatim>\<open>main\<close> spells out once in each mode\<close>
  "blurredState currentStateTexture categoryCoord s texelSize =
     (red (currentStateTexture (vec2_add categoryCoord (vec2_mul (- s, - s) texelSize))) * 1 +
      red (currentStateTexture (vec2_add categoryCoord (vec2_mul (0, - s) texelSize))) * 2 +
      red (currentStateTexture (vec2_add categoryCoord (vec2_mul (s, - s) texelSize))) * 1 +
      red (currentStateTexture (vec2_add categoryCoord (vec2_mul (- s, 0) texelSize))) * 2 +
      red (currentStateTexture categoryCoord) * 4 +
      red (currentStateTexture (vec2_add categoryCoord (vec2_mul (s, 0) texelSize))) * 2 +
      red (currentStateTexture (vec2_add categoryCoord (vec2_mul (- s, s) texelSize))) * 1 +
      red (currentStateTexture (vec2_add categoryCoord (vec2_mul (0, s) texelSize))) * 2 +
      red (currentStateTexture (vec2_add categoryCoord (vec2_mul (s, s) texelSize))) * 1) / 16"

definition bgTexCoord :: "blendUniforms \<Rightarrow> vec2 \<Rightarrow> vec2" where
  \<comment> \<open>the aspect-correcting coordinate of the virtual-background branch, from
      \<^verbatim>\<open>float canvasAspect\<close> to the assignment of \<^verbatim>\<open>bgTexCoord\<close>\<close>
  "bgTexCoord U v_texCoord =
     (let canvasAspect = fst (u_canvasDimensions U) / snd (u_canvasDimensions U);
          bgAspect = fst (u_bgImageDimensions U) / snd (u_bgImageDimensions U);
          scaleX = (if canvasAspect < bgAspect then bgAspect / canvasAspect else 1);
          scaleY = (if canvasAspect < bgAspect then 1 else canvasAspect / bgAspect);
          offsetX = (if canvasAspect < bgAspect then (1 - scaleX) / 2 else 0);
          offsetY = (if canvasAspect < bgAspect then 0 else (1 - scaleY) / 2)
      in ((fst v_texCoord - offsetX) / scaleX, (snd v_texCoord - offsetY) / scaleY))"

definition blend_main ::
  "blendUniforms \<Rightarrow> sampler2D \<Rightarrow> sampler2D \<Rightarrow> sampler2D \<Rightarrow> vec2 \<Rightarrow> vec4" where
  \<comment> \<open>\<^verbatim>\<open>main()\<close> of \<^verbatim>\<open>blendFragmentShaderSource\<close>: \<^verbatim>\<open>gl_FragColor\<close> for the fragment whose
      varying is \<^verbatim>\<open>v_texCoord\<close>\<close>
  "blend_main U frameTexture currentStateTexture backgroundTexture v_texCoord =
     (if u_enabled U = 0 then frameTexture v_texCoord
      else
        (let categoryCoord = (fst v_texCoord, 1 - snd v_texCoord);
             texelSize = vec2_recip (u_canvasDimensions U)
         in if u_bgBlur U > 0 \<and> u_bgBlurRadius U > 0 then
              (let s = u_blendSpatialBlur U;
                   categoryValue = blurredState currentStateTexture categoryCoord s texelSize;
                   softMask = smoothstep (0 + u_borderSmooth U * 0.3) (1 - u_borderSmooth U * 0.3)
                                categoryValue;
                   blurred = blurColor U frameTexture currentStateTexture backgroundTexture
                               v_texCoord (u_bgBlur U) (u_bgBlurRadius U) False;
                   sharp = frameTexture v_texCoord
               in vec4_mix blurred sharp softMask)
            else
              (let s = u_blendSpatialBlur U;
                   categoryValue = blurredState currentStateTexture categoryCoord s texelSize;
                   softMask = smoothstep (u_vbgSmoothstepMin U) (u_vbgSmoothstepMax U) categoryValue;
                   bgColor = backgroundTexture (bgTexCoord U v_texCoord);
                   fgColor = frameTexture v_texCoord
               in vec4_mix bgColor fgColor softMask)))"

section \<open>The WebGL context\<close>

text \<open>
  Of the WebGL2 context the model keeps what the renderer's texture traffic needs: the
  attributes it was created with, the texture objects with their size and image, the
  canvas' drawing buffer, a flag for a lost context and the list of texture calls made
  so far. On a lost context \<^verbatim>\<open>createTexture\<close> still returns an object, an invalidated
  one that is no texture of the context, and every other call does nothing. Binding
  (\<^verbatim>\<open>activeTexture\<close>, \<^verbatim>\<open>bindTexture\<close>, \<^verbatim>\<open>bindFramebuffer\<close>, \<^verbatim>\<open>uniform1i\<close> of a sampler)
  is folded into the arguments: a call names the texture that is bound when the source
  makes it. Programs, vertex buffers and the framebuffer object carry no data of their
  own here.
\<close>

record texture =
  tex_width :: nat
  tex_height :: nat
  tex_image :: sampler2D

datatype gl_call = CreateTexture nat | DeleteTexture nat | TexImage2D nat nat nat

record contextAttributes =
  attr_alpha :: bool
  attr_antialias :: bool
  attr_desynchronized :: bool
  attr_preserveDrawingBuffer :: bool

record gl_state =
  contextLost :: bool
  attributes :: contextAttributes
  textures :: "nat \<Rightarrow> texture option"
  nextTexture :: nat
  calls :: "gl_call list"
  drawingBuffer :: sampler2D

definition unboundSampler :: sampler2D where
  \<comment> \<open>what a sampler returns when no complete texture is bound to its unit\<close>
  "unboundSampler = (\<lambda>_. (0, 0, 0, 1))"

definition clearedBuffer :: sampler2D where
  "clearedBuffer = (\<lambda>_. (0, 0, 0, 0))"

fun clampColor :: "vec4 \<Rightarrow> vec4" where
  "clampColor (r, g, b, a) = (clamp r 0 1, clamp g 0 1, clamp b 0 1, clamp a 0 1)"

definition storedImage :: "sampler2D \<Rightarrow> sampler2D" where
  \<comment> \<open>the image that an RGBA \<^verbatim>\<open>UNSIGNED_BYTE\<close> colour attachment holds when a draw has
      produced \<open>img\<close>: the conversion to fixed point clamps every channel to \<open>[0, 1]\<close>\<close>
  "storedImage img = (\<lambda>p. clampColor (img p))"

fun opaqueColor :: "vec4 \<Rightarrow> vec4" where
  "opaqueColor (r, g, b, a) = (r, g, b, 1)"

definition canvasImage :: "contextAttributes \<Rightarrow> sampler2D \<Rightarrow> sampler2D" where
  \<comment> \<open>the image that the drawing buffer holds when a draw or a clear has produced
      \<open>img\<close>: a context created with \<^verbatim>\<open>alpha: false\<close> has no alpha channel and its
      pixels read as opaque\<close>
  "canvasImage attrs img =
     (if attr_alpha attrs then storedImage img else (\<lambda>p. opaqueColor (clampColor (img p))))"

definition alpha_channel :: "vec4 \<Rightarrow> real" where
  \<comment> \<open>the swizzle \<^verbatim>\<open>.a\<close>\<close>
  "alpha_channel c = snd (snd (snd c))"

definition gl_createTexture :: "gl_state \<Rightarrow> nat option \<times> gl_state" where
  \<comment> \<open>\<^verbatim>\<open>createTexture\<close> hands out a new texture object. On a lost context the object
      is invalidated: the context has no texture of that name. The \<^verbatim>\<open>null\<close> that the
      source tests for after the call is not returned.\<close>
  "gl_createTexture g =
     (if contextLost g then (Some (nextTexture g), g\<lparr>nextTexture := Suc (nextTexture g)\<rparr>)
      else (Some (nextTexture g),
            g\<lparr>textures := (textures g)(nextTexture g \<mapsto>
                   \<lparr>tex_width = 0, tex_height = 0, tex_image = unboundSampler\<rparr>),
              nextTexture := Suc (nextTexture g),
              calls := calls g @ [CreateTexture (nextTexture g)]\<rparr>))"

definition gl_deleteTexture :: "gl_state \<Rightarrow> nat option \<Rightarrow> gl_state" where
  "gl_deleteTexture g t =
     (case t of
        None \<Rightarrow> g
      | Some n \<Rightarrow>
          if contextLost g then g
          else g\<lparr>textures := (textures g)(n := None), calls := calls g @ [DeleteTexture n]\<rparr>)"

definition gl_texImage2D :: "gl_state \<Rightarrow> nat option \<Rightarrow> nat \<Rightarrow> nat \<Rightarrow> sampler2D \<Rightarrow> gl_state" where
  \<comment> \<open>\<^verbatim>\<open>texImage2D\<close> on the texture bound to \<^verbatim>\<open>TEXTURE_2D\<close>: it receives a new size and
      image. With no texture bound the call is a GL error and changes nothing.\<close>
  "gl_texImage2D g t w h pixels =
     (case t of
        None \<Rightarrow> g
      | Some n \<Rightarrow>
          if contextLost g \<or> textures g n = None then g
          else g\<lparr>textures := (textures g)(n \<mapsto> \<lparr>tex_width = w, tex_height = h, tex_image = pixels\<rparr>),
                 calls := calls g @ [TexImage2D n w h]\<rparr>)"

definition gl_texture2D :: "gl_state \<Rightarrow> nat option \<Rightarrow> sampler2D" where
  \<comment> \<open>the sampler a shader sees for the unit to which \<open>t\<close> is bound\<close>
  "gl_texture2D g t =
     (case t of
        None \<Rightarrow> unboundSampler
      | Some n \<Rightarrow> (case textures g n of None \<Rightarrow> unboundSampler | Some tx \<Rightarrow> tex_image tx))"

definition gl_drawToTexture :: "gl_state \<Rightarrow> nat option \<Rightarrow> (vec2 \<Rightarrow> vec4) \<Rightarrow> gl_state" where
  \<comment> \<open>\<^verbatim>\<open>drawArrays\<close> of the quad while the framebuffer object has the texture as its
      colour attachment: the attachment stores the fragment values converted to its
      format. A missing or zero-sized attachment leaves the framebuffer incomplete and
      the draw does nothing.\<close>
  "gl_drawToTexture g t fragmentShader =
     (case t of
        None \<Rightarrow> g
      | Some n \<Rightarrow>
          (case textures g n of
             None \<Rightarrow> g
           | Some tx \<Rightarrow>
               if contextLost g \<or> tex_width tx = 0 \<or> tex_height tx = 0 then g
               else g\<lparr>textures := (textures g)
                        (n \<mapsto> tx\<lparr>tex_image := storedImage (drawQuad fragmentShader)\<rparr>)\<rparr>))"

fun storedPasses ::
  "stateUpdateUniforms \<Rightarrow> (real \<times> real) list \<Rightarrow> sampler2D \<Rightarrow> sampler2D" where
  \<comment> \<open>consecutive state-update passes on spatially uniform model output, as the
      renderer chains them: what a pass draws is stored in the write texture, and the
      next pass reads that texture\<close>
  "storedPasses U [] prevState = prevState"
| "storedPasses U ((category, confidence) # frames) prevState =
     storedPasses U frames
       (storedImage (drawQuad (stateUpdate_main U (uniformTexture category)
                                 (uniformTexture confidence) prevState)))"

definition gl_drawToCanvas :: "gl_state \<Rightarrow> (vec2 \<Rightarrow> vec4) \<Rightarrow> gl_state" where
  \<comment> \<open>\<^verbatim>\<open>drawArrays\<close> of the quad into the default framebuffer\<close>
  "gl_drawToCanvas g fragmentShader =
     (if contextLost g then g
      else g\<lparr>drawingBuffer := canvasImage (attributes g) (drawQuad fragmentShader)\<rparr>)"

definition gl_clearCanvas :: "gl_state \<Rightarrow> gl_state" where
  \<comment> \<open>the drawing buffer after it has been cleared to transparent black, by
      \<^verbatim>\<open>clear\<close> with the clear colour \<open>(0, 0, 0, 0)\<close> or by a change of the canvas size\<close>
  "gl_clearCanvas g = g\<lparr>drawingBuffer := canvasImage (attributes g) clearedBuffer\<rparr>"

definition canvasPixel :: "gl_state \<Rightarrow> vec2 \<Rightarrow> vec4" where
  \<comment> \<open>the canvas pixel at image position \<open>q\<close> (origin top left, as in a video frame);
      the drawing buffer has its origin bottom left\<close>
  "canvasPixel g q = drawingBuffer g (fst q, 1 - snd q)"

definition uploads :: "gl_state \<Rightarrow> nat" where
  \<comment> \<open>the number of texture uploads made so far\<close>
  "uploads g = length (filter (\<lambda>c. case c of TexImage2D n w h \<Rightarrow> True | _ \<Rightarrow> False) (calls g))"

definition creations :: "gl_state \<Rightarrow> nat" where
  "creations g = length (filter (\<lambda>c. case c of CreateTexture n \<Rightarrow> True | _ \<Rightarrow> False) (calls g))"

section \<open>The renderer\<close>

datatype error = Error string | TypeError

datatype media = ImageBitmap nat nat sampler2D | ReadableStream nat

record BackgroundSource =
  source_type :: string
  source_media :: "media option"
  source_url :: string

text \<open>
  \<^verbatim>\<open>BackgroundSource\<close> has the fields \<^verbatim>\<open>type\<close>, \<^verbatim>\<open>media\<close> (optional) and \<^verbatim>\<open>url\<close>; its
  \<^verbatim>\<open>video\<close> and \<^verbatim>\<open>track\<close> are not read by the renderer. An \<^verbatim>\<open>ImageBitmap\<close> is its width,
  height and pixels; a \<^verbatim>\<open>ReadableStream\<close> is an identity. The pixels of an image, of a
  canvas and of a video frame are the RGBA values that \<^verbatim>\<open>texImage2D\<close> reads from it.
\<close>

datatype BackgroundRenderInfo =
    ImageInfo nat nat nat string
  | VideoInfo nat string nat texture
  | ColorInfo nat "nat \<times> nat \<times> nat \<times> nat"

text \<open>
  \<open>ImageInfo texture width height url\<close>, \<open>VideoInfo texture url media canvas\<close> and
  \<open>ColorInfo texture color\<close>. The \<^verbatim>\<open>OffscreenCanvas\<close> of a video background is held by
  value: its size and picture, which the stream's writer replaces between render
  calls.
\<close>

fun info_texture :: "BackgroundRenderInfo \<Rightarrow> nat" where
  "info_texture (ImageInfo t w h u) = t"
| "info_texture (VideoInfo t u m c) = t"
| "info_texture (ColorInfo t c) = t"

record VideoFrame =
  displayWidth :: nat
  displayHeight :: nat
  frame_pixels :: sampler2D

record renderOptions =
  smoothing :: real
  smoothstepMin :: real
  smoothstepMax :: real
  backgroundSource :: "BackgroundSource option"
  borderSmooth :: real
  bgBlur :: real
  bgBlurRadius :: real
  stateBlurRadius :: "real option"
  blendSpatialBlurBlur :: "real option"
  blendSpatialBlurVbg :: "real option"
  vbgSmoothstepMin :: "real option"
  vbgSmoothstepMax :: "real option"

record WebGLRenderer =
  gl :: gl_state
  canvas_width :: nat
  canvas_height :: nat
  blendUniformValues :: blendUniforms
  storedStateTextures :: "nat option list"
  running :: bool
  currentStateIndex :: nat
  backgroundRenderInfo :: "BackgroundRenderInfo option"
  activeBackgroundSourceIdentifier :: "string option"

definition DEFAULT_BG_COLOR :: "nat \<times> nat \<times> nat \<times> nat" where
  "DEFAULT_BG_COLOR = (33, 150, 243, 255)"

definition defaultColorIdentifier :: string where
  \<comment> \<open>the template literal \<^verbatim>\<open>color(${r},${g},${b},${a})\<close> at \<^verbatim>\<open>DEFAULT_BG_COLOR\<close>\<close>
  "defaultColorIdentifier = ''color(33,150,243,255)''"

definition pixelColor :: "nat \<times> nat \<times> nat \<times> nat \<Rightarrow> vec4" where
  \<comment> \<open>an \<^verbatim>\<open>UNSIGNED_BYTE\<close> RGBA pixel as the sampler returns it\<close>
  "pixelColor p =
     (case p of (r, g, b, a) \<Rightarrow> (real r / 255, real g / 255, real b / 255, real a / 255))"

definition element :: "'a option list \<Rightarrow> nat \<Rightarrow> 'a option" where
  \<comment> \<open>array indexing: \<^verbatim>\<open>undefined\<close> beyond the end\<close>
  "element xs i = (if i < length xs then xs ! i else None)"

definition orDefault :: "'a option \<Rightarrow> 'a \<Rightarrow> 'a" where
  \<comment> \<open>the operator \<^verbatim>\<open>??\<close>\<close>
  "orDefault v d = (case v of None \<Rightarrow> d | Some x \<Rightarrow> x)"

definition initialBlendUniforms :: blendUniforms where
  \<comment> \<open>uniforms of a freshly linked program are zero\<close>
  "initialBlendUniforms =
     \<lparr>u_bgImageDimensions = (0, 0), u_canvasDimensions = (0, 0), u_borderSmooth = 0, u_bgBlur = 0,
      u_bgBlurRadius = 0, u_enabled = 0, u_blendSpatialBlur = 0, u_vbgSmoothstepMin = 0,
      u_vbgSmoothstepMax = 0\<rparr>"

definition createStateTexture :: "gl_state \<Rightarrow> nat option \<times> gl_state" where
  \<comment> \<open>the callback of \<^verbatim>\<open>Array.from({ length: 2 }, ...)\<close> in the constructor: a 1 by 1
      texture holding the pixel \<open>[0, 0, 0, 255]\<close>\<close>
  "createStateTexture g =
     (let (tex, g1) = gl_createTexture g
      in (tex, gl_texImage2D g1 tex 1 1 (\<lambda>_. pixelColor (0, 0, 0, 255))))"

definition rendererContextAttributes :: contextAttributes where
  \<comment> \<open>the second argument of \<^verbatim>\<open>getContext\<close> in the constructor\<close>
  "rendererContextAttributes =
     \<lparr>attr_alpha = False, attr_antialias = False, attr_desynchronized = False,
      attr_preserveDrawingBuffer = True\<rparr>"

definition getContext :: "gl_state option \<Rightarrow> contextAttributes \<Rightarrow> gl_state option" where
  \<comment> \<open>\<^verbatim>\<open>canvas.getContext('webgl2', attributes)\<close>: \<open>canvasContext\<close> is the context that
      the canvas can provide, if any; it is created with the requested attributes and
      a cleared drawing buffer\<close>
  "getContext canvasContext attrs =
     (case canvasContext of
        None \<Rightarrow> None
      | Some g \<Rightarrow> Some (gl_clearCanvas (g\<lparr>attributes := attrs\<rparr>)))"

definition new_WebGLRenderer ::
  "nat \<Rightarrow> nat \<Rightarrow> gl_state option \<Rightarrow> bool \<Rightarrow> bool \<Rightarrow> error + WebGLRenderer" where
  \<comment> \<open>the constructor, for a canvas of the given size that can provide the context
      \<open>canvasContext\<close>; \<open>shadersCompile\<close> and \<open>programsLink\<close> tell whether the shaders
      compile and the two programs link. On a lost context \<^verbatim>\<open>createShader\<close> returns an
      invalidated object and \<^verbatim>\<open>getShaderParameter\<close> returns \<^verbatim>\<open>null\<close> for its compile
      status. \<^verbatim>\<open>createShader\<close> and \<^verbatim>\<open>createProgram\<close> do not return \<^verbatim>\<open>null\<close>.\<close>
  "new_WebGLRenderer width height canvasContext shadersCompile programsLink =
     (case getContext canvasContext rendererContextAttributes of
        None \<Rightarrow> Inl (Error ''WebGL2 not supported'')
      | Some g \<Rightarrow>
          if contextLost g \<or> \<not> shadersCompile then Inl (Error ''Failed to compile shader'')
          else if \<not> programsLink then Inl (Error ''Link fail'')
          else
            (let (tex0, g1) = createStateTexture g;
                 (tex1, g2) = createStateTexture g1
             in Inr \<lparr>gl = g2, canvas_width = width, canvas_height = height,
                     blendUniformValues = initialBlendUniforms,
                     storedStateTextures = [tex0, tex1],
                     running = True, currentStateIndex = 0,
                     backgroundRenderInfo = None,
                     activeBackgroundSourceIdentifier = None\<rparr>))"

definition freshContext :: gl_state where
  \<comment> \<open>the context of a canvas that has not been drawn to, with the default context
      attributes\<close>
  "freshContext =
     \<lparr>contextLost = False,
      attributes = \<lparr>attr_alpha = True, attr_antialias = True, attr_desynchronized = False,
                    attr_preserveDrawingBuffer = False\<rparr>,
      textures = (\<lambda>_. None), nextTexture = 0, calls = [],
      drawingBuffer = clearedBuffer\<rparr>"

definition createColorTexture ::
  "WebGLRenderer \<Rightarrow> nat \<times> nat \<times> nat \<times> nat \<Rightarrow>
   (error \<times> WebGLRenderer) + (nat \<times> (nat \<times> nat \<times> nat \<times> nat)) \<times> WebGLRenderer" where
  \<comment> \<open>the test \<^verbatim>\<open>if (!texture) throw\<close> is the branch for \<open>None\<close>, here and in the two
      functions that load a source\<close>
  "createColorTexture r color =
     (case gl_createTexture (gl r) of
        (None, g1) \<Rightarrow> Inl (Error ''Failed to create texture for color'', r\<lparr>gl := g1\<rparr>)
      | (Some texture, g1) \<Rightarrow>
          Inr ((texture, color), r\<lparr>gl := gl_texImage2D g1 (Some texture) 1 1 (\<lambda>_. pixelColor color)\<rparr>))"

definition useDefaultColor :: "WebGLRenderer \<Rightarrow> (error \<times> WebGLRenderer) + WebGLRenderer" where
  \<comment> \<open>the block that appears twice in \<^verbatim>\<open>updateBackgroundIfNeeded\<close>: create the colour
      texture for \<^verbatim>\<open>DEFAULT_BG_COLOR\<close>, store it as the render info and name it active\<close>
  "useDefaultColor r =
     (case createColorTexture r DEFAULT_BG_COLOR of
        Inl e \<Rightarrow> Inl e
      | Inr ((texture, color), r1) \<Rightarrow>
          Inr (r1\<lparr>backgroundRenderInfo := Some (ColorInfo texture color),
                  activeBackgroundSourceIdentifier := Some defaultColorIdentifier\<rparr>))"

definition loadImageSource :: "WebGLRenderer \<Rightarrow> BackgroundSource \<Rightarrow> (error \<times> WebGLRenderer) + WebGLRenderer" where
  \<comment> \<open>the branch \<^verbatim>\<open>newSource.type === 'image'\<close>. The cast takes \<^verbatim>\<open>media\<close> for an
      \<^verbatim>\<open>ImageBitmap\<close>; when it is absent or a stream, \<^verbatim>\<open>texImage2D\<close> and \<^verbatim>\<open>media.width\<close>
      raise a \<^verbatim>\<open>TypeError\<close>, after the texture has been created.\<close>
  "loadImageSource r newSource =
     (case gl_createTexture (gl r) of
        (None, g1) \<Rightarrow> Inl (Error ''Failed to create texture object for image.'', r\<lparr>gl := g1\<rparr>)
      | (Some texture, g1) \<Rightarrow>
          (case source_media newSource of
             Some (ImageBitmap w h pixels) \<Rightarrow>
               Inr (r\<lparr>gl := gl_texImage2D g1 (Some texture) w h pixels,
                      backgroundRenderInfo := Some (ImageInfo texture w h (source_url newSource))\<rparr>)
           | _ \<Rightarrow> Inl (TypeError, r\<lparr>gl := g1\<rparr>)))"

definition loadVideoSource :: "WebGLRenderer \<Rightarrow> BackgroundSource \<Rightarrow> (error \<times> WebGLRenderer) + WebGLRenderer" where
  \<comment> \<open>the branch \<^verbatim>\<open>newSource.type === 'video'\<close>. \<^verbatim>\<open>media.pipeTo(writer)\<close> raises a
      \<^verbatim>\<open>TypeError\<close> unless \<^verbatim>\<open>media\<close> is a stream. The new \<^verbatim>\<open>OffscreenCanvas(1, 1)\<close> starts
      transparent; the texture is allocated 1 by 1 without data.\<close>
  "loadVideoSource r newSource =
     (case source_media newSource of
        Some (ReadableStream stream) \<Rightarrow>
          (case gl_createTexture (gl r) of
             (None, g1) \<Rightarrow> Inl (Error ''Failed to create texture for video'', r\<lparr>gl := g1\<rparr>)
           | (Some texture, g1) \<Rightarrow>
               Inr (r\<lparr>gl := gl_texImage2D g1 (Some texture) 1 1 (\<lambda>_. (0, 0, 0, 0)),
                      backgroundRenderInfo :=
                        Some (VideoInfo texture (source_url newSource) stream
                                \<lparr>tex_width = 1, tex_height = 1, tex_image = (\<lambda>_. (0, 0, 0, 0))\<rparr>)\<rparr>))
      | _ \<Rightarrow> Inl (TypeError, r))"

definition sourceIdentifier :: "BackgroundSource option \<Rightarrow> string" where
  \<comment> \<open>\<^verbatim>\<open>newIdentifier\<close>\<close>
  "sourceIdentifier newSource =
     (case newSource of None \<Rightarrow> defaultColorIdentifier | Some src \<Rightarrow> source_url src)"

definition releaseBackground :: "WebGLRenderer \<Rightarrow> string \<Rightarrow> WebGLRenderer" where
  \<comment> \<open>after a miss: the texture of the current render info is deleted, the info is
      cleared and the new identifier is recorded as active\<close>
  "releaseBackground r newIdentifier =
     (let r1 = (case backgroundRenderInfo r of
                  Some info \<Rightarrow> r\<lparr>gl := gl_deleteTexture (gl r) (Some (info_texture info)),
                                 backgroundRenderInfo := None\<rparr>
                | None \<Rightarrow> r)
      in r1\<lparr>activeBackgroundSourceIdentifier := Some newIdentifier\<rparr>)"

definition loadSource :: "WebGLRenderer \<Rightarrow> BackgroundSource option \<Rightarrow> (error \<times> WebGLRenderer) + WebGLRenderer" where
  \<comment> \<open>the \<^verbatim>\<open>if (!newSource) ... else ...\<close> that builds the render info; a type tag other
      than \<^verbatim>\<open>'image'\<close> and \<^verbatim>\<open>'video'\<close> builds nothing\<close>
  "loadSource r newSource =
     (case newSource of
        None \<Rightarrow> useDefaultColor r
      | Some src \<Rightarrow>
          if source_type src = ''image'' then loadImageSource r src
          else if source_type src = ''video'' then loadVideoSource r src
          else Inr r)"

definition updateBackgroundIfNeeded ::
  "WebGLRenderer \<Rightarrow> BackgroundSource option \<Rightarrow> (error \<times> WebGLRenderer) + WebGLRenderer" where
  \<comment> \<open>a thrown error comes with the renderer as the throw leaves it\<close>
  "updateBackgroundIfNeeded r newSource =
     (let newIdentifier = sourceIdentifier newSource
      in if activeBackgroundSourceIdentifier r = Some newIdentifier \<and> backgroundRenderInfo r \<noteq> None
         then Inr r
         else
           (case loadSource (releaseBackground r newIdentifier) newSource of
              Inl e \<Rightarrow> Inl e
            | Inr r3 \<Rightarrow>
                if backgroundRenderInfo r3 = None then useDefaultColor r3 else Inr r3))"

definition stateUniformsOf :: "renderOptions \<Rightarrow> bool \<Rightarrow> nat \<Rightarrow> nat \<Rightarrow> stateUpdateUniforms" where
  \<comment> \<open>the \<^verbatim>\<open>gl.uniform\<close> calls on \<^verbatim>\<open>stateUpdateLocations\<close>\<close>
  "stateUniformsOf options useSelfieModel width height =
     \<lparr>u_smoothingFactor = smoothing options,
      u_smoothstepMin = smoothstepMin options,
      u_smoothstepMax = smoothstepMax options,
      u_selfieModel = (if useSelfieModel then 1 else 0),
      u_resolution = (real width, real height),
      u_stateBlurRadius = orDefault (stateBlurRadius options) 6\<rparr>"

definition blendUniformsOf :: "renderOptions \<Rightarrow> blendUniforms \<Rightarrow> blendUniforms" where
  \<comment> \<open>the \<^verbatim>\<open>gl.uniform\<close> calls on \<^verbatim>\<open>blendLocations\<close> that the blending pass makes before
      it looks at the background\<close>
  "blendUniformsOf options U =
     (let isBlurMode = (bgBlur options > 0 \<and> bgBlurRadius options > 0)
      in U\<lparr>u_borderSmooth := borderSmooth options,
           u_bgBlur := bgBlur options,
           u_bgBlurRadius := bgBlurRadius options,
           u_enabled := 1,
           u_blendSpatialBlur := (if isBlurMode then orDefault (blendSpatialBlurBlur options) 8
                                  else orDefault (blendSpatialBlurVbg options) 14),
           u_vbgSmoothstepMin := orDefault (vbgSmoothstepMin options) 0.4,
           u_vbgSmoothstepMax := orDefault (vbgSmoothstepMax options) 0.6\<rparr>)"

definition resizeCanvas :: "WebGLRenderer \<Rightarrow> nat \<Rightarrow> nat \<Rightarrow> WebGLRenderer" where
  \<comment> \<open>the test on \<^verbatim>\<open>this.canvas.width\<close> and \<^verbatim>\<open>this.canvas.height\<close> at the head of
      \<^verbatim>\<open>render\<close>; setting the size of a canvas clears its drawing buffer\<close>
  "resizeCanvas r width height =
     (if canvas_width r \<noteq> width \<or> canvas_height r \<noteq> height
      then r\<lparr>canvas_width := width, canvas_height := height, gl := gl_clearCanvas (gl r)\<rparr>
      else r)"

definition renderPassthrough :: "WebGLRenderer \<Rightarrow> VideoFrame \<Rightarrow> WebGLRenderer" where
  \<comment> \<open>the block under \<^verbatim>\<open>if (!categoryTexture || !confidenceTexture)\<close>. Only texture unit
      0 is given a texture; the other two samplers of the program get none.\<close>
  "renderPassthrough r videoFrame =
     (let (frameTexture, g1) = gl_createTexture (gl r);
          g2 = gl_texImage2D g1 frameTexture (displayWidth videoFrame) (displayHeight videoFrame)
                 (frame_pixels videoFrame);
          U = (blendUniformValues r)\<lparr>u_enabled := 0\<rparr>;
          g3 = gl_drawToCanvas g2
                 (blend_main U (gl_texture2D g2 frameTexture) unboundSampler unboundSampler);
          g4 = gl_deleteTexture g3 frameTexture
      in r\<lparr>gl := g4, blendUniformValues := U\<rparr>)"

definition stateUpdatePass ::
  "WebGLRenderer \<Rightarrow> VideoFrame \<Rightarrow> renderOptions \<Rightarrow> sampler2D \<Rightarrow> sampler2D \<Rightarrow> bool \<Rightarrow>
   nat option \<Rightarrow> nat option \<Rightarrow> gl_state" where
  \<comment> \<open>the block headed \<^verbatim>\<open>// State Update Pass\<close>: the write texture is attached to the
      framebuffer object, reallocated at the frame's size without data, and the quad
      is drawn with the state-update program reading the read texture\<close>
  "stateUpdatePass r videoFrame options categoryTexture confidenceTexture useSelfieModel
       prevStateTexture newStateTexture =
     (let width = displayWidth videoFrame;
          height = displayHeight videoFrame;
          g1 = gl_texImage2D (gl r) newStateTexture width height clearedBuffer
      in gl_drawToTexture g1 newStateTexture
           (stateUpdate_main (stateUniformsOf options useSelfieModel width height)
              categoryTexture confidenceTexture (gl_texture2D g1 prevStateTexture)))"

definition bindBackground ::
  "gl_state \<Rightarrow> BackgroundRenderInfo \<Rightarrow> gl_state \<times> nat \<times> nat" where
  \<comment> \<open>inside \<^verbatim>\<open>if (this.backgroundRenderInfo)\<close>: a video background uploads its canvas
      (two \<^verbatim>\<open>texImage2D\<close> calls); the result carries \<^verbatim>\<open>bgWidth\<close> and \<^verbatim>\<open>bgHeight\<close>\<close>
  "bindBackground g info =
     (case info of
        VideoInfo t u m canvas \<Rightarrow>
          (gl_texImage2D
             (gl_texImage2D g (Some t) (tex_width canvas) (tex_height canvas) clearedBuffer)
             (Some t) (tex_width canvas) (tex_height canvas) (tex_image canvas),
           tex_width canvas, tex_height canvas)
      | ImageInfo t w h u \<Rightarrow> (g, w, h)
      | ColorInfo t c \<Rightarrow> (g, 1, 1))"

definition blendingPass ::
  "WebGLRenderer \<Rightarrow> gl_state \<Rightarrow> VideoFrame \<Rightarrow> renderOptions \<Rightarrow> nat option \<Rightarrow> WebGLRenderer" where
  \<comment> \<open>the block headed \<^verbatim>\<open>// Blending Pass\<close> with the cleanup after it, started on the
      context as the state-update pass left it\<close>
  "blendingPass r g videoFrame options currentStateTexture =
     (let width = displayWidth videoFrame;
          height = displayHeight videoFrame;
          (frameTexture, g1) = gl_createTexture g;
          g2 = gl_texImage2D g1 frameTexture width height (frame_pixels videoFrame);
          U1 = blendUniformsOf options (blendUniformValues r);
          (g3, U2, backgroundTexture) =
            (case backgroundRenderInfo r of
               None \<Rightarrow> (g2, U1, None)
             | Some info \<Rightarrow>
                 (let (g', bgWidth, bgHeight) = bindBackground g2 info
                  in (g',
                      U1\<lparr>u_bgImageDimensions :=
                            (if bgWidth > 0 then real bgWidth else 1,
                             if bgHeight > 0 then real bgHeight else 1),
                         u_canvasDimensions := (real width, real height)\<rparr>,
                      Some (info_texture info))));
          g4 = gl_drawToCanvas g3
                 (blend_main U2 (gl_texture2D g3 frameTexture) (gl_texture2D g3 currentStateTexture)
                    (gl_texture2D g3 backgroundTexture));
          g5 = gl_deleteTexture g4 frameTexture
      in r\<lparr>gl := g5, blendUniformValues := U2\<rparr>)"

definition render ::
  "WebGLRenderer \<Rightarrow> VideoFrame \<Rightarrow> renderOptions \<Rightarrow> sampler2D option \<Rightarrow> sampler2D option \<Rightarrow> bool \<Rightarrow>
   (error \<times> WebGLRenderer) + WebGLRenderer" where
  \<comment> \<open>\<^verbatim>\<open>render(videoFrame, options, categoryTexture, confidenceTexture, useSelfieModel)\<close>;
      the two mask textures are given by the samplers they are bound to\<close>
  "render r videoFrame options categoryTexture confidenceTexture useSelfieModel =
     (if \<not> running r then Inr r
      else
        (let r0 = resizeCanvas r (displayWidth videoFrame) (displayHeight videoFrame)
         in case (categoryTexture, confidenceTexture) of
              (Some category, Some confidence) \<Rightarrow>
                (let readStateIndex = currentStateIndex r0;
                     writeStateIndex = (currentStateIndex r0 + 1) mod 2;
                     prevStateTexture = element (storedStateTextures r0) readStateIndex;
                     newStateTexture = element (storedStateTextures r0) writeStateIndex
                 in case updateBackgroundIfNeeded r0 (backgroundSource options) of
                      Inl e \<Rightarrow> Inl e
                    | Inr r1 \<Rightarrow>
                        (let g = stateUpdatePass r1 videoFrame options category confidence
                                   useSelfieModel prevStateTexture newStateTexture;
                             r2 = blendingPass r1 g videoFrame options newStateTexture
                         in Inr (r2\<lparr>currentStateIndex := writeStateIndex\<rparr>)))
            | _ \<Rightarrow> Inr (renderPassthrough r0 videoFrame)))"

definition close :: "WebGLRenderer \<Rightarrow> WebGLRenderer" where
  "close r =
     (if \<not> running r then r
      else
        (let g0 = (if contextLost (gl r) then gl r else gl_clearCanvas (gl r));
             g1 = fold (\<lambda>texture g. gl_deleteTexture g texture) (storedStateTextures r) g0;
             r1 = r\<lparr>running := False, gl := g1, storedStateTextures := []\<rparr>;
             r2 = (case backgroundRenderInfo r1 of
                     Some info \<Rightarrow> r1\<lparr>gl := gl_deleteTexture (gl r1) (Some (info_texture info)),
                                      backgroundRenderInfo := None\<rparr>
                   | None \<Rightarrow> r1)
         in r2\<lparr>activeBackgroundSourceIdentifier := None\<rparr>))"

definition videoFrameWritten :: "WebGLRenderer \<Rightarrow> nat \<Rightarrow> nat \<Rightarrow> sampler2D \<Rightarrow> WebGLRenderer" where
  \<comment> \<open>the \<^verbatim>\<open>write\<close> callback of the stream writer of the active video background: the
      canvas takes the coded size of the frame and its picture\<close>
  "videoFrameWritten r codedWidth codedHeight pixels =
     (case backgroundRenderInfo r of
        Some (VideoInfo t u m canvas) \<Rightarrow>
          r\<lparr>backgroundRenderInfo :=
              Some (VideoInfo t u m \<lparr>tex_width = codedWidth, tex_height = codedHeight, tex_image = pixels\<rparr>)\<rparr>
      | _ \<Rightarrow> r)"

definition loseContext :: "WebGLRenderer \<Rightarrow> WebGLRenderer" where
  \<comment> \<open>the browser takes the context away\<close>
  "loseContext r = r\<lparr>gl := (gl r)\<lparr>contextLost := True\<rparr>\<rparr>"

inductive reachable :: "WebGLRenderer \<Rightarrow> bool" where
  constructed: "new_WebGLRenderer width height (Some freshContext) shadersCompile programsLink = Inr r
     \<Longrightarrow> reachable r"
| rendered: "reachable r \<Longrightarrow> render r videoFrame options categoryTexture confidenceTexture useSelfieModel = Inr r'
     \<Longrightarrow> reachable r'"
| render_threw: "reachable r \<Longrightarrow> render r videoFrame options categoryTexture confidenceTexture useSelfieModel = Inl (e, r')
     \<Longrightarrow> reachable r'"
| closed: "reachable r \<Longrightarrow> reachable (close r)"
| frame_decoded: "reachable r \<Longrightarrow> reachable (videoFrameWritten r codedWidth codedHeight pixels)"
| context_lost: "reachable r \<Longrightarrow> reachable (loseContext r)"

subsection \<open>Well-formed renderer states\<close>

definition stateAfter :: "(error \<times> WebGLRenderer) + WebGLRenderer \<Rightarrow> WebGLRenderer" where
  \<comment> \<open>the renderer after a call, whether it returned or threw\<close>
  "stateAfter outcome = (case outcome of Inl (e, r) \<Rightarrow> r | Inr r \<Rightarrow> r)"

definition sameButTextures :: "WebGLRenderer \<Rightarrow> WebGLRenderer \<Rightarrow> bool" where
  \<comment> \<open>a step that leaves the renderer's own fields alone and only allocates textures\<close>
  "sameButTextures r r' =
     (running r' = running r \<and> currentStateIndex r' = currentStateIndex r \<and>
      storedStateTextures r' = storedStateTextures r \<and>
      canvas_width r' = canvas_width r \<and> canvas_height r' = canvas_height r \<and>
      contextLost (gl r') = contextLost (gl r) \<and>
      attributes (gl r') = attributes (gl r) \<and>
      nextTexture (gl r) \<le> nextTexture (gl r'))"

definition stateTexturesLive :: "WebGLRenderer \<Rightarrow> bool" where
  \<comment> \<open>the two ping-pong textures are two different texture objects of the context\<close>
  "stateTexturesLive r =
     (\<exists>a b. storedStateTextures r = [Some a, Some b] \<and> a \<noteq> b \<and>
            textures (gl r) a \<noteq> None \<and> textures (gl r) b \<noteq> None)"

definition storedBelow :: "WebGLRenderer \<Rightarrow> bool" where
  \<comment> \<open>every stored texture name has been handed out by the context\<close>
  "storedBelow r = (\<forall>n. Some n \<in> set (storedStateTextures r) \<longrightarrow> n < nextTexture (gl r))"

definition backgroundApart :: "WebGLRenderer \<Rightarrow> bool" where
  \<comment> \<open>the background texture is none of the ping-pong textures\<close>
  "backgroundApart r =
     (\<forall>info. backgroundRenderInfo r = Some info \<longrightarrow>
        info_texture info < nextTexture (gl r) \<and>
        Some (info_texture info) \<notin> set (storedStateTextures r))"

definition wellFormed :: "WebGLRenderer \<Rightarrow> bool" where
  "wellFormed r =
     (currentStateIndex r < 2 \<and> storedBelow r \<and> backgroundApart r \<and>
      (running r \<longrightarrow> stateTexturesLive r) \<and>
      attributes (gl r) = rendererContextAttributes)"

definition wellTypedSource :: "BackgroundSource option \<Rightarrow> bool" where
  \<comment> \<open>the casts of \<^verbatim>\<open>updateBackgroundIfNeeded\<close> hold: an image source carries an
      \<^verbatim>\<open>ImageBitmap\<close>, a video source a stream\<close>
  "wellTypedSource newSource =
     (case newSource of
        None \<Rightarrow> True
      | Some src \<Rightarrow>
          if source_type src = ''image''
          then (case source_media src of Some (ImageBitmap w h pixels) \<Rightarrow> True | _ \<Rightarrow> False)
          else if source_type src = ''video''
          then (case source_media src of Some (ReadableStream stream) \<Rightarrow> True | _ \<Rightarrow> False)
          else True)"

definition supportedSource :: "BackgroundSource option \<Rightarrow> bool" where
  \<comment> \<open>no source, an image with its bitmap, or a video with its stream\<close>
  "supportedSource newSource =
     (case newSource of
        None \<Rightarrow> True
      | Some src \<Rightarrow>
          if source_type src = ''image''
          then (case source_media src of Some (ImageBitmap w h pixels) \<Rightarrow> True | _ \<Rightarrow> False)
          else if source_type src = ''video''
          then (case source_media src of Some (ReadableStream stream) \<Rightarrow> True | _ \<Rightarrow> False)
          else False)"

definition defaultColorRequest :: "BackgroundSource option \<Rightarrow> bool" where
  \<comment> \<open>a request for which the code builds the default colour: no source, or a type
      tag that is neither \<^verbatim>\<open>'image'\<close> nor \<^verbatim>\<open>'video'\<close>\<close>
  "defaultColorRequest newSource =
     (case newSource of
        None \<Rightarrow> True
      | Some src \<Rightarrow> source_type src \<noteq> ''image'' \<and> source_type src \<noteq> ''video'')"

definition cacheHit :: "WebGLRenderer \<Rightarrow> BackgroundSource option \<Rightarrow> bool" where
  \<comment> \<open>the test \<^verbatim>\<open>newIdentifier === this.activeBackgroundSourceIdentifier &&
      this.backgroundRenderInfo\<close>\<close>
  "cacheHit r newSource =
     (activeBackgroundSourceIdentifier r = Some (sourceIdentifier newSource) \<and>
      backgroundRenderInfo r \<noteq> None)"

definition constructedRenderer :: "nat \<Rightarrow> nat \<Rightarrow> WebGLRenderer" where
  \<comment> \<open>the renderer that the constructor returns for a canvas of this size on a fresh
      context whose shaders compile and whose programs link\<close>
  "constructedRenderer width height =
     projr (new_WebGLRenderer width height (Some freshContext) True True)"


definition backgroundBound :: "WebGLRenderer \<Rightarrow> gl_state \<Rightarrow> gl_state" where
  \<comment> \<open>the context after the background branch of the blending pass\<close>
  "backgroundBound r g =
     (case backgroundRenderInfo r of None \<Rightarrow> g | Some info \<Rightarrow> fst (bindBackground g info))"

definition textureSize :: "gl_state \<Rightarrow> nat \<Rightarrow> (nat \<times> nat) option" where
  "textureSize g n =
     (case textures g n of None \<Rightarrow> None | Some tx \<Rightarrow> Some (tex_width tx, tex_height tx))"

definition currentMask :: "WebGLRenderer \<Rightarrow> vec2 \<Rightarrow> real" where
  \<comment> \<open>the smoothed mask of a pixel as the renderer holds it: read from the mask
      texture that \<^verbatim>\<open>currentStateIndex\<close> names\<close>
  "currentMask r c =
     maskAt (gl_texture2D (gl r) (element (storedStateTextures r) (currentStateIndex r))) c"

primrec renderRepeatedly ::
  "nat \<Rightarrow> WebGLRenderer \<Rightarrow> VideoFrame \<Rightarrow> renderOptions \<Rightarrow> sampler2D option \<Rightarrow> sampler2D option \<Rightarrow>
   bool \<Rightarrow> WebGLRenderer" where
  \<comment> \<open>the renderer after that many consecutive calls of \<^verbatim>\<open>render\<close> with the same
      arguments\<close>
  "renderRepeatedly 0 r videoFrame options categoryTexture confidenceTexture useSelfieModel = r"
| "renderRepeatedly (Suc k) r videoFrame options categoryTexture confidenceTexture useSelfieModel =
     stateAfter (render (renderRepeatedly k r videoFrame options categoryTexture confidenceTexture
                           useSelfieModel)
                   videoFrame options categoryTexture confidenceTexture useSelfieModel)"

fun opaquePixel :: "vec4 \<Rightarrow> bool" where
  \<comment> \<open>an RGBA value with channels in \<open>[0, 1]\<close> and full alpha\<close>
  "opaquePixel (r, g, b, a) = (0 \<le> r \<and> r \<le> 1 \<and> 0 \<le> g \<and> g \<le> 1 \<and> 0 \<le> b \<and> b \<le> 1 \<and> a = 1)"

subsection \<open>Sample inputs\<close>

definition defaultOptions :: renderOptions where
  \<comment> \<open>the render options that \<^verbatim>\<open>defaultConfig\<close> gives in virtual-background mode, with no
      background source\<close>
  "defaultOptions =
     \<lparr>smoothing = 0.7, smoothstepMin = 0.25, smoothstepMax = 0.85, backgroundSource = None,
      borderSmooth = 0.6, bgBlur = 0, bgBlurRadius = 30, stateBlurRadius = Some 6,
      blendSpatialBlurBlur = Some 8, blendSpatialBlurVbg = Some 14,
      vbgSmoothstepMin = Some 0.4, vbgSmoothstepMax = Some 0.6\<rparr>"

definition solidFrame :: "nat \<Rightarrow> nat \<Rightarrow> vec4 \<Rightarrow> VideoFrame" where
  \<comment> \<open>a video frame of the given display size with the same RGBA value throughout\<close>
  "solidFrame width height colour =
     \<lparr>displayWidth = width, displayHeight = height, frame_pixels = (\<lambda>_. colour)\<rparr>"

definition greyFrame :: "nat \<Rightarrow> nat \<Rightarrow> VideoFrame" where
  \<comment> \<open>a video frame of the given display size, mid grey throughout\<close>
  "greyFrame width height =
     \<lparr>displayWidth = width, displayHeight = height,
      frame_pixels = (\<lambda>_. (1 / 2, 1 / 2, 1 / 2, 1))\<rparr>"

section \<open>Properties of the built-ins\<close>

lemma clamp01_range: "0 \<le> clamp x 0 1 \<and> clamp x 0 1 \<le> 1"
  by (simp add: clamp_def)

lemma clamp01_id: "0 \<le> x \<Longrightarrow> x \<le> 1 \<Longrightarrow> clamp x 0 1 = x"
  by (simp add: clamp_def)

lemma clampColor_range:
  "0 \<le> red (clampColor v) \<and> red (clampColor v) \<le> 1"
  by (cases v) (simp add: red_def clamp_def)

lemma clampColor_red: "red (clampColor v) = clamp (red v) 0 1"
  by (cases v) (simp add: red_def)

lemma clampColor_opaque: "opaquePixel v \<Longrightarrow> opaqueColor (clampColor v) = v"
  by (cases v) (simp add: clamp_def)

lemma opaqueColor_alpha: "alpha_channel (opaqueColor v) = 1"
  by (cases v) (simp add: alpha_channel_def)

lemma hermite_range:
  fixes t :: real
  assumes "0 \<le> t" "t \<le> 1"
  shows "0 \<le> t * t * (3 - 2 * t) \<and> t * t * (3 - 2 * t) \<le> 1"
proof
  show "0 \<le> t * t * (3 - 2 * t)" using assms by simp
  have "1 - t * t * (3 - 2 * t) = (1 - t) * (1 - t) * (1 + 2 * t)" by algebra
  moreover have "0 \<le> (1 - t) * (1 - t) * (1 + 2 * t)" using assms by simp
  ultimately show "t * t * (3 - 2 * t) \<le> 1" by linarith
qed

lemma smoothstep_range: "0 \<le> smoothstep e0 e1 x \<and> smoothstep e0 e1 x \<le> 1"
proof (cases "e1 = e0")
  case True
  then show ?thesis by (simp add: smoothstep_def)
next
  case False
  then show ?thesis
    unfolding smoothstep_def Let_def
    using hermite_range [OF conjunct1 [OF clamp01_range] conjunct2 [OF clamp01_range]]
    by simp
qed

lemma mix_sticky_range:
  assumes "0 \<le> s" "s \<le> 1"
  shows "0.25 \<le> mix 0.7 0.25 s \<and> mix 0.7 0.25 s \<le> 0.7"
  unfolding mix_def using assms by (simp add: field_simps)

lemma kernel9_range:
  fixes a b c d e f g h i :: real
  assumes "0 \<le> a \<and> a \<le> 1" "0 \<le> b \<and> b \<le> 1" "0 \<le> c \<and> c \<le> 1"
    "0 \<le> d \<and> d \<le> 1" "0 \<le> e \<and> e \<le> 1" "0 \<le> f \<and> f \<le> 1"
    "0 \<le> g \<and> g \<le> 1" "0 \<le> h \<and> h \<le> 1" "0 \<le> i \<and> i \<le> 1"
  shows "0 \<le> (a * 1 + b * 2 + c * 1 + d * 2 + e * 4 + f * 2 + g * 1 + h * 2 + i * 1) / 16
       \<and> (a * 1 + b * 2 + c * 1 + d * 2 + e * 4 + f * 2 + g * 1 + h * 2 + i * 1) / 16 \<le> 1"
proof
  show "0 \<le> (a * 1 + b * 2 + c * 1 + d * 2 + e * 4 + f * 2 + g * 1 + h * 2 + i * 1) / 16"
    using assms by simp
  have "a * 1 + b * 2 + c * 1 + d * 2 + e * 4 + f * 2 + g * 1 + h * 2 + i * 1 \<le> 16"
    using assms by linarith
  then show "(a * 1 + b * 2 + c * 1 + d * 2 + e * 4 + f * 2 + g * 1 + h * 2 + i * 1) / 16 \<le> 1"
    by simp
qed

lemma sampleBlurred_range:
  assumes "\<And>p. 0 \<le> red (tex p) \<and> red (tex p) \<le> 1"
  shows "0 \<le> sampleBlurred res tex c r \<and> sampleBlurred res tex c r \<le> 1"
  unfolding sampleBlurred_def Let_def by (rule kernel9_range) (rule assms)+

lemma convex_range:
  fixes a x y :: real
  assumes "0 \<le> a" "a \<le> 1" "0 \<le> x" "x \<le> 1" "0 \<le> y" "y \<le> 1"
  shows "0 \<le> a * x + (1 - a) * y \<and> a * x + (1 - a) * y \<le> 1"
proof
  show "0 \<le> a * x + (1 - a) * y" using assms by simp
  have "a * x \<le> a * 1" using assms by (intro mult_left_mono) auto
  moreover have "(1 - a) * y \<le> (1 - a) * 1" using assms by (intro mult_left_mono) auto
  ultimately show "a * x + (1 - a) * y \<le> 1" by simp
qed

lemma stateUpdate_main_range:
  assumes sm: "0 \<le> u_smoothingFactor U" "u_smoothingFactor U \<le> 1"
    and cat: "0 \<le> red (categoryTexture c)" "red (categoryTexture c) \<le> 1"
    and prev: "\<And>p. 0 \<le> red (prevStateTexture p) \<and> red (prevStateTexture p) \<le> 1"
  shows "0 \<le> red (stateUpdate_main U categoryTexture confidenceTexture prevStateTexture c)
       \<and> red (stateUpdate_main U categoryTexture confidenceTexture prevStateTexture c) \<le> 1"
proof -
  define c1 where "c1 = (if u_selfieModel U = 1 then 1 - red (categoryTexture c) else red (categoryTexture c))"
  define f1 where "f1 = (if u_selfieModel U = 1 then 1 - red (confidenceTexture c) else red (confidenceTexture c))"
  define cv where "cv = (if c1 > 0 then 1 else c1)"
  define fv where "fv = (if c1 > 0 then 1 - f1 else f1)"
  define nl where "nl = smoothstep (u_smoothstepMin U) (u_smoothstepMax U) fv"
  define pv where "pv = sampleBlurred (u_resolution U) prevStateTexture (fst c, 1 - snd c) (u_stateBlurRadius U)"
  define a0 where "a0 = u_smoothingFactor U * nl"
  define k where "k = mix 0.7 0.25 (smoothstep 0.3 0.8 pv)"
  define al where "al = (if cv < 0.5 \<and> pv > 0.3 then a0 * k else a0)"
  have out: "red (stateUpdate_main U categoryTexture confidenceTexture prevStateTexture c) = al * cv + (1 - al) * pv"
    by (simp add: stateUpdate_main_def Let_def red_def c1_def f1_def cv_def fv_def nl_def pv_def a0_def k_def al_def)
  have c1r: "0 \<le> c1 \<and> c1 \<le> 1" using cat by (simp add: c1_def)
  have cvr: "0 \<le> cv \<and> cv \<le> 1" using c1r by (simp add: cv_def)
  have nlr: "0 \<le> nl \<and> nl \<le> 1" unfolding nl_def by (rule smoothstep_range)
  have pvr: "0 \<le> pv \<and> pv \<le> 1" unfolding pv_def by (rule sampleBlurred_range) (rule prev)
  have a0r: "0 \<le> a0 \<and> a0 \<le> 1"
    unfolding a0_def using sm nlr by (simp add: mult_le_one)
  have kr: "0 \<le> k \<and> k \<le> 1"
    using mix_sticky_range [of "smoothstep 0.3 0.8 pv"] smoothstep_range [of "0.3" "0.8" pv]
    unfolding k_def by simp
  have alr: "0 \<le> al \<and> al \<le> 1"
    unfolding al_def using a0r kr by (simp add: mult_le_one)
  show ?thesis unfolding out using convex_range alr cvr pvr by blast
qed


section \<open>The state-update shader computes the specified rule\<close>

lemma sampleBlurred_uniform:
  assumes "\<And>p. red (tex p) = m"
  shows "sampleBlurred res tex c r = m"
  by (simp add: sampleBlurred_def Let_def assms)

lemma sampleBlurred_spec:
  "sampleBlurred res tex (fst c, 1 - snd c) r = spec_blurredPrevious res r (maskAt tex) c"
  by (simp add: sampleBlurred_def spec_blurredPrevious_def spec_weight_def maskAt_def Let_def
      vec2_add_def vec2_mul_def vec2_recip_def algebra_simps)

lemma stateUpdate_main_spec:
  "stateUpdate_main U categoryTexture confidenceTexture prevStateTexture c =
     (spec_pixel U (red (categoryTexture c)) (red (confidenceTexture c))
        (sampleBlurred (u_resolution U) prevStateTexture (fst c, 1 - snd c) (u_stateBlurRadius U)), 0, 0, 0)"
  by (simp add: stateUpdate_main_def spec_pixel_def spec_category_def spec_confidence_def
      spec_alphaBase_def spec_stickiness_def spec_newMask_def Let_def)

lemma pass_uniform:
  assumes "\<And>p. red (prevState p) = m"
  shows "red (drawQuad (stateUpdate_main U (uniformTexture category) (uniformTexture confidence) prevState) p)
       = spec_pixel U category confidence m"
  by (simp add: drawQuad_def stateUpdate_main_spec red_def [of "(_, _)"] uniformTexture_def
      sampleBlurred_uniform [OF assms])

lemma maskAt_drawQuad: "maskAt (drawQuad sh) c = red (sh c)"
  by (simp add: maskAt_def drawQuad_def quadTexCoord_def)

lemma maskAt_stored: "maskAt (storedImage (drawQuad sh)) c = clamp (red (sh c)) 0 1"
  by (simp add: maskAt_def storedImage_def drawQuad_def quadTexCoord_def clampColor_red)

lemma stored_uniform:
  assumes "\<And>p. red (prevState p) = m"
  shows "red (storedImage (drawQuad (stateUpdate_main U (uniformTexture category)
                (uniformTexture confidence) prevState)) p)
       = clamp (spec_pixel U category confidence m) 0 1"
  by (simp add: storedImage_def clampColor_red pass_uniform [OF assms])

lemma passes_uniform:
  "(\<And>p. red (prevState p) = m) \<Longrightarrow> red (stateUpdatePasses U frames prevState p) = spec_pixelRun U frames m"
proof (induction frames arbitrary: prevState m p)
  case Nil
  then show ?case by simp
next
  case (Cons f frames)
  obtain category confidence where f: "f = (category, confidence)" by (cases f)
  have "\<And>q. red (drawQuad (stateUpdate_main U (uniformTexture category) (uniformTexture confidence) prevState) q)
       = spec_pixel U category confidence m"
    by (rule pass_uniform) (rule Cons.prems)
  from Cons.IH [OF this] show ?case by (simp add: f)
qed

lemma default_fg_step:
  assumes "u_smoothingFactor U = 0.7" "u_smoothstepMin U = 0.25" "u_smoothstepMax U = 0.85"
    "u_selfieModel U \<noteq> 1"
  shows "spec_pixel U 1 0 m = 0.7 + 0.3 * m"
  using assms
  by (simp add: spec_pixel_def spec_category_def spec_confidence_def spec_alphaBase_def
      spec_stickiness_def spec_newMask_def Let_def smoothstep_def clamp_def field_simps)

lemma default_fg_stuck:
  assumes "u_smoothingFactor U = 0.7" "u_smoothstepMin U = 0.25" "u_smoothstepMax U = 0.85"
    "u_selfieModel U \<noteq> 1"
  shows "spec_pixel U 1 1 m = m"
  using assms
  by (simp add: spec_pixel_def spec_category_def spec_confidence_def spec_alphaBase_def
      spec_stickiness_def spec_newMask_def Let_def smoothstep_def clamp_def field_simps)

lemma default_fg_run:
  assumes "u_smoothingFactor U = 0.7" "u_smoothstepMin U = 0.25" "u_smoothstepMax U = 0.85"
    "u_selfieModel U \<noteq> 1"
  shows "spec_pixelRun U (replicate k (1, 0)) m = 1 - (1 - m) * 0.3 ^ k"
proof (induction k arbitrary: m)
  case 0
  then show ?case by simp
next
  case (Suc k)
  show ?case by (simp add: default_fg_step [OF assms] Suc.IH field_simps)
qed

lemma default_fg_stuck_run:
  assumes "u_smoothingFactor U = 0.7" "u_smoothstepMin U = 0.25" "u_smoothstepMax U = 0.85"
    "u_selfieModel U \<noteq> 1"
  shows "spec_pixelRun U (replicate k (1, 1)) m = m"
  by (induction k arbitrary: m) (simp_all add: default_fg_stuck [OF assms])


lemma stickiness_range: "0 \<le> spec_stickiness category bp \<and> spec_stickiness category bp \<le> 1"
proof -
  have "0 \<le> smoothstep 0.3 0.8 bp \<and> smoothstep 0.3 0.8 bp \<le> 1" by (rule smoothstep_range)
  then have "0.25 \<le> mix 0.7 0.25 (smoothstep 0.3 0.8 bp) \<and> mix 0.7 0.25 (smoothstep 0.3 0.8 bp) \<le> 0.7"
    using mix_sticky_range by blast
  then show ?thesis by (simp add: spec_stickiness_def)
qed

lemma bg_step:
  assumes "spec_category (u_selfieModel U = 1) cb = 0"
    and "spec_alphaBase (u_smoothingFactor U) (u_smoothstepMin U) (u_smoothstepMax U)
           (spec_confidence (u_selfieModel U = 1) cb fb) = a"
  shows "spec_pixel U cb fb m = (1 - a * spec_stickiness 0 m) * m"
  using assms by (simp add: spec_pixel_def Let_def spec_newMask_def)

lemma fg_step:
  assumes "spec_category (u_selfieModel U = 1) cp = 1"
    and "spec_alphaBase (u_smoothingFactor U) (u_smoothstepMin U) (u_smoothstepMax U)
           (spec_confidence (u_selfieModel U = 1) cp fp) = a"
  shows "spec_pixel U cp fp q = a + (1 - a) * q"
  using assms by (simp add: spec_pixel_def Let_def spec_newMask_def spec_stickiness_def)

lemma sticky_alpha_le:
  assumes "0 \<le> a"
  shows "0 \<le> a * spec_stickiness category bp \<and> a * spec_stickiness category bp \<le> a"
  using assms stickiness_range [of category bp]
  by (simp add: mult_left_le)

lemma spec_pixelRun_snoc:
  "spec_pixelRun U (frames @ [(category, confidence)]) m
     = spec_pixel U category confidence (spec_pixelRun U frames m)"
  by (induction frames arbitrary: m) auto

lemma spec_pixelRun_Suc:
  "spec_pixelRun U (replicate (Suc k) (category, confidence)) m
     = spec_pixel U category confidence (spec_pixelRun U (replicate k (category, confidence)) m)"
proof -
  have "replicate (Suc k) (category, confidence) = replicate k (category, confidence) @ [(category, confidence)]"
    by (simp add: replicate_append_same)
  then show ?thesis by (simp only: spec_pixelRun_snoc)
qed

lemma bg_run_bounds:
  assumes bg: "spec_category (u_selfieModel U = 1) cb = 0"
    and ab: "spec_alphaBase (u_smoothingFactor U) (u_smoothstepMin U) (u_smoothstepMax U)
           (spec_confidence (u_selfieModel U = 1) cb fb) = a"
    and a: "0 \<le> a" "a \<le> 1"
    and m: "0 \<le> m"
  shows "(1 - a) ^ k * m \<le> spec_pixelRun U (replicate k (cb, fb)) m"
proof (induction k)
  case 0
  then show ?case by simp
next
  case (Suc k)
  define x where "x = spec_pixelRun U (replicate k (cb, fb)) m"
  define al where "al = a * spec_stickiness 0 x"
  have alr: "0 \<le> al" "al \<le> a" using sticky_alpha_le [OF a(1)] by (simp_all add: al_def)
  have x0: "0 \<le> x"
  proof -
    have "0 \<le> (1 - a) ^ k * m" using a m by simp
    then show ?thesis using Suc.IH unfolding x_def by linarith
  qed
  have "(1 - a) ^ Suc k * m = (1 - a) * ((1 - a) ^ k * m)" by simp
  also have "\<dots> \<le> (1 - a) * x" using Suc.IH a unfolding x_def by (intro mult_left_mono) auto
  also have "\<dots> \<le> (1 - al) * x" using alr x0 by (intro mult_right_mono) auto
  finally show ?case
    unfolding spec_pixelRun_Suc bg_step [OF bg ab] x_def [symmetric] al_def [symmetric] .
qed

lemma bg_run_step:
  assumes bg: "spec_category (u_selfieModel U = 1) cb = 0"
    and ab: "spec_alphaBase (u_smoothingFactor U) (u_smoothstepMin U) (u_smoothstepMax U)
           (spec_confidence (u_selfieModel U = 1) cb fb) = a"
    and a: "0 \<le> a" "a \<le> 1"
    and m: "0 \<le> m"
  shows "\<bar>spec_pixelRun U (replicate (Suc k) (cb, fb)) m - spec_pixelRun U (replicate k (cb, fb)) m\<bar>
         \<le> a * spec_pixelRun U (replicate k (cb, fb)) m"
proof -
  define x where "x = spec_pixelRun U (replicate k (cb, fb)) m"
  define al where "al = a * spec_stickiness 0 x"
  have alr: "0 \<le> al" "al \<le> a" using sticky_alpha_le [OF a(1)] by (simp_all add: al_def)
  have "0 \<le> (1 - a) ^ k * m" using a m by simp
  then have x0: "0 \<le> x" using bg_run_bounds [OF bg ab a m, of k] unfolding x_def by linarith
  have d: "(1 - al) * x - x = - (al * x)" by (simp add: algebra_simps)
  have "al * x \<le> a * x" using alr x0 by (intro mult_right_mono) auto
  moreover have "0 \<le> al * x" using alr x0 by simp
  ultimately have "\<bar>(1 - al) * x - x\<bar> \<le> a * x" unfolding d by simp
  then show ?thesis
    unfolding spec_pixelRun_Suc bg_step [OF bg ab] x_def [symmetric] al_def [symmetric] .
qed

lemma fg_run_closed:
  assumes fg: "spec_category (u_selfieModel U = 1) cp = 1"
    and af: "spec_alphaBase (u_smoothingFactor U) (u_smoothstepMin U) (u_smoothstepMax U)
           (spec_confidence (u_selfieModel U = 1) cp fp) = a"
  shows "1 - spec_pixelRun U (replicate k (cp, fp)) q = (1 - a) ^ k * (1 - q)"
proof (induction k)
  case 0
  then show ?case by simp
next
  case (Suc k)
  have "1 - (a + (1 - a) * spec_pixelRun U (replicate k (cp, fp)) q)
        = (1 - a) * (1 - spec_pixelRun U (replicate k (cp, fp)) q)"
    by (simp add: algebra_simps)
  then show ?case unfolding spec_pixelRun_Suc fg_step [OF fg af] Suc.IH by simp
qed

lemma fg_run_step:
  assumes fg: "spec_category (u_selfieModel U = 1) cp = 1"
    and af: "spec_alphaBase (u_smoothingFactor U) (u_smoothstepMin U) (u_smoothstepMax U)
           (spec_confidence (u_selfieModel U = 1) cp fp) = a"
    and a: "0 \<le> a" "a \<le> 1"
    and q: "q \<le> 1"
  shows "\<bar>spec_pixelRun U (replicate (Suc k) (cp, fp)) q - spec_pixelRun U (replicate k (cp, fp)) q\<bar>
         = a * (1 - spec_pixelRun U (replicate k (cp, fp)) q)"
proof -
  define y where "y = spec_pixelRun U (replicate k (cp, fp)) q"
  have "1 - y = (1 - a) ^ k * (1 - q)" unfolding y_def by (rule fg_run_closed [OF fg af])
  moreover have "0 \<le> (1 - a) ^ k * (1 - q)" using a q by simp
  ultimately have y1: "0 \<le> 1 - y" by simp
  have d: "a + (1 - a) * y - y = a * (1 - y)" by (simp add: algebra_simps)
  have "0 \<le> a * (1 - y)" using a y1 by simp
  then have "\<bar>a + (1 - a) * y - y\<bar> = a * (1 - y)" unfolding d by simp
  then show ?thesis unfolding spec_pixelRun_Suc fg_step [OF fg af] y_def [symmetric] .
qed

lemma spec_pixelRun_Cons:
  "spec_pixelRun U (replicate j (category, confidence)) (spec_pixel U category confidence m)
     = spec_pixelRun U (replicate (Suc j) (category, confidence)) m"
  by simp

lemma storedPasses_in_range:
  assumes prev: "\<And>p. red (prevState p) = m"
    and rng: "\<And>j. 0 \<le> spec_pixelRun U (replicate (Suc j) (category, confidence)) m
                 \<and> spec_pixelRun U (replicate (Suc j) (category, confidence)) m \<le> 1"
  shows "red (storedPasses U (replicate k (category, confidence)) prevState p)
       = spec_pixelRun U (replicate k (category, confidence)) m"
  using prev rng
proof (induction k arbitrary: prevState m)
  case 0
  then show ?case by simp
next
  case (Suc k)
  let ?next = "storedImage (drawQuad (stateUpdate_main U (uniformTexture category)
                                 (uniformTexture confidence) prevState))"
  have one: "0 \<le> spec_pixel U category confidence m \<and> spec_pixel U category confidence m \<le> 1"
    using Suc.prems(2) [of 0] by simp
  have n: "\<And>q. red (?next q) = spec_pixel U category confidence m"
    using one by (simp add: stored_uniform [OF Suc.prems(1)] clamp01_id)
  have r: "\<And>j. 0 \<le> spec_pixelRun U (replicate (Suc j) (category, confidence))
                        (spec_pixel U category confidence m)
               \<and> spec_pixelRun U (replicate (Suc j) (category, confidence))
                        (spec_pixel U category confidence m) \<le> 1"
    unfolding spec_pixelRun_Cons by (rule Suc.prems(2))
  show ?case using Suc.IH [OF n r] by simp
qed

lemma bg_run_upper:
  assumes bg: "spec_category (u_selfieModel U = 1) cb = 0"
    and ab: "spec_alphaBase (u_smoothingFactor U) (u_smoothstepMin U) (u_smoothstepMax U)
           (spec_confidence (u_selfieModel U = 1) cb fb) = a"
    and a: "0 \<le> a" "a \<le> 1"
    and m: "0 \<le> m"
  shows "0 \<le> spec_pixelRun U (replicate k (cb, fb)) m \<and> spec_pixelRun U (replicate k (cb, fb)) m \<le> m"
proof (induction k)
  case 0
  then show ?case using m by simp
next
  case (Suc k)
  define x where "x = spec_pixelRun U (replicate k (cb, fb)) m"
  define al where "al = a * spec_stickiness 0 x"
  have alr: "0 \<le> al" "al \<le> 1" using sticky_alpha_le [OF a(1), of 0 x] a(2) by (simp_all add: al_def)
  have x: "0 \<le> x" "x \<le> m" using Suc.IH by (simp_all add: x_def)
  have "0 \<le> (1 - al) * x" using alr x by simp
  moreover have "(1 - al) * x \<le> 1 * x" using alr x by (intro mult_right_mono) auto
  ultimately have "0 \<le> (1 - al) * x \<and> (1 - al) * x \<le> m" using x by simp
  then show ?case
    unfolding spec_pixelRun_Suc bg_step [OF bg ab] x_def [symmetric] al_def [symmetric] .
qed

lemma fg_run_range:
  assumes fg: "spec_category (u_selfieModel U = 1) cp = 1"
    and af: "spec_alphaBase (u_smoothingFactor U) (u_smoothstepMin U) (u_smoothstepMax U)
           (spec_confidence (u_selfieModel U = 1) cp fp) = a"
    and a: "0 \<le> a" "a \<le> 1"
    and q: "0 \<le> q" "q \<le> 1"
  shows "0 \<le> spec_pixelRun U (replicate k (cp, fp)) q \<and> spec_pixelRun U (replicate k (cp, fp)) q \<le> 1"
proof -
  have c: "1 - spec_pixelRun U (replicate k (cp, fp)) q = (1 - a) ^ k * (1 - q)"
    by (rule fg_run_closed [OF fg af])
  have p: "0 \<le> (1 - a) ^ k" "(1 - a) ^ k \<le> 1" using a by (simp_all add: power_le_one)
  have "0 \<le> (1 - a) ^ k * (1 - q)" using p q by simp
  moreover have "(1 - a) ^ k * (1 - q) \<le> 1 * 1" using p q by (intro mult_mono) auto
  ultimately show ?thesis using c by linarith
qed

lemma sticky_factor:
  assumes "spec_category (u_selfieModel U = 1) (red (categoryTexture c)) < 0.5"
    and "sampleBlurred (u_resolution U) prevStateTexture (fst c, 1 - snd c) (u_stateBlurRadius U) > 0.3"
  shows "red (stateUpdate_main U categoryTexture confidenceTexture prevStateTexture c) =
     spec_newMask
       (spec_alphaBase (u_smoothingFactor U) (u_smoothstepMin U) (u_smoothstepMax U)
          (spec_confidence (u_selfieModel U = 1) (red (categoryTexture c)) (red (confidenceTexture c)))
        * mix 0.7 0.25 (smoothstep 0.3 0.8
            (sampleBlurred (u_resolution U) prevStateTexture (fst c, 1 - snd c) (u_stateBlurRadius U))))
       (spec_category (u_selfieModel U = 1) (red (categoryTexture c)))
       (sampleBlurred (u_resolution U) prevStateTexture (fst c, 1 - snd c) (u_stateBlurRadius U))"
  using assms
  by (simp add: stateUpdate_main_spec spec_pixel_def Let_def spec_stickiness_def red_def [of "(_, _)"])

section \<open>The virtual-background coordinate\<close>

lemma cover_axis:
  fixes s x :: real
  assumes s: "1 \<le> s" and x: "0 \<le> x" "x \<le> 1"
  shows "0 \<le> (x - (1 - s) / 2) / s" "(x - (1 - s) / 2) / s \<le> 1"
proof -
  have pos: "0 < s" using s by simp
  show "0 \<le> (x - (1 - s) / 2) / s" using s x pos by (simp add: field_simps)
  show "(x - (1 - s) / 2) / s \<le> 1" using s x pos by (simp add: field_simps)
qed

lemma cover_axis_centre:
  fixes s :: real
  assumes s: "1 \<le> s"
  shows "(1 / 2 - (1 - s) / 2) / s = 1 / 2"
proof -
  have pos: "0 < s" using s by simp
  show ?thesis using pos by (simp add: field_simps)
qed

lemma bgTexCoord_cases:
  "bgTexCoord U c =
    (let canvasAspect = fst (u_canvasDimensions U) / snd (u_canvasDimensions U);
         bgAspect = fst (u_bgImageDimensions U) / snd (u_bgImageDimensions U)
     in if canvasAspect < bgAspect
        then ((fst c - (1 - bgAspect / canvasAspect) / 2) / (bgAspect / canvasAspect), snd c)
        else (fst c, (snd c - (1 - canvasAspect / bgAspect) / 2) / (canvasAspect / bgAspect)))"
  by (simp add: bgTexCoord_def Let_def)

lemma bgTexCoord_range:
  assumes dims: "0 < fst (u_canvasDimensions U)" "0 < snd (u_canvasDimensions U)"
      "0 < fst (u_bgImageDimensions U)" "0 < snd (u_bgImageDimensions U)"
    and c: "0 \<le> fst c" "fst c \<le> 1" "0 \<le> snd c" "snd c \<le> 1"
  shows "0 \<le> fst (bgTexCoord U c) \<and> fst (bgTexCoord U c) \<le> 1
       \<and> 0 \<le> snd (bgTexCoord U c) \<and> snd (bgTexCoord U c) \<le> 1"
proof -
  define ca where "ca = fst (u_canvasDimensions U) / snd (u_canvasDimensions U)"
  define ba where "ba = fst (u_bgImageDimensions U) / snd (u_bgImageDimensions U)"
  have pos: "0 < ca" "0 < ba" using dims by (simp_all add: ca_def ba_def)
  show ?thesis
  proof (cases "ca < ba")
    case True
    then have "1 \<le> ba / ca" using pos by simp
    from cover_axis(1,2) [OF this c(1,2)] True c show ?thesis
      by (simp add: bgTexCoord_cases ca_def [symmetric] ba_def [symmetric])
  next
    case False
    then have "1 \<le> ca / ba" using pos by simp
    from cover_axis(1,2) [OF this c(3,4)] False c show ?thesis
      by (simp add: bgTexCoord_cases ca_def [symmetric] ba_def [symmetric])
  qed
qed

lemma bgTexCoord_centre:
  assumes dims: "0 < fst (u_canvasDimensions U)" "0 < snd (u_canvasDimensions U)"
      "0 < fst (u_bgImageDimensions U)" "0 < snd (u_bgImageDimensions U)"
  shows "bgTexCoord U (1 / 2, 1 / 2) = (1 / 2, 1 / 2)"
proof -
  define ca where "ca = fst (u_canvasDimensions U) / snd (u_canvasDimensions U)"
  define ba where "ba = fst (u_bgImageDimensions U) / snd (u_bgImageDimensions U)"
  have pos: "0 < ca" "0 < ba" using dims by (simp_all add: ca_def ba_def)
  show ?thesis
  proof (cases "ca < ba")
    case True
    then have "1 \<le> ba / ca" using pos by simp
    from cover_axis_centre [OF this] True show ?thesis
      by (simp add: bgTexCoord_cases ca_def [symmetric] ba_def [symmetric])
  next
    case False
    then have "1 \<le> ca / ba" using pos by simp
    from cover_axis_centre [OF this] False show ?thesis
      by (simp add: bgTexCoord_cases ca_def [symmetric] ba_def [symmetric])
  qed
qed

lemma blend_main_vbg:
  assumes "u_enabled U \<noteq> 0" "\<not> (u_bgBlur U > 0 \<and> u_bgBlurRadius U > 0)"
  shows "blend_main U frameTexture currentStateTexture backgroundTexture c =
     vec4_mix (backgroundTexture (bgTexCoord U c)) (frameTexture c)
       (smoothstep (u_vbgSmoothstepMin U) (u_vbgSmoothstepMax U)
          (blurredState currentStateTexture (fst c, 1 - snd c) (u_blendSpatialBlur U)
             (vec2_recip (u_canvasDimensions U))))"
  using assms by (auto simp: blend_main_def Let_def)

lemma blend_main_disabled:
  "u_enabled U = 0 \<Longrightarrow> blend_main U frameTexture currentStateTexture backgroundTexture c = frameTexture c"
  by (simp add: blend_main_def)

section \<open>Claims about the state-update stage\<close>

text \<open>
  A sequence of background frames and a sequence of person frames, both with a base
  alpha in \<open>[0, 1]\<close>, stay within \<open>[0, 1]\<close> when they start there, so storing each pass
  in the mask texture gives the same masks as feeding the computed values forward: on
  them \<^const>\<open>storedPasses\<close> and \<^const>\<open>stateUpdatePasses\<close> agree.
\<close>

lemma storedPasses_agree:
  assumes "spec_category (u_selfieModel U = 1) cb = 0"
    and "spec_category (u_selfieModel U = 1) cp = 1"
    and "spec_alphaBase (u_smoothingFactor U) (u_smoothstepMin U) (u_smoothstepMax U)
           (spec_confidence (u_selfieModel U = 1) cb fb) = a"
    and "spec_alphaBase (u_smoothingFactor U) (u_smoothstepMin U) (u_smoothstepMax U)
           (spec_confidence (u_selfieModel U = 1) cp fp) = a"
    and "0 \<le> a" and "a \<le> 1"
    and "\<forall>p. red (personState p) = mA" and "0 \<le> mA" and "mA \<le> 1"
    and "\<forall>p. red (backgroundState p) = mB" and "0 \<le> mB" and "mB \<le> 1"
  shows "maskAt (storedPasses U (replicate k (cb, fb)) personState) c
           = maskAt (stateUpdatePasses U (replicate k (cb, fb)) personState) c"
    and "maskAt (storedPasses U (replicate k (cp, fp)) backgroundState) c
           = maskAt (stateUpdatePasses U (replicate k (cp, fp)) backgroundState) c"
proof -
  have pA: "\<And>p. red (personState p) = mA" using assms(7) by blast
  have pB: "\<And>p. red (backgroundState p) = mB" using assms(10) by blast
  have rA: "\<And>j. 0 \<le> spec_pixelRun U (replicate (Suc j) (cb, fb)) mA
                 \<and> spec_pixelRun U (replicate (Suc j) (cb, fb)) mA \<le> 1"
  proof -
    fix j
    from bg_run_upper [OF assms(1,3,5,6,8), of "Suc j"] assms(9)
    show "0 \<le> spec_pixelRun U (replicate (Suc j) (cb, fb)) mA
                 \<and> spec_pixelRun U (replicate (Suc j) (cb, fb)) mA \<le> 1"
      by linarith
  qed
  have rB: "\<And>j. 0 \<le> spec_pixelRun U (replicate (Suc j) (cp, fp)) mB
                 \<and> spec_pixelRun U (replicate (Suc j) (cp, fp)) mB \<le> 1"
    by (rule fg_run_range [OF assms(2,4,5,6,11,12)])
  show "maskAt (storedPasses U (replicate k (cb, fb)) personState) c
           = maskAt (stateUpdatePasses U (replicate k (cb, fb)) personState) c"
    unfolding maskAt_def passes_uniform [OF pA] by (rule storedPasses_in_range [OF pA rA])
  show "maskAt (storedPasses U (replicate k (cp, fp)) backgroundState) c
           = maskAt (stateUpdatePasses U (replicate k (cp, fp)) backgroundState) c"
    unfolding maskAt_def passes_uniform [OF pB] by (rule storedPasses_in_range [OF pB rB])
qed

text \<open>
  Claim C2, as amended. Where the pass computes a category below 0.5 while the blurred
  previous mask exceeds 0.3, the blend factor is the base alpha times
  \<open>mix 0.7 0.25 (smoothstep 0.3 0.8 blurredPrevious)\<close>. Consequently, for a
  person-to-background sequence (frames of computed category 0) and a
  background-to-person sequence (frames of computed category 1) with the same base alpha
  \<open>a\<close> in \<open>[0, 1]\<close>, at every step after the transition the person-to-background mask
  moves by at most \<open>a\<close> times its distance from its target 0, the background-to-person
  mask moves by exactly \<open>a\<close> times its distance from its target 1, and after \<open>k\<close> steps
  the former keeps at least the fraction \<open>(1 - a) ^ k\<close> of its starting distance while
  the latter keeps exactly that fraction.
\<close>

theorem C2_asymmetric_stickiness:
  assumes "spec_category (u_selfieModel U = 1) cb = 0"
    and "spec_category (u_selfieModel U = 1) cp = 1"
    and "spec_alphaBase (u_smoothingFactor U) (u_smoothstepMin U) (u_smoothstepMax U)
           (spec_confidence (u_selfieModel U = 1) cb fb) = a"
    and "spec_alphaBase (u_smoothingFactor U) (u_smoothstepMin U) (u_smoothstepMax U)
           (spec_confidence (u_selfieModel U = 1) cp fp) = a"
    and "0 \<le> a" and "a \<le> 1"
    and "\<forall>p. red (personState p) = mA" and "0 \<le> mA"
    and "\<forall>p. red (backgroundState p) = mB" and "mB \<le> 1"
  shows "(spec_category (u_selfieModel U = 1) (red (categoryTexture c)) < 0.5
          \<and> sampleBlurred (u_resolution U) prevStateTexture (fst c, 1 - snd c) (u_stateBlurRadius U) > 0.3
          \<longrightarrow> red (stateUpdate_main U categoryTexture confidenceTexture prevStateTexture c) =
              spec_newMask
                (spec_alphaBase (u_smoothingFactor U) (u_smoothstepMin U) (u_smoothstepMax U)
                   (spec_confidence (u_selfieModel U = 1) (red (categoryTexture c))
                      (red (confidenceTexture c)))
                 * mix 0.7 0.25 (smoothstep 0.3 0.8
                     (sampleBlurred (u_resolution U) prevStateTexture (fst c, 1 - snd c)
                        (u_stateBlurRadius U))))
                (spec_category (u_selfieModel U = 1) (red (categoryTexture c)))
                (sampleBlurred (u_resolution U) prevStateTexture (fst c, 1 - snd c)
                   (u_stateBlurRadius U)))
       \<and> (\<forall>k. \<bar>maskAt (stateUpdatePasses U (replicate (Suc k) (cb, fb)) personState) c
                 - maskAt (stateUpdatePasses U (replicate k (cb, fb)) personState) c\<bar>
               \<le> a * maskAt (stateUpdatePasses U (replicate k (cb, fb)) personState) c
             \<and> \<bar>maskAt (stateUpdatePasses U (replicate (Suc k) (cp, fp)) backgroundState) c
                 - maskAt (stateUpdatePasses U (replicate k (cp, fp)) backgroundState) c\<bar>
               = a * (1 - maskAt (stateUpdatePasses U (replicate k (cp, fp)) backgroundState) c)
             \<and> (1 - a) ^ k * mA \<le> maskAt (stateUpdatePasses U (replicate k (cb, fb)) personState) c
             \<and> 1 - maskAt (stateUpdatePasses U (replicate k (cp, fp)) backgroundState) c
               = (1 - a) ^ k * (1 - mB))"
proof -
  have pA: "\<And>p. red (personState p) = mA" using assms(7) by blast
  have pB: "\<And>p. red (backgroundState p) = mB" using assms(9) by blast
  show ?thesis
    unfolding maskAt_def passes_uniform [OF pA] passes_uniform [OF pB]
    using sticky_factor [of U categoryTexture c prevStateTexture confidenceTexture]
      bg_run_step [OF assms(1,3,5,6,8)] fg_run_step [OF assms(2,4,5,6,10)]
      bg_run_bounds [OF assms(1,3,5,6,8)] fg_run_closed [OF assms(2,4)]
    by blast
qed

theorem C2_asymmetric_stickiness_witness:
  "\<bar>maskAt (stateUpdatePasses (defaultUniforms (640, 480)) (replicate (Suc 2) (0, 1)) (uniformTexture 1)) (1 / 2, 1 / 2)
     - maskAt (stateUpdatePasses (defaultUniforms (640, 480)) (replicate 2 (0, 1)) (uniformTexture 1)) (1 / 2, 1 / 2)\<bar>
    \<le> 0.7 * maskAt (stateUpdatePasses (defaultUniforms (640, 480)) (replicate 2 (0, 1)) (uniformTexture 1)) (1 / 2, 1 / 2)
   \<and> 1 - maskAt (stateUpdatePasses (defaultUniforms (640, 480)) (replicate 2 (1, 0)) (uniformTexture 0)) (1 / 2, 1 / 2)
      = (1 - 0.7) ^ 2 * (1 - 0)"
proof -
  have h1: "spec_category (u_selfieModel (defaultUniforms (640, 480)) = 1) 0 = 0"
    by (simp add: spec_category_def defaultUniforms_def)
  have h2: "spec_category (u_selfieModel (defaultUniforms (640, 480)) = 1) 1 = 1"
    by (simp add: spec_category_def defaultUniforms_def)
  have h3: "spec_alphaBase (u_smoothingFactor (defaultUniforms (640, 480)))
              (u_smoothstepMin (defaultUniforms (640, 480))) (u_smoothstepMax (defaultUniforms (640, 480)))
              (spec_confidence (u_selfieModel (defaultUniforms (640, 480)) = 1) 0 1) = 0.7"
    by (simp add: spec_alphaBase_def spec_confidence_def defaultUniforms_def smoothstep_def clamp_def Let_def)
  have h4: "spec_alphaBase (u_smoothingFactor (defaultUniforms (640, 480)))
              (u_smoothstepMin (defaultUniforms (640, 480))) (u_smoothstepMax (defaultUniforms (640, 480)))
              (spec_confidence (u_selfieModel (defaultUniforms (640, 480)) = 1) 1 0) = 0.7"
    by (simp add: spec_alphaBase_def spec_confidence_def defaultUniforms_def smoothstep_def clamp_def Let_def)
  have h5: "(0::real) \<le> 0.7" "(0.7::real) \<le> 1" by simp_all
  have h7: "\<forall>p. red (uniformTexture 1 p) = 1" "(0::real) \<le> 1"
    by (simp_all add: uniformTexture_def red_def)
  have h9: "\<forall>p. red (uniformTexture 0 p) = 0" "(0::real) \<le> 1"
    by (simp_all add: uniformTexture_def red_def)
  note main = C2_asymmetric_stickiness [OF h1 h2 h3 h4 h5 h7 h9, of "uniformTexture 0" "(1 / 2, 1 / 2)"
      "uniformTexture 0" "uniformTexture 0"]
  from main have "\<forall>k. \<bar>maskAt (stateUpdatePasses (defaultUniforms (640, 480)) (replicate (Suc k) (0, 1)) (uniformTexture 1)) (1 / 2, 1 / 2)
     - maskAt (stateUpdatePasses (defaultUniforms (640, 480)) (replicate k (0, 1)) (uniformTexture 1)) (1 / 2, 1 / 2)\<bar>
    \<le> 0.7 * maskAt (stateUpdatePasses (defaultUniforms (640, 480)) (replicate k (0, 1)) (uniformTexture 1)) (1 / 2, 1 / 2)
   \<and> 1 - maskAt (stateUpdatePasses (defaultUniforms (640, 480)) (replicate k (1, 0)) (uniformTexture 0)) (1 / 2, 1 / 2)
      = (1 - 0.7) ^ k * (1 - 0)"
    by blast
  then show ?thesis by blast
qed

text \<open>
  Claim C2 as stated fails in its second half. With the default configuration both
  sequences start from the all-background mask; one sees a person frame and then
  background frames, the other a background frame and then person frames, both with
  base alpha 0.7. At the third step after the transition the person-to-background mask
  changes by more than the background-to-person mask, which has almost converged.
\<close>

theorem C2_counterexample:
  "\<not> \<bar>maskAt (stateUpdatePasses (defaultUniforms (640, 480)) [(1, 0), (0, 1), (0, 1), (0, 1)] (uniformTexture 0)) (1 / 2, 1 / 2)
       - maskAt (stateUpdatePasses (defaultUniforms (640, 480)) [(1, 0), (0, 1), (0, 1)] (uniformTexture 0)) (1 / 2, 1 / 2)\<bar>
     \<le> \<bar>maskAt (stateUpdatePasses (defaultUniforms (640, 480)) [(0, 1), (1, 0), (1, 0), (1, 0)] (uniformTexture 0)) (1 / 2, 1 / 2)
       - maskAt (stateUpdatePasses (defaultUniforms (640, 480)) [(0, 1), (1, 0), (1, 0)] (uniformTexture 0)) (1 / 2, 1 / 2)\<bar>"
proof -
  have u: "\<And>p. red (uniformTexture 0 p) = 0" by (simp add: uniformTexture_def red_def)
  show ?thesis
    unfolding maskAt_def passes_uniform [OF u]
    by (simp add: defaultUniforms_def spec_pixel_def spec_category_def spec_confidence_def
        spec_alphaBase_def spec_stickiness_def spec_newMask_def Let_def smoothstep_def clamp_def mix_def)
qed

section \<open>Claims about the compositing stage\<close>

text \<open>
  Claim C9. In virtual-background mode (effects enabled, background blur not requested),
  for positive canvas and background dimensions and every canvas texture coordinate in
  the unit square, the background is sampled at the aspect-correcting coordinate, that
  coordinate lies in the unit square, and the canvas centre maps to the background
  centre.
\<close>

theorem C9_cover_mapping:
  assumes "0 < fst (u_canvasDimensions U)" and "0 < snd (u_canvasDimensions U)"
    and "0 < fst (u_bgImageDimensions U)" and "0 < snd (u_bgImageDimensions U)"
    and "u_enabled U \<noteq> 0" and "\<not> (u_bgBlur U > 0 \<and> u_bgBlurRadius U > 0)"
    and "0 \<le> fst c" and "fst c \<le> 1" and "0 \<le> snd c" and "snd c \<le> 1"
  shows "blend_main U frameTexture currentStateTexture backgroundTexture c =
           vec4_mix (backgroundTexture (bgTexCoord U c)) (frameTexture c)
             (smoothstep (u_vbgSmoothstepMin U) (u_vbgSmoothstepMax U)
                (blurredState currentStateTexture (fst c, 1 - snd c) (u_blendSpatialBlur U)
                   (vec2_recip (u_canvasDimensions U))))
       \<and> 0 \<le> fst (bgTexCoord U c) \<and> fst (bgTexCoord U c) \<le> 1
       \<and> 0 \<le> snd (bgTexCoord U c) \<and> snd (bgTexCoord U c) \<le> 1
       \<and> bgTexCoord U (1 / 2, 1 / 2) = (1 / 2, 1 / 2)"
  using blend_main_vbg [OF assms(5,6)] bgTexCoord_range [OF assms(1-4) assms(7-10)]
    bgTexCoord_centre [OF assms(1-4)]
  by simp

theorem C9_cover_mapping_witness:
  "bgTexCoord \<lparr>u_bgImageDimensions = (1920, 1080), u_canvasDimensions = (640, 480),
       u_borderSmooth = 0.6, u_bgBlur = 0, u_bgBlurRadius = 0, u_enabled = 1,
       u_blendSpatialBlur = 14, u_vbgSmoothstepMin = 0.4, u_vbgSmoothstepMax = 0.6\<rparr> (1 / 2, 1 / 2)
     = (1 / 2, 1 / 2)
   \<and> 0 \<le> fst (bgTexCoord \<lparr>u_bgImageDimensions = (1920, 1080), u_canvasDimensions = (640, 480),
       u_borderSmooth = 0.6, u_bgBlur = 0, u_bgBlurRadius = 0, u_enabled = 1,
       u_blendSpatialBlur = 14, u_vbgSmoothstepMin = 0.4, u_vbgSmoothstepMax = 0.6\<rparr> (0, 1))"
  using C9_cover_mapping [of "\<lparr>u_bgImageDimensions = (1920, 1080), u_canvasDimensions = (640, 480),
       u_borderSmooth = 0.6, u_bgBlur = 0, u_bgBlurRadius = 0, u_enabled = 1,
       u_blendSpatialBlur = 14, u_vbgSmoothstepMin = 0.4, u_vbgSmoothstepMax = 0.6\<rparr>" "(0, 1)"]
  by simp

section \<open>Properties of the WebGL context operations\<close>

lemma createTexture_lost:
  "contextLost g \<Longrightarrow> gl_createTexture g = (Some (nextTexture g), g\<lparr>nextTexture := Suc (nextTexture g)\<rparr>)"
  by (simp add: gl_createTexture_def)

lemma createTexture_live:
  "\<not> contextLost g \<Longrightarrow> gl_createTexture g =
     (Some (nextTexture g),
      g\<lparr>textures := (textures g)(nextTexture g \<mapsto> \<lparr>tex_width = 0, tex_height = 0, tex_image = unboundSampler\<rparr>),
        nextTexture := Suc (nextTexture g),
        calls := calls g @ [CreateTexture (nextTexture g)]\<rparr>)"
  by (simp add: gl_createTexture_def)

lemma createTexture_props:
  "fst (gl_createTexture g) = Some (nextTexture g)"
  "contextLost (snd (gl_createTexture g)) = contextLost g"
  "attributes (snd (gl_createTexture g)) = attributes g"
  "nextTexture (snd (gl_createTexture g)) = Suc (nextTexture g)"
  "drawingBuffer (snd (gl_createTexture g)) = drawingBuffer g"
  "n \<noteq> nextTexture g \<Longrightarrow> textures (snd (gl_createTexture g)) n = textures g n"
  "\<not> contextLost g \<Longrightarrow> textures (snd (gl_createTexture g)) (nextTexture g) \<noteq> None"
  "\<not> contextLost g \<Longrightarrow> calls (snd (gl_createTexture g)) = calls g @ [CreateTexture (nextTexture g)]"
  "contextLost g \<Longrightarrow> calls (snd (gl_createTexture g)) = calls g"
  "contextLost g \<Longrightarrow> textures (snd (gl_createTexture g)) = textures g"
  by (simp_all add: gl_createTexture_def)

lemma createTexture_cases:
  obtains g1 where "gl_createTexture g = (Some (nextTexture g), g1)"
      "contextLost g1 = contextLost g" "attributes g1 = attributes g"
      "nextTexture g1 = Suc (nextTexture g)"
      "\<not> contextLost g \<Longrightarrow> textures g1 (nextTexture g) \<noteq> None"
      "\<And>n. n \<noteq> nextTexture g \<Longrightarrow> textures g1 n = textures g n"
      "drawingBuffer g1 = drawingBuffer g"
proof (rule that [of "snd (gl_createTexture g)"])
  show "gl_createTexture g = (Some (nextTexture g), snd (gl_createTexture g))"
    using createTexture_props(1) [of g] by (cases "gl_createTexture g") simp
qed (simp_all only: createTexture_props not_False_eq_True)

lemma texImage2D_props:
  "contextLost (gl_texImage2D g t w h px) = contextLost g"
  "attributes (gl_texImage2D g t w h px) = attributes g"
  "nextTexture (gl_texImage2D g t w h px) = nextTexture g"
  "drawingBuffer (gl_texImage2D g t w h px) = drawingBuffer g"
  "t \<noteq> Some n \<Longrightarrow> textures (gl_texImage2D g t w h px) n = textures g n"
  "(textures (gl_texImage2D g t w h px) n \<noteq> None) = (textures g n \<noteq> None)"
  by (auto simp: gl_texImage2D_def split: option.splits)

lemma texImage2D_lost: "contextLost g \<Longrightarrow> gl_texImage2D g t w h px = g"
  by (simp add: gl_texImage2D_def split: option.splits)

lemma texImage2D_live:
  "\<not> contextLost g \<Longrightarrow> textures g n \<noteq> None \<Longrightarrow>
   textures (gl_texImage2D g (Some n) w h px) n = Some \<lparr>tex_width = w, tex_height = h, tex_image = px\<rparr>"
  "\<not> contextLost g \<Longrightarrow> textures g n \<noteq> None \<Longrightarrow>
   calls (gl_texImage2D g (Some n) w h px) = calls g @ [TexImage2D n w h]"
  by (auto simp: gl_texImage2D_def)

lemma deleteTexture_props:
  "contextLost (gl_deleteTexture g t) = contextLost g"
  "attributes (gl_deleteTexture g t) = attributes g"
  "nextTexture (gl_deleteTexture g t) = nextTexture g"
  "drawingBuffer (gl_deleteTexture g t) = drawingBuffer g"
  "t \<noteq> Some n \<Longrightarrow> textures (gl_deleteTexture g t) n = textures g n"
  by (auto simp: gl_deleteTexture_def split: option.splits)

lemma drawToTexture_props:
  "contextLost (gl_drawToTexture g t sh) = contextLost g"
  "attributes (gl_drawToTexture g t sh) = attributes g"
  "nextTexture (gl_drawToTexture g t sh) = nextTexture g"
  "drawingBuffer (gl_drawToTexture g t sh) = drawingBuffer g"
  "calls (gl_drawToTexture g t sh) = calls g"
  "t \<noteq> Some n \<Longrightarrow> textures (gl_drawToTexture g t sh) n = textures g n"
  "(textures (gl_drawToTexture g t sh) n \<noteq> None) = (textures g n \<noteq> None)"
  by (auto simp: gl_drawToTexture_def split: option.splits)

lemma drawToCanvas_props:
  "contextLost (gl_drawToCanvas g sh) = contextLost g"
  "attributes (gl_drawToCanvas g sh) = attributes g"
  "nextTexture (gl_drawToCanvas g sh) = nextTexture g"
  "textures (gl_drawToCanvas g sh) = textures g"
  "calls (gl_drawToCanvas g sh) = calls g"
  "\<not> contextLost g \<Longrightarrow> drawingBuffer (gl_drawToCanvas g sh) = canvasImage (attributes g) (drawQuad sh)"
  by (auto simp: gl_drawToCanvas_def)

lemma clearCanvas_props:
  "contextLost (gl_clearCanvas g) = contextLost g"
  "attributes (gl_clearCanvas g) = attributes g"
  "nextTexture (gl_clearCanvas g) = nextTexture g"
  "textures (gl_clearCanvas g) = textures g"
  "calls (gl_clearCanvas g) = calls g"
  by (simp_all add: gl_clearCanvas_def)

section \<open>Properties of the background update\<close>

lemma useDefaultColor_frame:
  "sameButTextures r (stateAfter (useDefaultColor r))"
  "drawingBuffer (gl (stateAfter (useDefaultColor r))) = drawingBuffer (gl r)"
  "blendUniformValues (stateAfter (useDefaultColor r)) = blendUniformValues r"
  "n < nextTexture (gl r) \<Longrightarrow> textures (gl (stateAfter (useDefaultColor r))) n = textures (gl r) n"
  by (cases "contextLost (gl r)";
      simp add: useDefaultColor_def createColorTexture_def stateAfter_def sameButTextures_def
        createTexture_live createTexture_lost texImage2D_props)+

lemma loadImageSource_frame:
  "sameButTextures r (stateAfter (loadImageSource r src))"
  "drawingBuffer (gl (stateAfter (loadImageSource r src))) = drawingBuffer (gl r)"
  "blendUniformValues (stateAfter (loadImageSource r src)) = blendUniformValues r"
  "n < nextTexture (gl r) \<Longrightarrow> textures (gl (stateAfter (loadImageSource r src))) n = textures (gl r) n"
  by (cases "contextLost (gl r)";
      simp add: loadImageSource_def stateAfter_def sameButTextures_def
        createTexture_live createTexture_lost texImage2D_props split: option.splits media.splits)+

lemma loadVideoSource_frame:
  "sameButTextures r (stateAfter (loadVideoSource r src))"
  "drawingBuffer (gl (stateAfter (loadVideoSource r src))) = drawingBuffer (gl r)"
  "blendUniformValues (stateAfter (loadVideoSource r src)) = blendUniformValues r"
  "n < nextTexture (gl r) \<Longrightarrow> textures (gl (stateAfter (loadVideoSource r src))) n = textures (gl r) n"
  by (cases "contextLost (gl r)";
      simp add: loadVideoSource_def stateAfter_def sameButTextures_def
        createTexture_live createTexture_lost texImage2D_props split: option.splits media.splits)+

lemma sameButTextures_refl: "sameButTextures r r"
  by (simp add: sameButTextures_def)

lemma sameButTextures_trans:
  "sameButTextures r r1 \<Longrightarrow> sameButTextures r1 r2 \<Longrightarrow> sameButTextures r r2"
  by (simp add: sameButTextures_def)

text \<open>The background info of the state after loading: absent, or a texture created by the load.\<close>

lemma useDefaultColor_info:
  "backgroundRenderInfo (stateAfter (useDefaultColor r)) = Some i \<Longrightarrow> backgroundRenderInfo r = Some i \<or>
        (nextTexture (gl r) \<le> info_texture i \<and> info_texture i < nextTexture (gl (stateAfter (useDefaultColor r))))"
  by (cases "contextLost (gl r)")
    (auto simp: useDefaultColor_def createColorTexture_def stateAfter_def
        createTexture_live createTexture_lost texImage2D_props split: option.splits)

lemma loadImageSource_info:
  "backgroundRenderInfo (stateAfter (loadImageSource r src)) = Some i \<Longrightarrow> backgroundRenderInfo r = Some i \<or>
        (nextTexture (gl r) \<le> info_texture i \<and> info_texture i < nextTexture (gl (stateAfter (loadImageSource r src))))"
  by (cases "contextLost (gl r)")
    (auto simp: loadImageSource_def stateAfter_def
        createTexture_live createTexture_lost texImage2D_props split: option.splits media.splits)

lemma loadVideoSource_info:
  "backgroundRenderInfo (stateAfter (loadVideoSource r src)) = Some i \<Longrightarrow> backgroundRenderInfo r = Some i \<or>
        (nextTexture (gl r) \<le> info_texture i \<and> info_texture i < nextTexture (gl (stateAfter (loadVideoSource r src))))"
  by (cases "contextLost (gl r)")
    (auto simp: loadVideoSource_def stateAfter_def
        createTexture_live createTexture_lost texImage2D_props split: option.splits media.splits)

lemma releaseBackground_props:
  "sameButTextures r (releaseBackground r ident)"
  "backgroundRenderInfo (releaseBackground r ident) = None"
  "activeBackgroundSourceIdentifier (releaseBackground r ident) = Some ident"
  "nextTexture (gl (releaseBackground r ident)) = nextTexture (gl r)"
  "drawingBuffer (gl (releaseBackground r ident)) = drawingBuffer (gl r)"
  "blendUniformValues (releaseBackground r ident) = blendUniformValues r"
  by (simp_all add: releaseBackground_def Let_def sameButTextures_def deleteTexture_props
      split: option.splits)

lemma releaseBackground_textures:
  "(\<And>i. backgroundRenderInfo r = Some i \<Longrightarrow> info_texture i \<noteq> n) \<Longrightarrow>
   textures (gl (releaseBackground r ident)) n = textures (gl r) n"
  by (simp add: releaseBackground_def Let_def deleteTexture_props split: option.splits)

lemma releaseBackground_calls:
  "\<not> contextLost (gl r) \<Longrightarrow> uploads (gl (releaseBackground r ident)) = uploads (gl r)"
  "\<not> contextLost (gl r) \<Longrightarrow> creations (gl (releaseBackground r ident)) = creations (gl r)"
  by (simp_all add: releaseBackground_def Let_def gl_deleteTexture_def uploads_def creations_def
      split: option.splits)

lemma loadSource_frame:
  "sameButTextures r (stateAfter (loadSource r src))"
  "drawingBuffer (gl (stateAfter (loadSource r src))) = drawingBuffer (gl r)"
  "blendUniformValues (stateAfter (loadSource r src)) = blendUniformValues r"
  "n < nextTexture (gl r) \<Longrightarrow> textures (gl (stateAfter (loadSource r src))) n = textures (gl r) n"
  by (simp_all add: loadSource_def useDefaultColor_frame loadImageSource_frame loadVideoSource_frame
      sameButTextures_refl split: option.splits, simp_all add: stateAfter_def sameButTextures_refl)

lemma loadSource_info:
  "backgroundRenderInfo (stateAfter (loadSource r src)) = Some i \<Longrightarrow> backgroundRenderInfo r = Some i \<or>
        (nextTexture (gl r) \<le> info_texture i \<and> info_texture i < nextTexture (gl (stateAfter (loadSource r src))))"
  using useDefaultColor_info [of r i] loadImageSource_info [of r _ i] loadVideoSource_info [of r _ i]
  by (auto simp: loadSource_def stateAfter_def split: option.splits if_splits)

lemma update_hit:
  "activeBackgroundSourceIdentifier r = Some (sourceIdentifier src) \<Longrightarrow> backgroundRenderInfo r \<noteq> None
   \<Longrightarrow> updateBackgroundIfNeeded r src = Inr r"
  by (simp add: updateBackgroundIfNeeded_def Let_def)

lemma update_miss:
  "\<not> (activeBackgroundSourceIdentifier r = Some (sourceIdentifier src) \<and> backgroundRenderInfo r \<noteq> None)
   \<Longrightarrow> updateBackgroundIfNeeded r src =
       (case loadSource (releaseBackground r (sourceIdentifier src)) src of
          Inl e \<Rightarrow> Inl e
        | Inr r3 \<Rightarrow> if backgroundRenderInfo r3 = None then useDefaultColor r3 else Inr r3)"
  by (auto simp: updateBackgroundIfNeeded_def Let_def)

lemma stateAfter_simps [simp]:
  "stateAfter (Inr r) = r" "stateAfter (Inl (e, r)) = r"
  by (simp_all add: stateAfter_def)

lemma update_frame:
  "sameButTextures r (stateAfter (updateBackgroundIfNeeded r src))"
  "drawingBuffer (gl (stateAfter (updateBackgroundIfNeeded r src))) = drawingBuffer (gl r)"
  "blendUniformValues (stateAfter (updateBackgroundIfNeeded r src)) = blendUniformValues r"
proof -
  define r2 where "r2 = releaseBackground r (sourceIdentifier src)"
  have r2: "sameButTextures r r2" "drawingBuffer (gl r2) = drawingBuffer (gl r)"
    "blendUniformValues r2 = blendUniformValues r"
    by (simp_all add: r2_def releaseBackground_props)
  define r3 where "r3 = stateAfter (loadSource r2 src)"
  have r3: "sameButTextures r r3" "drawingBuffer (gl r3) = drawingBuffer (gl r)"
    "blendUniformValues r3 = blendUniformValues r"
    using r2 loadSource_frame(1-3) [of r2 src] sameButTextures_trans
    by (auto simp: r3_def)
  define r4 where "r4 = stateAfter (useDefaultColor r3)"
  have r4: "sameButTextures r r4" "drawingBuffer (gl r4) = drawingBuffer (gl r)"
    "blendUniformValues r4 = blendUniformValues r"
    using r3 useDefaultColor_frame(1-3) [of r3] sameButTextures_trans
    by (auto simp: r4_def)
  have cases: "stateAfter (updateBackgroundIfNeeded r src) = r
      \<or> stateAfter (updateBackgroundIfNeeded r src) = r3
      \<or> stateAfter (updateBackgroundIfNeeded r src) = r4"
    by (cases "activeBackgroundSourceIdentifier r = Some (sourceIdentifier src) \<and> backgroundRenderInfo r \<noteq> None")
      (auto simp: update_hit update_miss r2_def r3_def r4_def split: sum.splits)
  show "sameButTextures r (stateAfter (updateBackgroundIfNeeded r src))"
    using cases r3 r4 sameButTextures_refl by auto
  show "drawingBuffer (gl (stateAfter (updateBackgroundIfNeeded r src))) = drawingBuffer (gl r)"
    using cases r3 r4 by auto
  show "blendUniformValues (stateAfter (updateBackgroundIfNeeded r src)) = blendUniformValues r"
    using cases r3 r4 by auto
qed

lemma update_textures:
  assumes n: "n < nextTexture (gl r)"
    and apart: "\<And>i. backgroundRenderInfo r = Some i \<Longrightarrow> info_texture i \<noteq> n"
  shows "textures (gl (stateAfter (updateBackgroundIfNeeded r src))) n = textures (gl r) n"
proof -
  define r2 where "r2 = releaseBackground r (sourceIdentifier src)"
  have r2: "textures (gl r2) n = textures (gl r) n" "nextTexture (gl r2) = nextTexture (gl r)"
    using releaseBackground_textures [OF apart] by (simp_all add: r2_def releaseBackground_props)
  define r3 where "r3 = stateAfter (loadSource r2 src)"
  have r3: "textures (gl r3) n = textures (gl r) n" "n < nextTexture (gl r3)"
    using r2 n loadSource_frame(4) [of n r2 src] loadSource_frame(1) [of r2 src]
    by (auto simp: r3_def sameButTextures_def)
  define r4 where "r4 = stateAfter (useDefaultColor r3)"
  have r4: "textures (gl r4) n = textures (gl r) n"
    using r3 useDefaultColor_frame(4) [of n r3] by (simp add: r4_def)
  have cases: "stateAfter (updateBackgroundIfNeeded r src) = r
      \<or> stateAfter (updateBackgroundIfNeeded r src) = r3
      \<or> stateAfter (updateBackgroundIfNeeded r src) = r4"
    by (cases "activeBackgroundSourceIdentifier r = Some (sourceIdentifier src) \<and> backgroundRenderInfo r \<noteq> None")
      (auto simp: update_hit update_miss r2_def r3_def r4_def split: sum.splits)
  then show ?thesis using r3 r4 by auto
qed

lemma update_info:
  assumes "backgroundRenderInfo (stateAfter (updateBackgroundIfNeeded r src)) = Some i"
  shows "backgroundRenderInfo r = Some i \<or>
        (nextTexture (gl r) \<le> info_texture i
         \<and> info_texture i < nextTexture (gl (stateAfter (updateBackgroundIfNeeded r src))))"
proof (cases "activeBackgroundSourceIdentifier r = Some (sourceIdentifier src) \<and> backgroundRenderInfo r \<noteq> None")
  case True
  then show ?thesis using assms by (auto simp: update_hit)
next
  case False
  define r2 where "r2 = releaseBackground r (sourceIdentifier src)"
  have r2: "backgroundRenderInfo r2 = None" "nextTexture (gl r2) = nextTexture (gl r)"
    by (simp_all add: r2_def releaseBackground_props)
  define r3 where "r3 = stateAfter (loadSource r2 src)"
  have r3n: "nextTexture (gl r) \<le> nextTexture (gl r3)"
    using loadSource_frame(1) [of r2 src] r2 by (simp add: r3_def sameButTextures_def)
  have r3: "backgroundRenderInfo r3 = Some i \<Longrightarrow>
      nextTexture (gl r) \<le> info_texture i \<and> info_texture i < nextTexture (gl r3)"
    using loadSource_info [of r2 src i] r2 by (simp add: r3_def)
  define r4 where "r4 = stateAfter (useDefaultColor r3)"
  have r4: "backgroundRenderInfo r3 = None \<Longrightarrow> backgroundRenderInfo r4 = Some i \<Longrightarrow>
      nextTexture (gl r) \<le> info_texture i \<and> info_texture i < nextTexture (gl r4)"
    using useDefaultColor_info [of r3 i] r3n by (auto simp: r4_def)
  have cases: "stateAfter (updateBackgroundIfNeeded r src) = r3
      \<or> (backgroundRenderInfo r3 = None \<and> stateAfter (updateBackgroundIfNeeded r src) = r4)"
    using False by (auto simp: update_miss r2_def r3_def r4_def split: sum.splits)
  then show ?thesis using r3 r4 assms by auto
qed

lemma useDefaultColor_live:
  assumes "\<not> contextLost (gl r)"
  shows "\<exists>r'. useDefaultColor r = Inr r' \<and>
      backgroundRenderInfo r' \<noteq> None \<and>
      activeBackgroundSourceIdentifier r' = Some defaultColorIdentifier \<and>
      uploads (gl r') = Suc (uploads (gl r)) \<and> creations (gl r') = Suc (creations (gl r))"
  using assms
  by (simp add: useDefaultColor_def createColorTexture_def createTexture_live gl_texImage2D_def
      uploads_def creations_def)

lemma loadSource_supported:
  assumes "\<not> contextLost (gl r)" "supportedSource src"
  shows "\<exists>r'. loadSource r src = Inr r' \<and> backgroundRenderInfo r' \<noteq> None \<and>
      (src = None \<or> activeBackgroundSourceIdentifier r' = activeBackgroundSourceIdentifier r) \<and>
      (src = None \<longrightarrow> activeBackgroundSourceIdentifier r' = Some defaultColorIdentifier) \<and>
      uploads (gl r') = Suc (uploads (gl r)) \<and> creations (gl r') = Suc (creations (gl r))"
proof (cases src)
  case None
  then show ?thesis using useDefaultColor_live [OF assms(1)] by (auto simp: loadSource_def)
next
  case (Some s)
  then show ?thesis using assms
    by (auto simp: loadSource_def supportedSource_def loadImageSource_def loadVideoSource_def
        createTexture_live gl_texImage2D_def uploads_def creations_def
        split: option.splits media.splits if_splits)
qed

lemma loadSource_unsupported:
  assumes "source_type s \<noteq> ''image''" "source_type s \<noteq> ''video''"
  shows "loadSource r (Some s) = Inr r"
  using assms by (simp add: loadSource_def)

lemma useDefaultColor_returns:
  "\<exists>r'. useDefaultColor r = Inr r'
      \<and> backgroundRenderInfo r' = Some (ColorInfo (nextTexture (gl r)) DEFAULT_BG_COLOR)
      \<and> activeBackgroundSourceIdentifier r' = Some defaultColorIdentifier
      \<and> (\<not> contextLost (gl r) \<longrightarrow>
            gl_texture2D (gl r') (Some (nextTexture (gl r))) = (\<lambda>_. pixelColor DEFAULT_BG_COLOR))"
  by (cases "contextLost (gl r)")
    (simp_all add: useDefaultColor_def createColorTexture_def createTexture_live createTexture_lost
      gl_texImage2D_def gl_texture2D_def)

lemma loadSource_wellTyped:
  assumes "wellTypedSource src"
  shows "\<exists>r'. loadSource r src = Inr r'"
proof (cases src)
  case None
  then show ?thesis using useDefaultColor_returns [of r] by (auto simp: loadSource_def)
next
  case (Some s)
  then show ?thesis using assms createTexture_props(1) [of "gl r"]
    by (cases "gl_createTexture (gl r)")
      (auto simp: loadSource_def wellTypedSource_def loadImageSource_def loadVideoSource_def
        split: option.splits media.splits if_splits)
qed

lemma loadSource_illTyped:
  assumes "\<not> wellTypedSource src" "backgroundRenderInfo r = None"
  shows "\<exists>r'. loadSource r src = Inl (TypeError, r') \<and> backgroundRenderInfo r' = None"
proof (cases src)
  case None
  then show ?thesis using assms by (simp add: wellTypedSource_def)
next
  case (Some s)
  then show ?thesis using assms createTexture_props(1) [of "gl r"]
    by (cases "gl_createTexture (gl r)")
      (auto simp: loadSource_def wellTypedSource_def loadImageSource_def loadVideoSource_def
        split: option.splits media.splits if_splits)
qed

lemma update_typed:
  assumes typed: "wellTypedSource src"
  shows "\<exists>r'. updateBackgroundIfNeeded r src = Inr r' \<and> backgroundRenderInfo r' \<noteq> None"
proof (cases "cacheHit r src")
  case True
  then show ?thesis by (simp add: cacheHit_def update_hit)
next
  case False
  define r2 where "r2 = releaseBackground r (sourceIdentifier src)"
  obtain r3 where r3: "loadSource r2 src = Inr r3"
    using loadSource_wellTyped [OF typed] by blast
  show ?thesis
  proof (cases "backgroundRenderInfo r3 = None")
    case True
    from useDefaultColor_returns [of r3] True r3 False show ?thesis
      by (auto simp: update_miss cacheHit_def r2_def [symmetric])
  next
    case False
    with r3 \<open>\<not> cacheHit r src\<close> show ?thesis
      by (auto simp: update_miss cacheHit_def r2_def [symmetric])
  qed
qed

lemma update_illTyped:
  assumes typed: "\<not> wellTypedSource src" and miss: "\<not> cacheHit r src"
  shows "\<exists>r'. updateBackgroundIfNeeded r src = Inl (TypeError, r') \<and> backgroundRenderInfo r' = None"
proof -
  define r2 where "r2 = releaseBackground r (sourceIdentifier src)"
  have "backgroundRenderInfo r2 = None" by (simp add: r2_def releaseBackground_props)
  from loadSource_illTyped [OF typed this] show ?thesis
    using miss by (auto simp: update_miss cacheHit_def r2_def [symmetric])
qed

lemma update_default:
  assumes d: "defaultColorRequest src" and miss: "\<not> cacheHit r src"
  shows "\<exists>r' t. updateBackgroundIfNeeded r src = Inr r'
      \<and> backgroundRenderInfo r' = Some (ColorInfo t DEFAULT_BG_COLOR)
      \<and> activeBackgroundSourceIdentifier r' = Some defaultColorIdentifier
      \<and> (\<not> contextLost (gl r) \<longrightarrow>
            gl_texture2D (gl r') (Some t) = (\<lambda>_. pixelColor DEFAULT_BG_COLOR))"
proof -
  define r2 where "r2 = releaseBackground r (sourceIdentifier src)"
  have r2: "backgroundRenderInfo r2 = None" "contextLost (gl r2) = contextLost (gl r)"
    using releaseBackground_props(1,2) [of r "sourceIdentifier src"]
    by (simp_all add: r2_def sameButTextures_def)
  obtain r' where r': "useDefaultColor r2 = Inr r'"
      "backgroundRenderInfo r' = Some (ColorInfo (nextTexture (gl r2)) DEFAULT_BG_COLOR)"
      "activeBackgroundSourceIdentifier r' = Some defaultColorIdentifier"
      "\<not> contextLost (gl r2) \<longrightarrow>
         gl_texture2D (gl r') (Some (nextTexture (gl r2))) = (\<lambda>_. pixelColor DEFAULT_BG_COLOR)"
    using useDefaultColor_returns [of r2] by blast
  have um: "updateBackgroundIfNeeded r src =
      (case loadSource r2 src of
         Inl e \<Rightarrow> Inl e
       | Inr r3 \<Rightarrow> if backgroundRenderInfo r3 = None then useDefaultColor r3 else Inr r3)"
    using miss by (simp add: update_miss cacheHit_def r2_def)
  have "updateBackgroundIfNeeded r src = Inr r'"
  proof (cases src)
    case None
    then have "loadSource r2 src = Inr r'" using r'(1) by (simp add: loadSource_def)
    then show ?thesis using r'(2) by (simp add: um)
  next
    case (Some s)
    then have "loadSource r2 src = Inr r2" using d by (simp add: defaultColorRequest_def loadSource_def)
    then show ?thesis using r'(1) r2(1) by (simp add: um)
  qed
  then show ?thesis using r'(2,3,4) r2(2) by auto
qed

lemma update_supported_miss:
  assumes live: "\<not> contextLost (gl r)" and sup: "supportedSource src" and miss: "\<not> cacheHit r src"
  shows "\<exists>r'. updateBackgroundIfNeeded r src = Inr r' \<and> cacheHit r' src \<and>
      uploads (gl r') = Suc (uploads (gl r)) \<and> creations (gl r') = Suc (creations (gl r))"
proof -
  define r2 where "r2 = releaseBackground r (sourceIdentifier src)"
  have live2: "\<not> contextLost (gl r2)"
    using live releaseBackground_props(1) [of r "sourceIdentifier src"]
    by (simp add: r2_def sameButTextures_def)
  have c2: "uploads (gl r2) = uploads (gl r)" "creations (gl r2) = creations (gl r)"
    "activeBackgroundSourceIdentifier r2 = Some (sourceIdentifier src)"
    using releaseBackground_calls [OF live] by (simp_all add: r2_def releaseBackground_props)
  obtain r3 where r3: "loadSource r2 src = Inr r3" "backgroundRenderInfo r3 \<noteq> None"
    "src = None \<or> activeBackgroundSourceIdentifier r3 = activeBackgroundSourceIdentifier r2"
    "src = None \<longrightarrow> activeBackgroundSourceIdentifier r3 = Some defaultColorIdentifier"
    "uploads (gl r3) = Suc (uploads (gl r2))" "creations (gl r3) = Suc (creations (gl r2))"
    using loadSource_supported [OF live2 sup] by blast
  have "activeBackgroundSourceIdentifier r3 = Some (sourceIdentifier src)"
    using r3(3,4) c2(3) by (auto simp: sourceIdentifier_def)
  then show ?thesis using r3 c2 miss
    by (auto simp: update_miss cacheHit_def r2_def [symmetric])
qed

lemma update_unsupported_miss:
  assumes live: "\<not> contextLost (gl r)"
    and t: "source_type s \<noteq> ''image''" "source_type s \<noteq> ''video''"
    and miss: "\<not> cacheHit r (Some s)"
  shows "\<exists>r'. updateBackgroundIfNeeded r (Some s) = Inr r' \<and> \<not> contextLost (gl r') \<and>
      activeBackgroundSourceIdentifier r' = Some defaultColorIdentifier \<and>
      backgroundRenderInfo r' \<noteq> None \<and>
      uploads (gl r') = Suc (uploads (gl r)) \<and> creations (gl r') = Suc (creations (gl r))"
proof -
  define r2 where "r2 = releaseBackground r (sourceIdentifier (Some s))"
  have live2: "\<not> contextLost (gl r2)"
    using live releaseBackground_props(1) [of r "sourceIdentifier (Some s)"]
    by (simp add: r2_def sameButTextures_def)
  have c2: "uploads (gl r2) = uploads (gl r)" "creations (gl r2) = creations (gl r)"
    "backgroundRenderInfo r2 = None"
    using releaseBackground_calls [OF live] by (simp_all add: r2_def releaseBackground_props)
  obtain r' where r': "useDefaultColor r2 = Inr r'" "backgroundRenderInfo r' \<noteq> None"
      "activeBackgroundSourceIdentifier r' = Some defaultColorIdentifier"
      "uploads (gl r') = Suc (uploads (gl r2))" "creations (gl r') = Suc (creations (gl r2))"
    using useDefaultColor_live [OF live2] by blast
  have "contextLost (gl r') = contextLost (gl r2)"
    using useDefaultColor_frame(1) [of r2] r'(1) by (simp add: sameButTextures_def)
  then show ?thesis using r' c2 miss live2 loadSource_unsupported [OF t, of r2]
    by (auto simp: update_miss cacheHit_def r2_def [symmetric])
qed

section \<open>The constructed renderer\<close>

lemma constructor_result:
  "new_WebGLRenderer width height (Some freshContext) True True =
     Inr \<lparr>gl = \<lparr>contextLost = False,
                attributes = rendererContextAttributes,
                textures = (\<lambda>n. if n = 0 \<or> n = 1
                                 then Some \<lparr>tex_width = 1, tex_height = 1,
                                            tex_image = (\<lambda>_. pixelColor (0, 0, 0, 255))\<rparr>
                                 else None),
                nextTexture = 2,
                calls = [CreateTexture 0, TexImage2D 0 1 1, CreateTexture 1, TexImage2D 1 1 1],
                drawingBuffer = canvasImage rendererContextAttributes clearedBuffer\<rparr>,
          canvas_width = width, canvas_height = height,
          blendUniformValues = initialBlendUniforms,
          storedStateTextures = [Some 0, Some 1],
          running = True, currentStateIndex = 0,
          backgroundRenderInfo = None,
          activeBackgroundSourceIdentifier = None\<rparr>"
  by (auto simp: new_WebGLRenderer_def getContext_def gl_clearCanvas_def freshContext_def
      createStateTexture_def gl_createTexture_def gl_texImage2D_def Let_def fun_eq_iff)

lemma constructed_fields:
  "running (constructedRenderer w h)"
  "currentStateIndex (constructedRenderer w h) = 0"
  "storedStateTextures (constructedRenderer w h) = [Some 0, Some 1]"
  "backgroundRenderInfo (constructedRenderer w h) = None"
  "activeBackgroundSourceIdentifier (constructedRenderer w h) = None"
  "\<not> contextLost (gl (constructedRenderer w h))"
  "nextTexture (gl (constructedRenderer w h)) = 2"
  "uploads (gl (constructedRenderer w h)) = 2"
  "creations (gl (constructedRenderer w h)) = 2"
  "canvas_width (constructedRenderer w h) = w"
  "canvas_height (constructedRenderer w h) = h"
  "attributes (gl (constructedRenderer w h)) = rendererContextAttributes"
  "textures (gl (constructedRenderer w h)) 0 =
     Some \<lparr>tex_width = 1, tex_height = 1, tex_image = (\<lambda>_. pixelColor (0, 0, 0, 255))\<rparr>"
  "textures (gl (constructedRenderer w h)) (Suc 0) =
     Some \<lparr>tex_width = 1, tex_height = 1, tex_image = (\<lambda>_. pixelColor (0, 0, 0, 255))\<rparr>"
  by (simp_all add: constructedRenderer_def constructor_result uploads_def creations_def)

lemma constructor_cases:
  assumes "new_WebGLRenderer width height (Some freshContext) shadersCompile programsLink = Inr r"
  shows "r = constructedRenderer width height"
proof -
  have "shadersCompile \<and> programsLink"
    using assms
    by (auto simp: new_WebGLRenderer_def getContext_def gl_clearCanvas_def freshContext_def
        split: if_splits)
  then show ?thesis using assms by (simp add: constructedRenderer_def constructor_result)
qed

lemma constructed_reachable: "reachable (constructedRenderer w h)"
  by (rule reachable.constructed [of w h True True]) (simp add: constructedRenderer_def constructor_result)

lemma constructed_wellFormed: "wellFormed (constructedRenderer w h)"
  by (auto simp: wellFormed_def storedBelow_def backgroundApart_def stateTexturesLive_def
      constructed_fields)

lemma update_returns_info:
  assumes "updateBackgroundIfNeeded r src = Inr r'"
  shows "backgroundRenderInfo r' \<noteq> None"
proof (cases "cacheHit r src")
  case True
  then show ?thesis using assms by (auto simp: cacheHit_def update_hit)
next
  case False
  show ?thesis
  proof (cases "loadSource (releaseBackground r (sourceIdentifier src)) src")
    case (Inl e)
    then show ?thesis using assms False by (simp add: update_miss cacheHit_def)
  next
    case (Inr r3)
    show ?thesis
    proof (cases "backgroundRenderInfo r3 = None")
      case True
      then have u: "useDefaultColor r3 = Inr r'"
        using assms False Inr by (simp add: update_miss cacheHit_def)
      then show ?thesis
        by (cases "contextLost (gl r3)")
          (auto simp: useDefaultColor_def createColorTexture_def createTexture_live createTexture_lost)
    next
      case f: False
      then show ?thesis using assms False Inr by (auto simp: update_miss cacheHit_def)
    qed
  qed
qed

section \<open>Claims about the background source manager\<close>

text \<open>
  Claim C7, as amended. A request whose identity equals the active identity while a
  render info is present leaves the renderer exactly as it is: no texture call is made
  and the render info is unchanged. For a request without source, an image request with
  its bitmap or a video request with its stream, on a live context, the same request
  made twice in a row returns both times, the second call changes nothing, and when the
  first call was a miss the two calls together create one texture and make one upload.
\<close>

theorem C7_same_identity_is_no_op:
  "(cacheHit r newSource \<longrightarrow> updateBackgroundIfNeeded r newSource = Inr r)
   \<and> (\<not> contextLost (gl r) \<and> supportedSource newSource \<longrightarrow>
        (\<exists>r1. updateBackgroundIfNeeded r newSource = Inr r1
             \<and> updateBackgroundIfNeeded r1 newSource = Inr r1
             \<and> (\<not> cacheHit r newSource \<longrightarrow>
                  uploads (gl r1) = Suc (uploads (gl r))
                  \<and> creations (gl r1) = Suc (creations (gl r)))))"
proof (intro conjI impI)
  assume "cacheHit r newSource"
  then show "updateBackgroundIfNeeded r newSource = Inr r"
    by (simp add: cacheHit_def update_hit)
next
  assume a: "\<not> contextLost (gl r) \<and> supportedSource newSource"
  show "\<exists>r1. updateBackgroundIfNeeded r newSource = Inr r1
             \<and> updateBackgroundIfNeeded r1 newSource = Inr r1
             \<and> (\<not> cacheHit r newSource \<longrightarrow>
                  uploads (gl r1) = Suc (uploads (gl r))
                  \<and> creations (gl r1) = Suc (creations (gl r)))"
  proof (cases "cacheHit r newSource")
    case True
    then have "updateBackgroundIfNeeded r newSource = Inr r" by (simp add: cacheHit_def update_hit)
    then show ?thesis using True by auto
  next
    case False
    from update_supported_miss [OF conjunct1 [OF a] conjunct2 [OF a] False]
    obtain r1 where r1: "updateBackgroundIfNeeded r newSource = Inr r1" "cacheHit r1 newSource"
      "uploads (gl r1) = Suc (uploads (gl r))" "creations (gl r1) = Suc (creations (gl r))"
      by blast
    have "updateBackgroundIfNeeded r1 newSource = Inr r1"
      using r1(2) by (simp add: cacheHit_def update_hit)
    then show ?thesis using r1 by auto
  qed
qed

theorem C7_same_identity_is_no_op_witness:
  "\<exists>r1. updateBackgroundIfNeeded (constructedRenderer 640 480)
           (Some \<lparr>source_type = ''image'',
                  source_media = Some (ImageBitmap 1920 1080 (uniformTexture 1)),
                  source_url = ''office.png''\<rparr>) = Inr r1
      \<and> updateBackgroundIfNeeded r1
           (Some \<lparr>source_type = ''image'',
                  source_media = Some (ImageBitmap 1920 1080 (uniformTexture 1)),
                  source_url = ''office.png''\<rparr>) = Inr r1
      \<and> uploads (gl r1) = 3"
proof -
  let ?src = "Some \<lparr>source_type = ''image'',
                  source_media = Some (ImageBitmap 1920 1080 (uniformTexture 1)),
                  source_url = ''office.png''\<rparr>"
  have live: "\<not> contextLost (gl (constructedRenderer 640 480))" by (simp add: constructed_fields)
  have sup: "supportedSource ?src" by (simp add: supportedSource_def)
  have miss: "\<not> cacheHit (constructedRenderer 640 480) ?src"
    by (simp add: cacheHit_def constructed_fields)
  from C7_same_identity_is_no_op [of "constructedRenderer 640 480" ?src] live sup miss
  show ?thesis by (auto simp: constructed_fields)
qed

text \<open>
  Claim C7 as stated fails for a source with an unrecognised type tag: the fallback
  names the default colour as the active identity, so the same request misses again and
  uploads the default colour texture a second time.
\<close>

theorem C7_counterexample:
  "uploads (gl (stateAfter (updateBackgroundIfNeeded
       (stateAfter (updateBackgroundIfNeeded (constructedRenderer 640 480)
          (Some \<lparr>source_type = ''gradient'', source_media = None, source_url = ''sunset''\<rparr>)))
       (Some \<lparr>source_type = ''gradient'', source_media = None, source_url = ''sunset''\<rparr>))))
   = uploads (gl (constructedRenderer 640 480)) + 2"
proof -
  let ?s = "\<lparr>source_type = ''gradient'', source_media = None, source_url = ''sunset''\<rparr>"
  have t: "source_type ?s \<noteq> ''image''" "source_type ?s \<noteq> ''video''" by simp_all
  have live: "\<not> contextLost (gl (constructedRenderer 640 480))" by (simp add: constructed_fields)
  have miss: "\<not> cacheHit (constructedRenderer 640 480) (Some ?s)"
    by (simp add: cacheHit_def constructed_fields)
  obtain r1 where r1: "updateBackgroundIfNeeded (constructedRenderer 640 480) (Some ?s) = Inr r1"
      "\<not> contextLost (gl r1)" "activeBackgroundSourceIdentifier r1 = Some defaultColorIdentifier"
      "uploads (gl r1) = Suc (uploads (gl (constructedRenderer 640 480)))"
    using update_unsupported_miss [OF live t miss] by blast
  have miss1: "\<not> cacheHit r1 (Some ?s)"
    using r1(3) by (simp add: cacheHit_def sourceIdentifier_def defaultColorIdentifier_def)
  obtain r2 where r2: "updateBackgroundIfNeeded r1 (Some ?s) = Inr r2"
      "uploads (gl r2) = Suc (uploads (gl r1))"
    using update_unsupported_miss [OF r1(2) t miss1] by blast
  show ?thesis using r1 r2 by simp
qed

text \<open>
  Claim C10, as amended. The background update ends with a render info present for
  every request that is a cache hit (the cached info), that is absent, whose type tag
  is neither image nor video, or that carries the media its type tag announces. When
  such a request is not a cache hit and builds nothing of its own (no source, or an
  unrecognised type tag), the render info is the default solid-colour texture,
  registered under the colour key. An image or video request that is not a cache hit
  and whose media is missing or of the other kind makes the update throw a
  \<^verbatim>\<open>TypeError\<close> and leaves the render info absent. Whenever the update returns, a render
  info is present.
\<close>

theorem C10_background_never_null_on_return:
  "(cacheHit r newSource \<longrightarrow>
        updateBackgroundIfNeeded r newSource = Inr r \<and> backgroundRenderInfo r \<noteq> None)
   \<and> (\<not> cacheHit r newSource \<and> wellTypedSource newSource \<longrightarrow>
        (\<exists>r1. updateBackgroundIfNeeded r newSource = Inr r1 \<and> backgroundRenderInfo r1 \<noteq> None))
   \<and> (\<not> cacheHit r newSource \<and> defaultColorRequest newSource \<longrightarrow>
        (\<exists>r1 t. updateBackgroundIfNeeded r newSource = Inr r1
            \<and> backgroundRenderInfo r1 = Some (ColorInfo t DEFAULT_BG_COLOR)
            \<and> activeBackgroundSourceIdentifier r1 = Some defaultColorIdentifier
            \<and> (\<not> contextLost (gl r) \<longrightarrow>
                  gl_texture2D (gl r1) (Some t) = (\<lambda>_. pixelColor DEFAULT_BG_COLOR))))
   \<and> (\<not> cacheHit r newSource \<and> \<not> wellTypedSource newSource \<longrightarrow>
        (\<exists>r1. updateBackgroundIfNeeded r newSource = Inl (TypeError, r1)
            \<and> backgroundRenderInfo r1 = None))
   \<and> (updateBackgroundIfNeeded r newSource = Inr r' \<longrightarrow> backgroundRenderInfo r' \<noteq> None)"
proof (intro conjI impI)
  assume "cacheHit r newSource"
  then show "updateBackgroundIfNeeded r newSource = Inr r" "backgroundRenderInfo r \<noteq> None"
    by (simp_all add: cacheHit_def update_hit)
next
  assume "\<not> cacheHit r newSource \<and> wellTypedSource newSource"
  then show "\<exists>r1. updateBackgroundIfNeeded r newSource = Inr r1 \<and> backgroundRenderInfo r1 \<noteq> None"
    using update_typed [of newSource r] by simp
next
  assume a: "\<not> cacheHit r newSource \<and> defaultColorRequest newSource"
  show "\<exists>r1 t. updateBackgroundIfNeeded r newSource = Inr r1
            \<and> backgroundRenderInfo r1 = Some (ColorInfo t DEFAULT_BG_COLOR)
            \<and> activeBackgroundSourceIdentifier r1 = Some defaultColorIdentifier
            \<and> (\<not> contextLost (gl r) \<longrightarrow>
                  gl_texture2D (gl r1) (Some t) = (\<lambda>_. pixelColor DEFAULT_BG_COLOR))"
    by (rule update_default [OF conjunct2 [OF a] conjunct1 [OF a]])
next
  assume a: "\<not> cacheHit r newSource \<and> \<not> wellTypedSource newSource"
  show "\<exists>r1. updateBackgroundIfNeeded r newSource = Inl (TypeError, r1)
            \<and> backgroundRenderInfo r1 = None"
    by (rule update_illTyped [OF conjunct2 [OF a] conjunct1 [OF a]])
next
  assume "updateBackgroundIfNeeded r newSource = Inr r'"
  then show "backgroundRenderInfo r' \<noteq> None" by (rule update_returns_info)
qed

theorem C10_background_never_null_on_return_witness:
  "\<exists>r1 t. updateBackgroundIfNeeded (constructedRenderer 640 480)
           (Some \<lparr>source_type = ''gradient'', source_media = None, source_url = ''sunset''\<rparr>) = Inr r1
      \<and> backgroundRenderInfo r1 = Some (ColorInfo t DEFAULT_BG_COLOR)
      \<and> gl_texture2D (gl r1) (Some t) = (\<lambda>_. pixelColor DEFAULT_BG_COLOR)"
proof -
  let ?src = "Some \<lparr>source_type = ''gradient'', source_media = None, source_url = ''sunset''\<rparr>"
  have live: "\<not> contextLost (gl (constructedRenderer 640 480))" by (simp add: constructed_fields)
  have miss: "\<not> cacheHit (constructedRenderer 640 480) ?src"
    by (simp add: cacheHit_def constructed_fields)
  have d: "defaultColorRequest ?src" by (simp add: defaultColorRequest_def)
  from C10_background_never_null_on_return [of "constructedRenderer 640 480" ?src] live miss d
  show ?thesis by blast
qed

text \<open>
  Claim C10 as stated fails for an image request that arrives without its bitmap (the
  field \<^verbatim>\<open>media\<close> of a \<^verbatim>\<open>BackgroundSource\<close> is optional): on the new renderer, with a
  live context, the update throws a \<^verbatim>\<open>TypeError\<close> after it has cleared the render info,
  and the render info stays absent.
\<close>

theorem C10_counterexample:
  "(\<exists>r1. updateBackgroundIfNeeded (constructedRenderer 640 480)
           (Some \<lparr>source_type = ''image'', source_media = None, source_url = ''office.png''\<rparr>)
         = Inl (TypeError, r1))
   \<and> backgroundRenderInfo (stateAfter (updateBackgroundIfNeeded (constructedRenderer 640 480)
           (Some \<lparr>source_type = ''image'', source_media = None, source_url = ''office.png''\<rparr>)))
       = None"
proof -
  let ?src = "Some \<lparr>source_type = ''image'', source_media = None, source_url = ''office.png''\<rparr>"
  have miss: "\<not> cacheHit (constructedRenderer 640 480) ?src"
    by (simp add: cacheHit_def constructed_fields)
  have ill: "\<not> wellTypedSource ?src" by (simp add: wellTypedSource_def)
  from update_illTyped [OF ill miss] obtain r1 where
    "updateBackgroundIfNeeded (constructedRenderer 640 480) ?src = Inl (TypeError, r1)"
    "backgroundRenderInfo r1 = None" by blast
  then show ?thesis by simp
qed

section \<open>Properties of a render call\<close>

lemma resizeCanvas_props:
  "running (resizeCanvas r w h) = running r"
  "currentStateIndex (resizeCanvas r w h) = currentStateIndex r"
  "storedStateTextures (resizeCanvas r w h) = storedStateTextures r"
  "backgroundRenderInfo (resizeCanvas r w h) = backgroundRenderInfo r"
  "activeBackgroundSourceIdentifier (resizeCanvas r w h) = activeBackgroundSourceIdentifier r"
  "blendUniformValues (resizeCanvas r w h) = blendUniformValues r"
  "contextLost (gl (resizeCanvas r w h)) = contextLost (gl r)"
  "nextTexture (gl (resizeCanvas r w h)) = nextTexture (gl r)"
  "textures (gl (resizeCanvas r w h)) = textures (gl r)"
  "calls (gl (resizeCanvas r w h)) = calls (gl r)"
  "canvas_width (resizeCanvas r w h) = w"
  "canvas_height (resizeCanvas r w h) = h"
  "attributes (gl (resizeCanvas r w h)) = attributes (gl r)"
  by (simp_all add: resizeCanvas_def clearCanvas_props)

lemma resizeCanvas_wellFormed: "wellFormed (resizeCanvas r w h) = wellFormed r"
  by (simp add: wellFormed_def storedBelow_def backgroundApart_def stateTexturesLive_def
      resizeCanvas_props)

lemma gl_texture2D_live:
  "\<not> contextLost g \<Longrightarrow> textures g n \<noteq> None \<Longrightarrow>
   gl_texture2D (gl_texImage2D g (Some n) w h px) (Some n) = px"
  by (simp add: gl_texture2D_def texImage2D_live)

lemma renderPassthrough_live:
  assumes live: "\<not> contextLost (gl r)"
  shows "canvasPixel (gl (renderPassthrough r f)) q =
           canvasImage (attributes (gl r)) (frame_pixels f) q"
    and "storedStateTextures (renderPassthrough r f) = storedStateTextures r"
    and "currentStateIndex (renderPassthrough r f) = currentStateIndex r"
    and "backgroundRenderInfo (renderPassthrough r f) = backgroundRenderInfo r"
    and "running (renderPassthrough r f) = running r"
    and "u_enabled (blendUniformValues (renderPassthrough r f)) = 0"
proof -
  let ?n = "nextTexture (gl r)"
  define g1 where "g1 = snd (gl_createTexture (gl r))"
  have g1: "gl_createTexture (gl r) = (Some ?n, g1)" "contextLost g1 = contextLost (gl r)"
      "textures g1 ?n \<noteq> None" "attributes g1 = attributes (gl r)"
    using live createTexture_props(1) [of "gl r"]
    by (simp_all add: g1_def createTexture_props prod_eq_iff)
  define g2 where "g2 = gl_texImage2D g1 (Some ?n) (displayWidth f) (displayHeight f) (frame_pixels f)"
  have s: "gl_texture2D g2 (Some ?n) = frame_pixels f"
    unfolding g2_def using g1 live by (simp add: gl_texture2D_live)
  have l2: "\<not> contextLost g2" "attributes g2 = attributes (gl r)"
    unfolding g2_def using g1 live by (simp_all add: texImage2D_props)
  have sh: "drawQuad (blend_main ((blendUniformValues r)\<lparr>u_enabled := 0\<rparr>) (frame_pixels f)
              unboundSampler unboundSampler) = (\<lambda>p. frame_pixels f (quadTexCoord p))"
    by (simp add: drawQuad_def blend_main_def)
  show "canvasPixel (gl (renderPassthrough r f)) q =
           canvasImage (attributes (gl r)) (frame_pixels f) q"
    using g1(1) s l2
    by (simp add: renderPassthrough_def Let_def g2_def [symmetric] canvasPixel_def deleteTexture_props
        drawToCanvas_props sh canvasImage_def storedImage_def quadTexCoord_def)
  show "storedStateTextures (renderPassthrough r f) = storedStateTextures r"
    "currentStateIndex (renderPassthrough r f) = currentStateIndex r"
    "backgroundRenderInfo (renderPassthrough r f) = backgroundRenderInfo r"
    "running (renderPassthrough r f) = running r"
    "u_enabled (blendUniformValues (renderPassthrough r f)) = 0"
    by (simp_all add: renderPassthrough_def Let_def split: prod.splits)
qed

lemma renderPassthrough_fields:
  "storedStateTextures (renderPassthrough r f) = storedStateTextures r"
  "currentStateIndex (renderPassthrough r f) = currentStateIndex r"
  "backgroundRenderInfo (renderPassthrough r f) = backgroundRenderInfo r"
  "running (renderPassthrough r f) = running r"
  "contextLost (gl (renderPassthrough r f)) = contextLost (gl r)"
  "nextTexture (gl r) \<le> nextTexture (gl (renderPassthrough r f))"
  "attributes (gl (renderPassthrough r f)) = attributes (gl r)"
  by (cases "contextLost (gl r)";
      simp add: renderPassthrough_def Let_def createTexture_live createTexture_lost
        deleteTexture_props drawToCanvas_props texImage2D_props)+

lemma renderPassthrough_textures:
  "n < nextTexture (gl r) \<Longrightarrow> textures (gl (renderPassthrough r f)) n = textures (gl r) n"
  by (cases "contextLost (gl r)";
      simp add: renderPassthrough_def Let_def createTexture_live createTexture_lost
        deleteTexture_props drawToCanvas_props texImage2D_props)

lemma render_closed: "\<not> running r \<Longrightarrow> render r f opts ct cf sm = Inr r"
  by (simp add: render_def)

lemma render_passthrough:
  "running r \<Longrightarrow> ct = None \<or> cf = None \<Longrightarrow>
   render r f opts ct cf sm = Inr (renderPassthrough (resizeCanvas r (displayWidth f) (displayHeight f)) f)"
  by (auto simp: render_def Let_def split: option.splits)

lemma render_effect:
  "running r \<Longrightarrow>
   render r f opts (Some ct) (Some cf) sm =
     (case updateBackgroundIfNeeded (resizeCanvas r (displayWidth f) (displayHeight f)) (backgroundSource opts) of
        Inl e \<Rightarrow> Inl e
      | Inr r1 \<Rightarrow>
          Inr ((blendingPass r1
                  (stateUpdatePass r1 f opts ct cf sm
                     (element (storedStateTextures r) (currentStateIndex r))
                     (element (storedStateTextures r) ((currentStateIndex r + 1) mod 2)))
                  f opts (element (storedStateTextures r) ((currentStateIndex r + 1) mod 2)))
               \<lparr>currentStateIndex := (currentStateIndex r + 1) mod 2\<rparr>))"
  by (simp add: render_def Let_def resizeCanvas_props cong: sum.case_cong)

lemma stateUpdatePass_props:
  "contextLost (stateUpdatePass r f opts ct cf sm rd wr) = contextLost (gl r)"
  "attributes (stateUpdatePass r f opts ct cf sm rd wr) = attributes (gl r)"
  "nextTexture (stateUpdatePass r f opts ct cf sm rd wr) = nextTexture (gl r)"
  "drawingBuffer (stateUpdatePass r f opts ct cf sm rd wr) = drawingBuffer (gl r)"
  "wr \<noteq> Some n \<Longrightarrow> textures (stateUpdatePass r f opts ct cf sm rd wr) n = textures (gl r) n"
  by (simp_all add: stateUpdatePass_def Let_def drawToTexture_props texImage2D_props)

lemma stateUpdatePass_keeps:
  "(textures (stateUpdatePass r f opts ct cf sm rd wr) n \<noteq> None) = (textures (gl r) n \<noteq> None)"
  unfolding stateUpdatePass_def Let_def by (simp only: drawToTexture_props texImage2D_props)

lemma stateUpdatePass_written:
  assumes live: "\<not> contextLost (gl r)" and b: "textures (gl r) b \<noteq> None" and ab: "a \<noteq> b"
    and size: "0 < displayWidth f" "0 < displayHeight f"
  shows "textures (stateUpdatePass r f opts ct cf sm (Some a) (Some b)) b =
     Some \<lparr>tex_width = displayWidth f, tex_height = displayHeight f,
           tex_image = storedImage (drawQuad (stateUpdate_main
              (stateUniformsOf opts sm (displayWidth f) (displayHeight f)) ct cf
              (gl_texture2D (gl r) (Some a))))\<rparr>"
proof -
  define g1 where "g1 = gl_texImage2D (gl r) (Some b) (displayWidth f) (displayHeight f) clearedBuffer"
  have t: "textures g1 b = Some \<lparr>tex_width = displayWidth f, tex_height = displayHeight f,
      tex_image = clearedBuffer\<rparr>"
    unfolding g1_def using live b by (simp add: texImage2D_live)
  have l: "\<not> contextLost g1" unfolding g1_def using live by (simp add: texImage2D_props)
  have s: "gl_texture2D g1 (Some a) = gl_texture2D (gl r) (Some a)"
    unfolding g1_def using ab by (simp add: gl_texture2D_def texImage2D_props)
  show ?thesis
    unfolding stateUpdatePass_def Let_def g1_def [symmetric] s
    using t l size by (simp add: gl_drawToTexture_def)
qed

lemma bindBackground_props:
  "contextLost (fst (bindBackground g info)) = contextLost g"
  "attributes (fst (bindBackground g info)) = attributes g"
  "nextTexture (fst (bindBackground g info)) = nextTexture g"
  "drawingBuffer (fst (bindBackground g info)) = drawingBuffer g"
  "info_texture info \<noteq> n \<Longrightarrow> textures (fst (bindBackground g info)) n = textures g n"
  by (cases info; simp add: bindBackground_def texImage2D_props)+

lemma blendingPass_fields:
  "running (blendingPass r g f opts t) = running r"
  "currentStateIndex (blendingPass r g f opts t) = currentStateIndex r"
  "storedStateTextures (blendingPass r g f opts t) = storedStateTextures r"
  "backgroundRenderInfo (blendingPass r g f opts t) = backgroundRenderInfo r"
  "activeBackgroundSourceIdentifier (blendingPass r g f opts t) = activeBackgroundSourceIdentifier r"
  "canvas_width (blendingPass r g f opts t) = canvas_width r"
  "canvas_height (blendingPass r g f opts t) = canvas_height r"
  by (simp_all add: blendingPass_def Let_def split: prod.splits option.splits)

lemma backgroundBound_props:
  "contextLost (backgroundBound r g) = contextLost g"
  "nextTexture (backgroundBound r g) = nextTexture g"
  "attributes (backgroundBound r g) = attributes g"
  "(\<And>i. backgroundRenderInfo r = Some i \<Longrightarrow> info_texture i \<noteq> n) \<Longrightarrow>
   textures (backgroundBound r g) n = textures g n"
  by (simp_all add: backgroundBound_def bindBackground_props split: option.splits)

lemma blendingPass_glstate:
  "\<exists>sh. gl (blendingPass r g f opts t) =
     gl_deleteTexture
       (gl_drawToCanvas
          (backgroundBound r
             (gl_texImage2D (snd (gl_createTexture g)) (fst (gl_createTexture g))
                (displayWidth f) (displayHeight f) (frame_pixels f)))
          sh)
       (fst (gl_createTexture g))"
  by (cases "backgroundRenderInfo r")
    (auto simp: blendingPass_def Let_def case_prod_beta backgroundBound_def)

lemma blendingPass_gl:
  "contextLost (gl (blendingPass r g f opts t)) = contextLost g"
  "nextTexture g \<le> nextTexture (gl (blendingPass r g f opts t))"
  "attributes (gl (blendingPass r g f opts t)) = attributes g"
proof -
  obtain sh where sh: "gl (blendingPass r g f opts t) =
     gl_deleteTexture
       (gl_drawToCanvas
          (backgroundBound r
             (gl_texImage2D (snd (gl_createTexture g)) (fst (gl_createTexture g))
                (displayWidth f) (displayHeight f) (frame_pixels f)))
          sh)
       (fst (gl_createTexture g))"
    using blendingPass_glstate by blast
  show "contextLost (gl (blendingPass r g f opts t)) = contextLost g"
    unfolding sh
    by (simp add: deleteTexture_props drawToCanvas_props backgroundBound_props texImage2D_props
        createTexture_props)
  show "nextTexture g \<le> nextTexture (gl (blendingPass r g f opts t))"
    unfolding sh
    by (simp add: deleteTexture_props drawToCanvas_props backgroundBound_props texImage2D_props
        createTexture_props)
  show "attributes (gl (blendingPass r g f opts t)) = attributes g"
    unfolding sh
    by (simp add: deleteTexture_props drawToCanvas_props backgroundBound_props texImage2D_props
        createTexture_props)
qed

lemma blendingPass_textures:
  assumes n: "n < nextTexture g"
    and apart: "\<And>i. backgroundRenderInfo r = Some i \<Longrightarrow> info_texture i \<noteq> n"
  shows "textures (gl (blendingPass r g f opts t)) n = textures g n"
proof -
  obtain sh where sh: "gl (blendingPass r g f opts t) =
     gl_deleteTexture
       (gl_drawToCanvas
          (backgroundBound r
             (gl_texImage2D (snd (gl_createTexture g)) (fst (gl_createTexture g))
                (displayWidth f) (displayHeight f) (frame_pixels f)))
          sh)
       (fst (gl_createTexture g))"
    using blendingPass_glstate by blast
  have ne: "nextTexture g \<noteq> n" "n \<noteq> nextTexture g" using n by simp_all
  show ?thesis
    unfolding sh
    using ne
    by (simp add: deleteTexture_props drawToCanvas_props backgroundBound_props(4) [OF apart]
        texImage2D_props createTexture_props)
qed

lemma wellFormed_stored:
  assumes "wellFormed r" "running r"
  obtains a b where "storedStateTextures r = [Some a, Some b]" "a \<noteq> b"
    "textures (gl r) a \<noteq> None" "textures (gl r) b \<noteq> None"
    "a < nextTexture (gl r)" "b < nextTexture (gl r)"
    "\<And>i. backgroundRenderInfo r = Some i \<Longrightarrow> info_texture i \<noteq> a \<and> info_texture i \<noteq> b"
proof -
  from assms obtain a b where ab: "storedStateTextures r = [Some a, Some b]" "a \<noteq> b"
    "textures (gl r) a \<noteq> None" "textures (gl r) b \<noteq> None"
    by (auto simp: wellFormed_def stateTexturesLive_def)
  have "a < nextTexture (gl r)" "b < nextTexture (gl r)"
    using assms(1) ab(1) by (auto simp: wellFormed_def storedBelow_def)
  moreover have "\<And>i. backgroundRenderInfo r = Some i \<Longrightarrow> info_texture i \<noteq> a \<and> info_texture i \<noteq> b"
    using assms(1) ab(1) by (auto simp: wellFormed_def backgroundApart_def)
  ultimately show ?thesis using ab that by blast
qed

lemma update_wellFormed:
  assumes wf: "wellFormed r"
  shows "wellFormed (stateAfter (updateBackgroundIfNeeded r src))"
proof -
  let ?r' = "stateAfter (updateBackgroundIfNeeded r src)"
  have same: "sameButTextures r ?r'" by (rule update_frame)
  have st: "storedStateTextures ?r' = storedStateTextures r"
    and nx: "nextTexture (gl r) \<le> nextTexture (gl ?r')"
    using same by (simp_all add: sameButTextures_def)
  have below: "storedBelow ?r'"
    unfolding storedBelow_def st
  proof (intro allI impI)
    fix n assume "Some n \<in> set (storedStateTextures r)"
    then have "n < nextTexture (gl r)" using wf by (simp add: wellFormed_def storedBelow_def)
    then show "n < nextTexture (gl ?r')" using nx by simp
  qed
  have apart: "backgroundApart ?r'"
    unfolding backgroundApart_def st
  proof (intro allI impI)
    fix i assume i: "backgroundRenderInfo ?r' = Some i"
    from update_info [OF i] show "info_texture i < nextTexture (gl ?r')
        \<and> Some (info_texture i) \<notin> set (storedStateTextures r)"
    proof
      assume "backgroundRenderInfo r = Some i"
      then have "info_texture i < nextTexture (gl r) \<and> Some (info_texture i) \<notin> set (storedStateTextures r)"
        using wf by (simp add: wellFormed_def backgroundApart_def)
      then show ?thesis using nx by simp
    next
      assume a: "nextTexture (gl r) \<le> info_texture i \<and> info_texture i < nextTexture (gl ?r')"
      have "Some (info_texture i) \<notin> set (storedStateTextures r)"
      proof
        assume "Some (info_texture i) \<in> set (storedStateTextures r)"
        then have "info_texture i < nextTexture (gl r)"
          using wf by (simp add: wellFormed_def storedBelow_def)
        then show False using a by simp
      qed
      then show ?thesis using a by simp
    qed
  qed
  have live: "running ?r' \<longrightarrow> stateTexturesLive ?r'"
  proof
    assume "running ?r'"
    then have run: "running r" using same by (simp add: sameButTextures_def)
    from wellFormed_stored [OF wf run] obtain a b where ab:
      "storedStateTextures r = [Some a, Some b]" "a \<noteq> b"
      "textures (gl r) a \<noteq> None" "textures (gl r) b \<noteq> None"
      "a < nextTexture (gl r)" "b < nextTexture (gl r)"
      "\<And>i. backgroundRenderInfo r = Some i \<Longrightarrow> info_texture i \<noteq> a \<and> info_texture i \<noteq> b"
      by blast
    have "textures (gl ?r') a = textures (gl r) a"
      by (rule update_textures [OF ab(5)]) (use ab(7) in blast)
    moreover have "textures (gl ?r') b = textures (gl r) b"
      by (rule update_textures [OF ab(6)]) (use ab(7) in blast)
    ultimately show "stateTexturesLive ?r'"
      unfolding stateTexturesLive_def st using ab(1-4) by simp
  qed
  have "currentStateIndex ?r' < 2" using wf same by (simp add: wellFormed_def sameButTextures_def)
  moreover have "attributes (gl ?r') = rendererContextAttributes"
    using wf same by (simp add: wellFormed_def sameButTextures_def)
  ultimately show ?thesis using below apart live by (simp add: wellFormed_def)
qed

lemma passthrough_wellFormed:
  assumes wf: "wellFormed r"
  shows "wellFormed (renderPassthrough r f)"
proof -
  let ?r' = "renderPassthrough r f"
  have f: "storedStateTextures ?r' = storedStateTextures r"
    "currentStateIndex ?r' = currentStateIndex r"
    "backgroundRenderInfo ?r' = backgroundRenderInfo r"
    "running ?r' = running r"
    "nextTexture (gl r) \<le> nextTexture (gl ?r')"
    "attributes (gl ?r') = attributes (gl r)"
    by (simp_all only: renderPassthrough_fields)
  have below: "storedBelow ?r'"
    unfolding storedBelow_def f(1)
  proof (intro allI impI)
    fix n assume "Some n \<in> set (storedStateTextures r)"
    then have "n < nextTexture (gl r)" using wf by (simp add: wellFormed_def storedBelow_def)
    then show "n < nextTexture (gl ?r')" using f(5) by simp
  qed
  have apart: "backgroundApart ?r'"
    unfolding backgroundApart_def f(1) f(3)
  proof (intro allI impI)
    fix i assume "backgroundRenderInfo r = Some i"
    then have "info_texture i < nextTexture (gl r) \<and> Some (info_texture i) \<notin> set (storedStateTextures r)"
      using wf by (simp add: wellFormed_def backgroundApart_def)
    then show "info_texture i < nextTexture (gl ?r') \<and> Some (info_texture i) \<notin> set (storedStateTextures r)"
      using f(5) by simp
  qed
  have live: "running ?r' \<longrightarrow> stateTexturesLive ?r'"
  proof
    assume "running ?r'"
    then have run: "running r" using f(4) by simp
    from wellFormed_stored [OF wf run] obtain a b where ab:
      "storedStateTextures r = [Some a, Some b]" "a \<noteq> b"
      "textures (gl r) a \<noteq> None" "textures (gl r) b \<noteq> None"
      "a < nextTexture (gl r)" "b < nextTexture (gl r)"
      "\<And>i. backgroundRenderInfo r = Some i \<Longrightarrow> info_texture i \<noteq> a \<and> info_texture i \<noteq> b"
      by blast
    have ta: "textures (gl ?r') a = textures (gl r) a"
      by (rule renderPassthrough_textures [OF ab(5)])
    have tb: "textures (gl ?r') b = textures (gl r) b"
      by (rule renderPassthrough_textures [OF ab(6)])
    have "storedStateTextures ?r' = [Some a, Some b] \<and> a \<noteq> b \<and>
        textures (gl ?r') a \<noteq> None \<and> textures (gl ?r') b \<noteq> None"
      unfolding ta tb f(1) using ab(1-4) by simp
    then show "stateTexturesLive ?r'"
      unfolding stateTexturesLive_def by blast
  qed
  have "currentStateIndex ?r' < 2" using wf f(2) by (simp add: wellFormed_def)
  moreover have "attributes (gl ?r') = rendererContextAttributes"
    using wf f(6) by (simp add: wellFormed_def)
  ultimately show ?thesis using below apart live by (simp add: wellFormed_def)
qed

lemma index_cases:
  assumes "storedStateTextures r = [Some a, Some b]" "currentStateIndex r < 2"
  obtains (zero) "currentStateIndex r = 0"
      "element (storedStateTextures r) (currentStateIndex r) = Some a"
      "element (storedStateTextures r) ((currentStateIndex r + 1) mod 2) = Some b"
      "(currentStateIndex r + 1) mod 2 = 1"
  | (one) "currentStateIndex r = 1"
      "element (storedStateTextures r) (currentStateIndex r) = Some b"
      "element (storedStateTextures r) ((currentStateIndex r + 1) mod 2) = Some a"
      "(currentStateIndex r + 1) mod 2 = 0"
proof -
  have "currentStateIndex r = 0 \<or> currentStateIndex r = 1" using assms(2) by auto
  then show ?thesis
  proof
    assume z: "currentStateIndex r = 0"
    show ?thesis by (rule zero) (simp_all add: z assms(1) element_def)
  next
    assume o: "currentStateIndex r = 1"
    show ?thesis by (rule one) (simp_all add: o assms(1) element_def)
  qed
qed

text \<open>What one effecting render call does to the two mask textures.\<close>

lemma effect_textures:
  fixes r1 :: WebGLRenderer and f :: VideoFrame and opts :: renderOptions
    and ct cf :: sampler2D and sm :: bool and rd wr :: nat
  assumes wf: "wellFormed r1" and run: "running r1"
    and st: "storedStateTextures r1 = [Some x, Some y]"
    and rd: "rd = x \<and> wr = y \<or> rd = y \<and> wr = x"
  defines "r2 \<equiv> blendingPass r1 (stateUpdatePass r1 f opts ct cf sm (Some rd) (Some wr)) f opts (Some wr)"
  shows "textures (gl r2) rd = textures (gl r1) rd"
    and "textures (gl r2) wr \<noteq> None"
    and "\<not> contextLost (gl r1) \<Longrightarrow> 0 < displayWidth f \<Longrightarrow> 0 < displayHeight f \<Longrightarrow>
         textures (gl r2) wr =
           Some \<lparr>tex_width = displayWidth f, tex_height = displayHeight f,
                 tex_image = storedImage (drawQuad (stateUpdate_main
                    (stateUniformsOf opts sm (displayWidth f) (displayHeight f)) ct cf
                    (gl_texture2D (gl r1) (Some rd))))\<rparr>"
    and "wellFormed (r2\<lparr>currentStateIndex := k mod 2\<rparr>)"
proof -
  from wellFormed_stored [OF wf run] st obtain
    xy: "x \<noteq> y" "textures (gl r1) x \<noteq> None" "textures (gl r1) y \<noteq> None"
      "x < nextTexture (gl r1)" "y < nextTexture (gl r1)"
      "\<And>i. backgroundRenderInfo r1 = Some i \<Longrightarrow> info_texture i \<noteq> x \<and> info_texture i \<noteq> y"
    by auto
  have rw: "rd \<noteq> wr" "textures (gl r1) rd \<noteq> None" "textures (gl r1) wr \<noteq> None"
      "rd < nextTexture (gl r1)" "wr < nextTexture (gl r1)"
      "\<And>i. backgroundRenderInfo r1 = Some i \<Longrightarrow> info_texture i \<noteq> rd"
      "\<And>i. backgroundRenderInfo r1 = Some i \<Longrightarrow> info_texture i \<noteq> wr"
    using rd xy by auto
  define g where "g = stateUpdatePass r1 f opts ct cf sm (Some rd) (Some wr)"
  have gn: "nextTexture g = nextTexture (gl r1)" by (simp add: g_def stateUpdatePass_props)
  have grd: "textures g rd = textures (gl r1) rd"
    using rw(1) by (simp add: g_def stateUpdatePass_props)
  have gwr: "textures g wr \<noteq> None"
    unfolding g_def stateUpdatePass_keeps by (rule rw(3))
  have b_rd: "textures (gl r2) rd = textures g rd"
    unfolding r2_def g_def [symmetric]
    by (rule blendingPass_textures) (simp_all add: gn rw)
  have b_wr: "textures (gl r2) wr = textures g wr"
    unfolding r2_def g_def [symmetric]
    by (rule blendingPass_textures) (simp_all add: gn rw)
  show t_rd: "textures (gl r2) rd = textures (gl r1) rd" using b_rd grd by simp
  show t_wr: "textures (gl r2) wr \<noteq> None" using b_wr gwr by simp
  show "\<not> contextLost (gl r1) \<Longrightarrow> 0 < displayWidth f \<Longrightarrow> 0 < displayHeight f \<Longrightarrow>
         textures (gl r2) wr =
           Some \<lparr>tex_width = displayWidth f, tex_height = displayHeight f,
                 tex_image = storedImage (drawQuad (stateUpdate_main
                    (stateUniformsOf opts sm (displayWidth f) (displayHeight f)) ct cf
                    (gl_texture2D (gl r1) (Some rd))))\<rparr>"
    unfolding b_wr g_def using rw(1,3) by (simp add: stateUpdatePass_written)
  have f2: "storedStateTextures r2 = storedStateTextures r1"
    "backgroundRenderInfo r2 = backgroundRenderInfo r1" "running r2 = running r1"
    by (simp_all add: r2_def blendingPass_fields)
  have n2: "nextTexture (gl r1) \<le> nextTexture (gl r2)"
    using blendingPass_gl(2) [of g r1 f opts "Some wr"] gn by (simp add: r2_def g_def)
  have below: "storedBelow (r2\<lparr>currentStateIndex := k mod 2\<rparr>)"
    unfolding storedBelow_def
  proof (intro allI impI)
    fix n assume "Some n \<in> set (storedStateTextures (r2\<lparr>currentStateIndex := k mod 2\<rparr>))"
    then have "Some n \<in> set (storedStateTextures r1)" by (simp add: f2)
    then have "n < nextTexture (gl r1)" using wf by (simp add: wellFormed_def storedBelow_def)
    then show "n < nextTexture (gl (r2\<lparr>currentStateIndex := k mod 2\<rparr>))" using n2 by simp
  qed
  have apart: "backgroundApart (r2\<lparr>currentStateIndex := k mod 2\<rparr>)"
    unfolding backgroundApart_def
  proof (intro allI impI)
    fix i assume "backgroundRenderInfo (r2\<lparr>currentStateIndex := k mod 2\<rparr>) = Some i"
    then have "backgroundRenderInfo r1 = Some i" by (simp add: f2)
    then have "info_texture i < nextTexture (gl r1) \<and> Some (info_texture i) \<notin> set (storedStateTextures r1)"
      using wf by (simp add: wellFormed_def backgroundApart_def)
    then show "info_texture i < nextTexture (gl (r2\<lparr>currentStateIndex := k mod 2\<rparr>)) \<and>
        Some (info_texture i) \<notin> set (storedStateTextures (r2\<lparr>currentStateIndex := k mod 2\<rparr>))"
      using n2 by (simp add: f2)
  qed
  have tx: "textures (gl r2) x \<noteq> None" and ty: "textures (gl r2) y \<noteq> None"
    using rd t_rd t_wr rw(2) by auto
  have "storedStateTextures r2 = [Some x, Some y] \<and> x \<noteq> y \<and>
      textures (gl r2) x \<noteq> None \<and> textures (gl r2) y \<noteq> None"
    using f2(1) st xy(1) tx ty by simp
  then have live: "stateTexturesLive (r2\<lparr>currentStateIndex := k mod 2\<rparr>)"
    unfolding stateTexturesLive_def by auto
  have "attributes (gl r2) = attributes (gl r1)"
    using blendingPass_gl(3) [of r1 g f opts "Some wr"]
    by (simp add: r2_def g_def stateUpdatePass_props)
  then have at: "attributes (gl (r2\<lparr>currentStateIndex := k mod 2\<rparr>)) = rendererContextAttributes"
    using wf by (simp add: wellFormed_def)
  show "wellFormed (r2\<lparr>currentStateIndex := k mod 2\<rparr>)"
    using below apart live at by (simp add: wellFormed_def)
qed

lemma render_effect_ok:
  assumes wf: "wellFormed r" and run: "running r"
    and ok: "render r f opts (Some ct) (Some cf) sm = Inr r'"
  obtains r1 rd wr where
    "updateBackgroundIfNeeded (resizeCanvas r (displayWidth f) (displayHeight f)) (backgroundSource opts) = Inr r1"
    "element (storedStateTextures r) (currentStateIndex r) = Some rd"
    "element (storedStateTextures r) ((currentStateIndex r + 1) mod 2) = Some wr"
    "rd \<noteq> wr"
    "r' = (blendingPass r1 (stateUpdatePass r1 f opts ct cf sm (Some rd) (Some wr)) f opts (Some wr))
            \<lparr>currentStateIndex := (currentStateIndex r + 1) mod 2\<rparr>"
    "textures (gl r1) rd = textures (gl r) rd"
    "contextLost (gl r1) = contextLost (gl r)"
    "wellFormed r1" "running r1"
    "\<exists>x y. storedStateTextures r1 = [Some x, Some y] \<and> (rd = x \<and> wr = y \<or> rd = y \<and> wr = x)"
proof -
  let ?r0 = "resizeCanvas r (displayWidth f) (displayHeight f)"
  have wf0: "wellFormed ?r0" using wf by (simp add: resizeCanvas_wellFormed)
  obtain r1 where r1: "updateBackgroundIfNeeded ?r0 (backgroundSource opts) = Inr r1"
    using ok run by (cases "updateBackgroundIfNeeded ?r0 (backgroundSource opts)")
      (simp_all add: render_effect)
  have sa: "stateAfter (updateBackgroundIfNeeded ?r0 (backgroundSource opts)) = r1"
    by (simp add: r1)
  have same: "sameButTextures ?r0 r1" using update_frame(1) [of ?r0 "backgroundSource opts"] sa by simp
  have wf1: "wellFormed r1" using update_wellFormed [OF wf0, of "backgroundSource opts"] sa by simp
  have run1: "running r1" using same run by (simp add: sameButTextures_def resizeCanvas_props)
  have st1: "storedStateTextures r1 = storedStateTextures r"
    using same by (simp add: sameButTextures_def resizeCanvas_props)
  have l1: "contextLost (gl r1) = contextLost (gl r)"
    using same by (simp add: sameButTextures_def resizeCanvas_props)
  from wellFormed_stored [OF wf run] obtain x y where xy:
    "storedStateTextures r = [Some x, Some y]" "x \<noteq> y"
    "x < nextTexture (gl r)" "y < nextTexture (gl r)"
    "\<And>i. backgroundRenderInfo r = Some i \<Longrightarrow> info_texture i \<noteq> x \<and> info_texture i \<noteq> y"
    by blast
  have tx: "textures (gl r1) x = textures (gl r) x"
    using update_textures [of x ?r0 "backgroundSource opts"] xy(3,5) sa
    by (simp add: resizeCanvas_props)
  have ty: "textures (gl r1) y = textures (gl r) y"
    using update_textures [of y ?r0 "backgroundSource opts"] xy(4,5) sa
    by (simp add: resizeCanvas_props)
  have c2: "currentStateIndex r < 2" using wf by (simp add: wellFormed_def)
  from xy(1) c2 show ?thesis
  proof (cases rule: index_cases)
    case zero
    show ?thesis
    proof (rule that [of r1 x y])
      show "r' = (blendingPass r1 (stateUpdatePass r1 f opts ct cf sm (Some x) (Some y)) f opts (Some y))
            \<lparr>currentStateIndex := (currentStateIndex r + 1) mod 2\<rparr>"
        using ok run r1 zero(2,3) by (simp add: render_effect)
      show "\<exists>x' y'. storedStateTextures r1 = [Some x', Some y'] \<and> (x = x' \<and> y = y' \<or> x = y' \<and> y = x')"
        using st1 xy(1) by simp
    qed (use r1 zero xy tx l1 wf1 run1 in simp_all)
  next
    case one
    show ?thesis
    proof (rule that [of r1 y x])
      show "r' = (blendingPass r1 (stateUpdatePass r1 f opts ct cf sm (Some y) (Some x)) f opts (Some x))
            \<lparr>currentStateIndex := (currentStateIndex r + 1) mod 2\<rparr>"
        using ok run r1 one(2,3) by (simp add: render_effect)
      show "\<exists>x' y'. storedStateTextures r1 = [Some x', Some y'] \<and> (y = x' \<and> x = y' \<or> y = y' \<and> x = x')"
        using st1 xy(1) by simp
      show "y \<noteq> x" using xy(2) by simp
    qed (use r1 one xy ty l1 wf1 run1 in simp_all)
  qed
qed

lemma render_wellFormed:
  assumes wf: "wellFormed r"
  shows "wellFormed (stateAfter (render r f opts ct cf sm))"
proof (cases "running r")
  case False
  then show ?thesis using wf by (simp add: render_closed)
next
  case run: True
  let ?r0 = "resizeCanvas r (displayWidth f) (displayHeight f)"
  have wf0: "wellFormed ?r0" using wf by (simp add: resizeCanvas_wellFormed)
  show ?thesis
  proof (cases "ct = None \<or> cf = None")
    case True
    then show ?thesis using run passthrough_wellFormed [OF wf0, of f]
      by (simp add: render_passthrough)
  next
    case False
    then obtain c1 c2 where c: "ct = Some c1" "cf = Some c2" by auto
    show ?thesis
    proof (cases "render r f opts (Some c1) (Some c2) sm")
      case (Inl e)
      obtain err r' where e: "e = (err, r')" by (cases e)
      have "updateBackgroundIfNeeded ?r0 (backgroundSource opts) = Inl (err, r')"
        using Inl e run
        by (cases "updateBackgroundIfNeeded ?r0 (backgroundSource opts)") (simp_all add: render_effect)
      then have "r' = stateAfter (updateBackgroundIfNeeded ?r0 (backgroundSource opts))" by simp
      then show ?thesis using update_wellFormed [OF wf0, of "backgroundSource opts"] Inl e c by simp
    next
      case (Inr r')
      show ?thesis
      proof (rule render_effect_ok [OF wf run Inr])
        fix r1 rd wr
        assume r': "r' = (blendingPass r1 (stateUpdatePass r1 f opts c1 c2 sm (Some rd) (Some wr)) f opts (Some wr))
            \<lparr>currentStateIndex := (currentStateIndex r + 1) mod 2\<rparr>"
          and wf1: "wellFormed r1" and run1: "running r1"
          and st: "\<exists>x y. storedStateTextures r1 = [Some x, Some y] \<and> (rd = x \<and> wr = y \<or> rd = y \<and> wr = x)"
        from st obtain x y where xy: "storedStateTextures r1 = [Some x, Some y]"
          "rd = x \<and> wr = y \<or> rd = y \<and> wr = x" by blast
        have "wellFormed r'" unfolding r' by (rule effect_textures(4) [OF wf1 run1 xy])
        then show ?thesis by (simp only: c Inr stateAfter_simps)
      qed
    qed
  qed
qed

lemma deleteTextures_attributes:
  "attributes (fold (\<lambda>texture g. gl_deleteTexture g texture) ts g) = attributes g"
  by (induction ts arbitrary: g) (simp_all add: deleteTexture_props)

lemma close_wellFormed:
  assumes wf: "wellFormed r"
  shows "wellFormed (close r)"
proof (cases "running r")
  case False
  then show ?thesis using wf by (simp add: close_def)
next
  case True
  have "currentStateIndex (close r) = currentStateIndex r" "storedStateTextures (close r) = []"
    "backgroundRenderInfo (close r) = None" "\<not> running (close r)"
    "attributes (gl (close r)) = attributes (gl r)"
    using True
    by (simp_all add: close_def Let_def deleteTextures_attributes deleteTexture_props
        clearCanvas_props split: option.splits)
  then show ?thesis using wf
    by (simp add: wellFormed_def storedBelow_def backgroundApart_def)
qed

lemma videoFrameWritten_wellFormed:
  assumes wf: "wellFormed r"
  shows "wellFormed (videoFrameWritten r w h px)"
proof (cases "\<exists>t u m c. backgroundRenderInfo r = Some (VideoInfo t u m c)")
  case True
  then obtain t u m c where i: "backgroundRenderInfo r = Some (VideoInfo t u m c)" by blast
  have v: "videoFrameWritten r w h px =
      r\<lparr>backgroundRenderInfo := Some (VideoInfo t u m \<lparr>tex_width = w, tex_height = h, tex_image = px\<rparr>)\<rparr>"
    by (simp add: videoFrameWritten_def i)
  have "info_texture (VideoInfo t u m c) < nextTexture (gl r)
      \<and> Some (info_texture (VideoInfo t u m c)) \<notin> set (storedStateTextures r)"
    using wf i by (simp add: wellFormed_def backgroundApart_def)
  then show ?thesis using wf unfolding v
    by (simp add: wellFormed_def storedBelow_def backgroundApart_def stateTexturesLive_def)
next
  case False
  then have "videoFrameWritten r w h px = r"
    by (auto simp: videoFrameWritten_def split: option.splits BackgroundRenderInfo.splits)
  then show ?thesis using wf by simp
qed

lemma loseContext_wellFormed: "wellFormed r \<Longrightarrow> wellFormed (loseContext r)"
  by (simp add: wellFormed_def storedBelow_def backgroundApart_def stateTexturesLive_def loseContext_def)

lemma reachable_wellFormed: "reachable r \<Longrightarrow> wellFormed r"
proof (induction rule: reachable.induct)
  case (constructed width height shadersCompile programsLink r)
  then show ?case using constructor_cases constructed_wellFormed by blast
next
  case (rendered r videoFrame options categoryTexture confidenceTexture useSelfieModel r')
  from render_wellFormed [OF rendered.IH, of videoFrame options categoryTexture confidenceTexture useSelfieModel]
  show ?case by (simp add: rendered.hyps(2))
next
  case (render_threw r videoFrame options categoryTexture confidenceTexture useSelfieModel e r')
  from render_wellFormed [OF render_threw.IH, of videoFrame options categoryTexture confidenceTexture useSelfieModel]
  show ?case by (simp add: render_threw.hyps(2))
next
  case (closed r)
  then show ?case by (simp add: close_wellFormed)
next
  case (frame_decoded r codedWidth codedHeight pixels)
  then show ?case by (simp add: videoFrameWritten_wellFormed)
next
  case (context_lost r)
  then show ?case by (simp add: loseContext_wellFormed)
qed

lemma render_effect_textures:
  assumes wf: "wellFormed r" and run: "running r"
    and ok: "render r f opts (Some ct) (Some cf) sm = Inr r'"
  shows "\<exists>rd wr. element (storedStateTextures r) (currentStateIndex r) = Some rd
      \<and> element (storedStateTextures r) ((currentStateIndex r + 1) mod 2) = Some wr
      \<and> rd \<noteq> wr
      \<and> textures (gl r') rd = textures (gl r) rd
      \<and> (\<not> contextLost (gl r) \<and> 0 < displayWidth f \<and> 0 < displayHeight f \<longrightarrow>
          textures (gl r') wr =
            Some \<lparr>tex_width = displayWidth f, tex_height = displayHeight f,
                  tex_image = storedImage (drawQuad (stateUpdate_main
                     (stateUniformsOf opts sm (displayWidth f) (displayHeight f)) ct cf
                     (gl_texture2D (gl r) (Some rd))))\<rparr>)"
proof (rule render_effect_ok [OF wf run ok])
  fix r1 rd wr
  assume e: "element (storedStateTextures r) (currentStateIndex r) = Some rd"
      "element (storedStateTextures r) ((currentStateIndex r + 1) mod 2) = Some wr"
      "rd \<noteq> wr"
    and r': "r' = (blendingPass r1 (stateUpdatePass r1 f opts ct cf sm (Some rd) (Some wr)) f opts (Some wr))
            \<lparr>currentStateIndex := (currentStateIndex r + 1) mod 2\<rparr>"
    and t1: "textures (gl r1) rd = textures (gl r) rd"
    and l1: "contextLost (gl r1) = contextLost (gl r)"
    and wf1: "wellFormed r1" and run1: "running r1"
    and st: "\<exists>x y. storedStateTextures r1 = [Some x, Some y] \<and> (rd = x \<and> wr = y \<or> rd = y \<and> wr = x)"
  from st obtain x y where xy: "storedStateTextures r1 = [Some x, Some y]"
    "rd = x \<and> wr = y \<or> rd = y \<and> wr = x" by blast
  have s1: "gl_texture2D (gl r1) (Some rd) = gl_texture2D (gl r) (Some rd)"
    by (simp add: gl_texture2D_def t1)
  have a: "textures (gl r') rd = textures (gl r) rd"
    unfolding r' using effect_textures(1) [OF wf1 run1 xy, of f opts ct cf sm] t1 by simp
  have b: "\<not> contextLost (gl r) \<and> 0 < displayWidth f \<and> 0 < displayHeight f \<longrightarrow>
          textures (gl r') wr =
            Some \<lparr>tex_width = displayWidth f, tex_height = displayHeight f,
                  tex_image = storedImage (drawQuad (stateUpdate_main
                     (stateUniformsOf opts sm (displayWidth f) (displayHeight f)) ct cf
                     (gl_texture2D (gl r) (Some rd))))\<rparr>"
    unfolding r' using effect_textures(3) [OF wf1 run1 xy, of f opts ct cf sm] l1 s1 by simp
  show ?thesis using e a b by blast
qed

lemma render_effect_returns:
  assumes run: "running r" and live: "\<not> contextLost (gl r)"
    and typed: "wellTypedSource (backgroundSource opts)"
  shows "\<exists>r'. render r f opts (Some ct) (Some cf) sm = Inr r'
      \<and> currentStateIndex r' = (currentStateIndex r + 1) mod 2
      \<and> running r' \<and> \<not> contextLost (gl r') \<and> storedStateTextures r' = storedStateTextures r"
proof -
  let ?r0 = "resizeCanvas r (displayWidth f) (displayHeight f)"
  have "\<not> contextLost (gl ?r0)" using live by (simp add: resizeCanvas_props)
  from update_typed [OF typed] obtain r1 where
    r1: "updateBackgroundIfNeeded ?r0 (backgroundSource opts) = Inr r1" by blast
  have "sameButTextures ?r0 (stateAfter (updateBackgroundIfNeeded ?r0 (backgroundSource opts)))"
    by (rule update_frame)
  then have s: "running r1" "\<not> contextLost (gl r1)" "storedStateTextures r1 = storedStateTextures r"
    using run live by (simp_all add: r1 sameButTextures_def resizeCanvas_props)
  show ?thesis
    using run r1 s
    by (simp add: render_effect blendingPass_fields blendingPass_gl stateUpdatePass_props)
qed

section \<open>Properties of the stored mask\<close>

lemma render_effect_mask:
  assumes wf: "wellFormed r" and run: "running r" and live: "\<not> contextLost (gl r)"
    and size: "0 < displayWidth f" "0 < displayHeight f"
    and ok: "render r f opts (Some ct) (Some cf) sm = Inr r'"
  shows "\<exists>rd wr. element (storedStateTextures r) (currentStateIndex r) = Some rd
      \<and> element (storedStateTextures r) ((currentStateIndex r + 1) mod 2) = Some wr
      \<and> textureSize (gl r') wr = Some (displayWidth f, displayHeight f)
      \<and> gl_texture2D (gl r') (Some wr) =
          storedImage (drawQuad (stateUpdate_main
             (stateUniformsOf opts sm (displayWidth f) (displayHeight f)) ct cf
             (gl_texture2D (gl r) (Some rd))))"
proof -
  from render_effect_textures [OF wf run ok] live size
  obtain rd wr where e: "element (storedStateTextures r) (currentStateIndex r) = Some rd"
      "element (storedStateTextures r) ((currentStateIndex r + 1) mod 2) = Some wr"
    and w: "textures (gl r') wr =
            Some \<lparr>tex_width = displayWidth f, tex_height = displayHeight f,
                  tex_image = storedImage (drawQuad (stateUpdate_main
                     (stateUniformsOf opts sm (displayWidth f) (displayHeight f)) ct cf
                     (gl_texture2D (gl r) (Some rd))))\<rparr>"
    by blast
  have "gl_texture2D (gl r') (Some wr) =
          storedImage (drawQuad (stateUpdate_main
             (stateUniformsOf opts sm (displayWidth f) (displayHeight f)) ct cf
             (gl_texture2D (gl r) (Some rd))))"
    by (simp add: gl_texture2D_def w)
  moreover have "textureSize (gl r') wr = Some (displayWidth f, displayHeight f)"
    by (simp add: textureSize_def w)
  ultimately show ?thesis using e by blast
qed

lemma render_uniform:
  assumes wf: "wellFormed r" and run: "running r" and live: "\<not> contextLost (gl r)"
    and typed: "wellTypedSource (backgroundSource opts)"
    and size: "0 < displayWidth f" "0 < displayHeight f"
    and prev: "\<And>c. currentMask r c = m"
  shows "\<exists>r'. render r f opts (Some (uniformTexture a)) (Some (uniformTexture b)) sm = Inr r'
      \<and> running r' \<and> \<not> contextLost (gl r')
      \<and> currentStateIndex r' = (currentStateIndex r + 1) mod 2
      \<and> storedStateTextures r' = storedStateTextures r
      \<and> (\<forall>c. currentMask r' c =
             clamp (spec_pixel (stateUniformsOf opts sm (displayWidth f) (displayHeight f)) a b m) 0 1)"
proof -
  from render_effect_returns [OF run live typed, of f "uniformTexture a" "uniformTexture b" sm]
  obtain r' where ok: "render r f opts (Some (uniformTexture a)) (Some (uniformTexture b)) sm = Inr r'"
    and f: "currentStateIndex r' = (currentStateIndex r + 1) mod 2" "running r'"
      "\<not> contextLost (gl r')" "storedStateTextures r' = storedStateTextures r"
    by blast
  from render_effect_mask [OF wf run live size ok]
  obtain rd wr where e: "element (storedStateTextures r) (currentStateIndex r) = Some rd"
      "element (storedStateTextures r) ((currentStateIndex r + 1) mod 2) = Some wr"
    and s: "gl_texture2D (gl r') (Some wr) =
          storedImage (drawQuad (stateUpdate_main
             (stateUniformsOf opts sm (displayWidth f) (displayHeight f))
             (uniformTexture a) (uniformTexture b) (gl_texture2D (gl r) (Some rd))))"
    by blast
  have prevp: "\<And>p. red (gl_texture2D (gl r) (Some rd) p) = m"
  proof -
    fix p :: vec2
    have "currentMask r (fst p, 1 - snd p) = m" by (rule prev)
    then show "red (gl_texture2D (gl r) (Some rd) p) = m"
      by (simp add: currentMask_def maskAt_def e(1))
  qed
  have cur: "element (storedStateTextures r') (currentStateIndex r') = Some wr"
    unfolding f(1) f(4) by (rule e(2))
  have "\<forall>c. currentMask r' c =
             clamp (spec_pixel (stateUniformsOf opts sm (displayWidth f) (displayHeight f)) a b m) 0 1"
    unfolding currentMask_def cur s maskAt_def
    by (intro allI) (rule stored_uniform [OF prevp])
  then show ?thesis using ok f by blast
qed

lemma repeated_uniform:
  assumes r: "reachable r" "running r" "\<not> contextLost (gl r)"
    and typed: "wellTypedSource (backgroundSource opts)"
    and size: "0 < displayWidth f" "0 < displayHeight f"
    and start: "\<And>c. currentMask r c = v 0"
    and step: "\<And>k. v (Suc k) =
        clamp (spec_pixel (stateUniformsOf opts sm (displayWidth f) (displayHeight f)) a b (v k)) 0 1"
  shows "reachable (renderRepeatedly k r f opts (Some (uniformTexture a)) (Some (uniformTexture b)) sm)
       \<and> running (renderRepeatedly k r f opts (Some (uniformTexture a)) (Some (uniformTexture b)) sm)
       \<and> \<not> contextLost (gl (renderRepeatedly k r f opts (Some (uniformTexture a)) (Some (uniformTexture b)) sm))
       \<and> (\<forall>c. currentMask (renderRepeatedly k r f opts (Some (uniformTexture a)) (Some (uniformTexture b)) sm) c
                = v k)"
proof (induction k)
  case 0
  show ?case using r start by simp
next
  case (Suc k)
  let ?rk = "renderRepeatedly k r f opts (Some (uniformTexture a)) (Some (uniformTexture b)) sm"
  have rk: "reachable ?rk" "running ?rk" "\<not> contextLost (gl ?rk)"
    and mk: "\<And>c. currentMask ?rk c = v k"
    using Suc.IH by blast+
  from render_uniform [OF reachable_wellFormed [OF rk(1)] rk(2) rk(3) typed size mk, of a b sm]
  obtain r' where ok: "render ?rk f opts (Some (uniformTexture a)) (Some (uniformTexture b)) sm = Inr r'"
    and f: "running r'" "\<not> contextLost (gl r')"
    and m: "\<forall>c. currentMask r' c =
             clamp (spec_pixel (stateUniformsOf opts sm (displayWidth f) (displayHeight f)) a b (v k)) 0 1"
    by blast
  have n: "renderRepeatedly (Suc k) r f opts (Some (uniformTexture a)) (Some (uniformTexture b)) sm = r'"
    by (simp add: ok)
  have "reachable r'" by (rule reachable.rendered [OF rk(1) ok])
  then show ?case unfolding n using f m step [of k] by simp
qed

lemma constructed_mask:
  "maskAt (gl_texture2D (gl (constructedRenderer w h)) (Some 0)) c = 0"
  "maskAt (gl_texture2D (gl (constructedRenderer w h)) (Some (Suc 0))) c = 0"
  "currentMask (constructedRenderer w h) c = 0"
  by (simp_all add: currentMask_def maskAt_def gl_texture2D_def constructed_fields element_def
      pixelColor_def red_def)

lemma first_render:
  fixes w h :: nat and f :: VideoFrame and opts :: renderOptions and a b :: real and sm :: bool
  assumes typed: "wellTypedSource (backgroundSource opts)"
    and size: "0 < displayWidth f" "0 < displayHeight f"
  defines "r1 \<equiv> stateAfter (render (constructedRenderer w h) f opts
                       (Some (uniformTexture a)) (Some (uniformTexture b)) sm)"
  shows "render (constructedRenderer w h) f opts (Some (uniformTexture a)) (Some (uniformTexture b)) sm
           = Inr r1"
    "reachable r1" "running r1" "\<not> contextLost (gl r1)" "currentStateIndex r1 = 1"
    "storedStateTextures r1 = [Some 0, Some 1]"
    "textureSize (gl r1) 1 = Some (displayWidth f, displayHeight f)"
    "maskAt (gl_texture2D (gl r1) (Some 1)) c =
       clamp (spec_pixel (stateUniformsOf opts sm (displayWidth f) (displayHeight f)) a b 0) 0 1"
proof -
  let ?r = "constructedRenderer w h"
  have run: "running ?r" and live: "\<not> contextLost (gl ?r)" by (simp_all add: constructed_fields)
  have m0: "\<And>c. currentMask ?r c = 0" by (rule constructed_mask)
  from render_uniform [OF constructed_wellFormed run live typed size m0, of a b sm]
  obtain r' where ok: "render ?r f opts (Some (uniformTexture a)) (Some (uniformTexture b)) sm = Inr r'"
    and f: "running r'" "\<not> contextLost (gl r')"
      "currentStateIndex r' = (currentStateIndex ?r + 1) mod 2"
      "storedStateTextures r' = storedStateTextures ?r"
    and m: "\<forall>c. currentMask r' c =
             clamp (spec_pixel (stateUniformsOf opts sm (displayWidth f) (displayHeight f)) a b 0) 0 1"
    by blast
  have r1: "r1 = r'" by (simp add: r1_def ok)
  show "render ?r f opts (Some (uniformTexture a)) (Some (uniformTexture b)) sm = Inr r1"
    by (simp add: r1 ok)
  show "reachable r1" unfolding r1 by (rule reachable.rendered [OF constructed_reachable ok])
  show i: "running r1" "\<not> contextLost (gl r1)" "currentStateIndex r1 = 1"
    "storedStateTextures r1 = [Some 0, Some 1]"
    using f by (simp_all add: r1 constructed_fields)
  from render_effect_mask [OF constructed_wellFormed run live size ok]
  show "textureSize (gl r1) 1 = Some (displayWidth f, displayHeight f)"
    by (simp add: r1 constructed_fields element_def)
  have "currentMask r1 c =
       clamp (spec_pixel (stateUniformsOf opts sm (displayWidth f) (displayHeight f)) a b 0) 0 1"
    unfolding r1 using m by blast
  then show "maskAt (gl_texture2D (gl r1) (Some 1)) c =
       clamp (spec_pixel (stateUniformsOf opts sm (displayWidth f) (displayHeight f)) a b 0) 0 1"
    by (simp add: currentMask_def i element_def)
qed

lemma passthrough_canvas:
  assumes wf: "wellFormed r" and run: "running r" and live: "\<not> contextLost (gl r)"
    and none: "ct = None \<or> cf = None"
  shows "render r f opts ct cf sm =
           Inr (renderPassthrough (resizeCanvas r (displayWidth f) (displayHeight f)) f)"
    and "canvasPixel (gl (stateAfter (render r f opts ct cf sm))) q
           = opaqueColor (clampColor (frame_pixels f q))"
proof -
  let ?r0 = "resizeCanvas r (displayWidth f) (displayHeight f)"
  have live0: "\<not> contextLost (gl ?r0)" using live by (simp add: resizeCanvas_props)
  have at: "\<not> attr_alpha (attributes (gl ?r0))"
    using wf by (simp add: wellFormed_def resizeCanvas_props rendererContextAttributes_def)
  show p: "render r f opts ct cf sm = Inr (renderPassthrough ?r0 f)"
    using run none by (rule render_passthrough)
  show "canvasPixel (gl (stateAfter (render r f opts ct cf sm))) q
           = opaqueColor (clampColor (frame_pixels f q))"
    unfolding p stateAfter_simps renderPassthrough_live(1) [OF live0]
    using at by (simp add: canvasImage_def)
qed

section \<open>Claims about the frame pipeline\<close>

text \<open>
  Claim C1, as amended. For every render call that runs the state-update pass on a live
  context with a frame of positive size, the value written to the write mask texture for
  the pixel \<open>c\<close> is \<open>alpha * category + (1 - alpha) * blurredPrevious\<close> clamped to
  \<open>[0, 1]\<close>: category and confidence are the raw values inverted under the polarity flag,
  a positive category is pinned to 1 with the confidence inverted, alpha is
  \<open>smoothing * smoothstep(smoothstepMin, smoothstepMax, confidence)\<close> followed by the
  asymmetric-stickiness factor, and blurredPrevious is the 3 by 3 weighted average
  (4, 2, 1 over 16) of the read mask texture at offsets of \<open>stateBlurRadius\<close> texels.
\<close>

theorem C1_state_update_formula:
  assumes "reachable r" and "running r" and "\<not> contextLost (gl r)"
    and "0 < displayWidth videoFrame" and "0 < displayHeight videoFrame"
    and "render r videoFrame options (Some categoryTexture) (Some confidenceTexture) useSelfieModel = Inr r'"
  shows "\<exists>rd wr.
      element (storedStateTextures r) (currentStateIndex r) = Some rd
      \<and> element (storedStateTextures r) ((currentStateIndex r + 1) mod 2) = Some wr
      \<and> (\<forall>c. maskAt (gl_texture2D (gl r') (Some wr)) c =
            clamp
              (spec_newMask
                 (spec_alphaBase (smoothing options) (smoothstepMin options) (smoothstepMax options)
                    (spec_confidence useSelfieModel (red (categoryTexture c)) (red (confidenceTexture c)))
                  * spec_stickiness (spec_category useSelfieModel (red (categoryTexture c)))
                      (spec_blurredPrevious (real (displayWidth videoFrame), real (displayHeight videoFrame))
                         (orDefault (stateBlurRadius options) 6)
                         (maskAt (gl_texture2D (gl r) (Some rd))) c))
                 (spec_category useSelfieModel (red (categoryTexture c)))
                 (spec_blurredPrevious (real (displayWidth videoFrame), real (displayHeight videoFrame))
                    (orDefault (stateBlurRadius options) 6)
                    (maskAt (gl_texture2D (gl r) (Some rd))) c))
              0 1)"
proof -
  have wf: "wellFormed r" using assms(1) by (rule reachable_wellFormed)
  from render_effect_mask [OF wf assms(2-6)]
  obtain rd wr where e: "element (storedStateTextures r) (currentStateIndex r) = Some rd"
      "element (storedStateTextures r) ((currentStateIndex r + 1) mod 2) = Some wr"
    and s: "gl_texture2D (gl r') (Some wr) = storedImage (drawQuad (stateUpdate_main
                     (stateUniformsOf options useSelfieModel (displayWidth videoFrame) (displayHeight videoFrame))
                     categoryTexture confidenceTexture
                     (gl_texture2D (gl r) (Some rd))))"
    by blast
  have "\<forall>c. maskAt (gl_texture2D (gl r') (Some wr)) c =
            clamp
              (spec_newMask
                 (spec_alphaBase (smoothing options) (smoothstepMin options) (smoothstepMax options)
                    (spec_confidence useSelfieModel (red (categoryTexture c)) (red (confidenceTexture c)))
                  * spec_stickiness (spec_category useSelfieModel (red (categoryTexture c)))
                      (spec_blurredPrevious (real (displayWidth videoFrame), real (displayHeight videoFrame))
                         (orDefault (stateBlurRadius options) 6)
                         (maskAt (gl_texture2D (gl r) (Some rd))) c))
                 (spec_category useSelfieModel (red (categoryTexture c)))
                 (spec_blurredPrevious (real (displayWidth videoFrame), real (displayHeight videoFrame))
                    (orDefault (stateBlurRadius options) 6)
                    (maskAt (gl_texture2D (gl r) (Some rd))) c))
              0 1"
    unfolding s maskAt_stored stateUpdate_main_spec sampleBlurred_spec
    by (simp add: red_def [of "(_, _)"] spec_pixel_def Let_def stateUniformsOf_def)
  then show ?thesis using e by blast
qed

theorem C1_state_update_formula_witness:
  "\<exists>r'. render (constructedRenderer 640 480) (greyFrame 4 4) defaultOptions
           (Some (uniformTexture 1)) (Some (uniformTexture 0)) False = Inr r'
      \<and> maskAt (gl_texture2D (gl r') (Some 1)) (1 / 2, 1 / 2) = 7 / 10"
proof -
  let ?r = "constructedRenderer 640 480"
  have run: "running ?r" and live: "\<not> contextLost (gl ?r)" by (simp_all add: constructed_fields)
  have typed: "wellTypedSource (backgroundSource defaultOptions)"
    by (simp add: wellTypedSource_def defaultOptions_def)
  from render_effect_returns [OF run live typed, of "greyFrame 4 4" "uniformTexture 1" "uniformTexture 0" False]
  obtain r' where ok: "render ?r (greyFrame 4 4) defaultOptions
           (Some (uniformTexture 1)) (Some (uniformTexture 0)) False = Inr r'" by blast
  have size: "0 < displayWidth (greyFrame 4 4)" "0 < displayHeight (greyFrame 4 4)"
    by (simp_all add: greyFrame_def)
  from C1_state_update_formula [OF constructed_reachable run live size ok]
  have "maskAt (gl_texture2D (gl r') (Some 1)) (1 / 2, 1 / 2) = 7 / 10"
    by (simp add: constructed_fields element_def constructed_mask spec_blurredPrevious_def
        spec_weight_def spec_newMask_def spec_alphaBase_def spec_confidence_def spec_category_def
        spec_stickiness_def smoothstep_def clamp_def Let_def defaultOptions_def uniformTexture_def
        red_def orDefault_def)
  then show ?thesis using ok by blast
qed

text \<open>
  Claim C1 as stated fails when the formula leaves \<open>[0, 1]\<close>. On the new renderer, whose
  mask textures hold 0, a frame of foreground pixels with raw confidence 0 is rendered
  with the smoothing factor 2: the formula gives 2, and the write mask texture, whose
  channels are unsigned bytes, holds 1.
\<close>

theorem C1_counterexample:
  "maskAt (gl_texture2D (gl (stateAfter (render (constructedRenderer 640 480) (greyFrame 4 4)
             (defaultOptions\<lparr>smoothing := 2\<rparr>)
             (Some (uniformTexture 1)) (Some (uniformTexture 0)) False))) (Some 1)) (1 / 2, 1 / 2) = 1
   \<and> spec_newMask
       (spec_alphaBase 2 0.25 0.85 (spec_confidence False 1 0)
        * spec_stickiness (spec_category False 1)
            (spec_blurredPrevious (4, 4) 6
               (maskAt (gl_texture2D (gl (constructedRenderer 640 480)) (Some 0))) (1 / 2, 1 / 2)))
       (spec_category False 1)
       (spec_blurredPrevious (4, 4) 6
          (maskAt (gl_texture2D (gl (constructedRenderer 640 480)) (Some 0))) (1 / 2, 1 / 2))
     = 2"
proof -
  have typed: "wellTypedSource (backgroundSource (defaultOptions\<lparr>smoothing := 2\<rparr>))"
    by (simp add: wellTypedSource_def defaultOptions_def)
  have size: "0 < displayWidth (greyFrame 4 4)" "0 < displayHeight (greyFrame 4 4)"
    by (simp_all add: greyFrame_def)
  have "maskAt (gl_texture2D (gl (stateAfter (render (constructedRenderer 640 480) (greyFrame 4 4)
             (defaultOptions\<lparr>smoothing := 2\<rparr>)
             (Some (uniformTexture 1)) (Some (uniformTexture 0)) False))) (Some 1)) (1 / 2, 1 / 2) = 1"
    unfolding first_render(8) [OF typed size]
    by (simp add: spec_pixel_def spec_category_def spec_confidence_def spec_alphaBase_def
        spec_stickiness_def spec_newMask_def Let_def smoothstep_def clamp_def
        stateUniformsOf_def defaultOptions_def)
  moreover have "spec_newMask
       (spec_alphaBase 2 0.25 0.85 (spec_confidence False 1 0)
        * spec_stickiness (spec_category False 1)
            (spec_blurredPrevious (4, 4) 6
               (maskAt (gl_texture2D (gl (constructedRenderer 640 480)) (Some 0))) (1 / 2, 1 / 2)))
       (spec_category False 1)
       (spec_blurredPrevious (4, 4) 6
          (maskAt (gl_texture2D (gl (constructedRenderer 640 480)) (Some 0))) (1 / 2, 1 / 2))
     = 2"
    by (simp add: constructed_mask spec_blurredPrevious_def spec_weight_def spec_newMask_def
        spec_alphaBase_def spec_confidence_def spec_category_def spec_stickiness_def smoothstep_def
        clamp_def Let_def)
  ultimately show ?thesis by simp
qed

text \<open>
  Claim C4. For every configuration (any smoothing factor, smoothstep edges and blur
  radius) and every pixel, the mask value that a state-update pass leaves in the write
  mask texture lies in \<open>[0, 1]\<close>, whatever the category, confidence and previous-mask
  textures hold.
\<close>

theorem C4_mask_within_unit_interval:
  assumes "reachable r" and "running r" and "\<not> contextLost (gl r)"
    and "0 < displayWidth videoFrame" and "0 < displayHeight videoFrame"
    and "render r videoFrame options (Some categoryTexture) (Some confidenceTexture) useSelfieModel = Inr r'"
  shows "\<exists>wr.
      element (storedStateTextures r) ((currentStateIndex r + 1) mod 2) = Some wr
      \<and> element (storedStateTextures r') (currentStateIndex r') = Some wr
      \<and> (\<forall>c. 0 \<le> maskAt (gl_texture2D (gl r') (Some wr)) c
             \<and> maskAt (gl_texture2D (gl r') (Some wr)) c \<le> 1)"
proof -
  have wf: "wellFormed r" using assms(1) by (rule reachable_wellFormed)
  from render_effect_mask [OF wf assms(2-6)]
  obtain rd wr where e: "element (storedStateTextures r) ((currentStateIndex r + 1) mod 2) = Some wr"
    and s: "gl_texture2D (gl r') (Some wr) = storedImage (drawQuad (stateUpdate_main
                     (stateUniformsOf options useSelfieModel (displayWidth videoFrame) (displayHeight videoFrame))
                     categoryTexture confidenceTexture
                     (gl_texture2D (gl r) (Some rd))))"
    by blast
  have "currentStateIndex r' = (currentStateIndex r + 1) mod 2 \<and> storedStateTextures r' = storedStateTextures r"
  proof (rule render_effect_ok [OF wf assms(2) assms(6)])
    fix r1 rd wr
    assume r': "r' = (blendingPass r1 (stateUpdatePass r1 videoFrame options categoryTexture confidenceTexture
                         useSelfieModel (Some rd) (Some wr)) videoFrame options (Some wr))
            \<lparr>currentStateIndex := (currentStateIndex r + 1) mod 2\<rparr>"
      and u: "updateBackgroundIfNeeded (resizeCanvas r (displayWidth videoFrame) (displayHeight videoFrame))
                (backgroundSource options) = Inr r1"
    have "sameButTextures (resizeCanvas r (displayWidth videoFrame) (displayHeight videoFrame))
            (stateAfter (updateBackgroundIfNeeded
               (resizeCanvas r (displayWidth videoFrame) (displayHeight videoFrame))
               (backgroundSource options)))"
      by (rule update_frame)
    then have "storedStateTextures r1 = storedStateTextures r"
      by (simp add: u sameButTextures_def resizeCanvas_props)
    then show ?thesis by (simp add: r' blendingPass_fields)
  qed
  then have e': "element (storedStateTextures r') (currentStateIndex r') = Some wr"
    using e by simp
  have "\<forall>c. 0 \<le> maskAt (gl_texture2D (gl r') (Some wr)) c
             \<and> maskAt (gl_texture2D (gl r') (Some wr)) c \<le> 1"
    unfolding s maskAt_stored by (intro allI) (rule clamp01_range)
  then show ?thesis using e e' by blast
qed

theorem C4_mask_within_unit_interval_witness:
  "\<exists>r'. render (constructedRenderer 640 480) (greyFrame 4 4) (defaultOptions\<lparr>smoothing := 2\<rparr>)
           (Some (uniformTexture 1)) (Some (uniformTexture 0)) False = Inr r'
      \<and> 0 \<le> maskAt (gl_texture2D (gl r') (Some 1)) (1 / 2, 1 / 2)
      \<and> maskAt (gl_texture2D (gl r') (Some 1)) (1 / 2, 1 / 2) \<le> 1"
proof -
  let ?r = "constructedRenderer 640 480"
  have run: "running ?r" and live: "\<not> contextLost (gl ?r)" by (simp_all add: constructed_fields)
  have typed: "wellTypedSource (backgroundSource (defaultOptions\<lparr>smoothing := 2\<rparr>))"
    by (simp add: wellTypedSource_def defaultOptions_def)
  from render_effect_returns [OF run live typed, of "greyFrame 4 4" "uniformTexture 1" "uniformTexture 0" False]
  obtain r' where ok: "render ?r (greyFrame 4 4) (defaultOptions\<lparr>smoothing := 2\<rparr>)
           (Some (uniformTexture 1)) (Some (uniformTexture 0)) False = Inr r'" by blast
  have size: "0 < displayWidth (greyFrame 4 4)" "0 < displayHeight (greyFrame 4 4)"
    by (simp_all add: greyFrame_def)
  from C4_mask_within_unit_interval [OF constructed_reachable run live size ok]
  have "0 \<le> maskAt (gl_texture2D (gl r') (Some 1)) (1 / 2, 1 / 2)
      \<and> maskAt (gl_texture2D (gl r') (Some 1)) (1 / 2, 1 / 2) \<le> 1"
    by (simp add: constructed_fields element_def)
  then show ?thesis using ok by blast
qed

text \<open>
  Claim C5, as amended. With smoothing 0.7, smoothstep edges 0.25 and 0.85 and the
  polarity flag unset, frames of raw category 1 and raw confidence 0 (which the stage
  inverts to 1 for a foreground pixel) are rendered one after the other on a renderer
  whose current mask is the all-background value 0. The current mask of every pixel
  then never decreases from one call to the next, never exceeds 1, and exceeds 0.95
  after the third call and after every later one, hence within 30 calls.
\<close>

theorem C5_foreground_converges:
  assumes "reachable r" and "running r" and "\<not> contextLost (gl r)"
    and "smoothing options = 0.7" and "smoothstepMin options = 0.25" and "smoothstepMax options = 0.85"
    and "wellTypedSource (backgroundSource options)"
    and "0 < displayWidth videoFrame" and "0 < displayHeight videoFrame"
    and "\<forall>c. currentMask r c = 0"
  shows "(\<forall>k c. currentMask (renderRepeatedly k r videoFrame options
                      (Some (uniformTexture 1)) (Some (uniformTexture 0)) False) c
               \<le> currentMask (renderRepeatedly (Suc k) r videoFrame options
                      (Some (uniformTexture 1)) (Some (uniformTexture 0)) False) c
             \<and> currentMask (renderRepeatedly (Suc k) r videoFrame options
                      (Some (uniformTexture 1)) (Some (uniformTexture 0)) False) c \<le> 1)
       \<and> (\<forall>k c. 3 \<le> k \<longrightarrow>
             0.95 < currentMask (renderRepeatedly k r videoFrame options
                      (Some (uniformTexture 1)) (Some (uniformTexture 0)) False) c)"
proof -
  let ?U = "stateUniformsOf options False (displayWidth videoFrame) (displayHeight videoFrame)"
  have U: "u_smoothingFactor ?U = 0.7" "u_smoothstepMin ?U = 0.25" "u_smoothstepMax ?U = 0.85"
    "u_selfieModel ?U \<noteq> 1"
    using assms(4-6) by (simp_all add: stateUniformsOf_def)
  have pos: "\<And>k::nat. (0::real) < 0.3 ^ k" by simp
  have le1: "\<And>k::nat. (0.3::real) ^ k \<le> 1" by (rule power_le_one) simp_all
  have step: "\<And>k. 1 - (0.3::real) ^ Suc k = clamp (spec_pixel ?U 1 0 (1 - 0.3 ^ k)) 0 1"
  proof -
    fix k :: nat
    have "spec_pixel ?U 1 0 (1 - 0.3 ^ k) = 1 - (0.3::real) ^ Suc k"
      unfolding default_fg_step [OF U] by (simp add: field_simps)
    moreover have "0 \<le> 1 - (0.3::real) ^ Suc k" "1 - (0.3::real) ^ Suc k \<le> 1"
      using pos [of "Suc k"] le1 [of "Suc k"] by simp_all
    ultimately show "1 - (0.3::real) ^ Suc k = clamp (spec_pixel ?U 1 0 (1 - 0.3 ^ k)) 0 1"
      by (simp add: clamp_def)
  qed
  have start: "\<And>c. currentMask r c = 1 - (0.3::real) ^ 0"
  proof -
    fix c
    have "currentMask r c = 0" using assms(10) by blast
    then show "currentMask r c = 1 - (0.3::real) ^ 0" by simp
  qed
  have m: "\<And>k c. currentMask (renderRepeatedly k r videoFrame options
                      (Some (uniformTexture 1)) (Some (uniformTexture 0)) False) c = 1 - 0.3 ^ k"
    using repeated_uniform [OF assms(1-3) assms(7-9), where v = "\<lambda>k. 1 - 0.3 ^ k" and a = 1 and b = 0
        and sm = False, OF start step]
    by blast
  have "\<And>k::nat. 3 \<le> k \<Longrightarrow> (0.3::real) ^ k \<le> 0.3 ^ 3"
    by (rule power_decreasing) simp_all
  moreover have "(0.3::real) ^ 3 < 0.05" by (simp add: power3_eq_cube)
  ultimately have small: "\<And>k::nat. 3 \<le> k \<Longrightarrow> (0.3::real) ^ k < 0.05"
    by (rule le_less_trans)
  have dec: "\<And>k::nat. (0.3::real) ^ Suc k \<le> 0.3 ^ k" using pos by simp
  show ?thesis unfolding m using small pos dec by (auto simp: field_simps)
qed

theorem C5_foreground_converges_witness:
  "currentMask (renderRepeatedly 29 (constructedRenderer 640 480) (greyFrame 640 480) defaultOptions
        (Some (uniformTexture 1)) (Some (uniformTexture 0)) False) (1 / 2, 1 / 2)
     \<le> currentMask (renderRepeatedly 30 (constructedRenderer 640 480) (greyFrame 640 480) defaultOptions
        (Some (uniformTexture 1)) (Some (uniformTexture 0)) False) (1 / 2, 1 / 2)
   \<and> 0.95 < currentMask (renderRepeatedly 30 (constructedRenderer 640 480) (greyFrame 640 480) defaultOptions
        (Some (uniformTexture 1)) (Some (uniformTexture 0)) False) (1 / 2, 1 / 2)"
proof -
  let ?r = "constructedRenderer 640 480"
  have run: "running ?r" and live: "\<not> contextLost (gl ?r)" by (simp_all add: constructed_fields)
  have o: "smoothing defaultOptions = 0.7" "smoothstepMin defaultOptions = 0.25"
    "smoothstepMax defaultOptions = 0.85" "wellTypedSource (backgroundSource defaultOptions)"
    by (simp_all add: defaultOptions_def wellTypedSource_def)
  have size: "0 < displayWidth (greyFrame 640 480)" "0 < displayHeight (greyFrame 640 480)"
    by (simp_all add: greyFrame_def)
  have m0: "\<forall>c. currentMask ?r c = 0" by (simp add: constructed_mask)
  note main = C5_foreground_converges [OF constructed_reachable run live o size m0]
  from main have "currentMask (renderRepeatedly 29 ?r (greyFrame 640 480) defaultOptions
        (Some (uniformTexture 1)) (Some (uniformTexture 0)) False) (1 / 2, 1 / 2)
     \<le> currentMask (renderRepeatedly (Suc 29) ?r (greyFrame 640 480) defaultOptions
        (Some (uniformTexture 1)) (Some (uniformTexture 0)) False) (1 / 2, 1 / 2)"
    by blast
  moreover have "Suc 29 = 30" by simp
  moreover from main have "0.95 < currentMask (renderRepeatedly 30 ?r (greyFrame 640 480) defaultOptions
        (Some (uniformTexture 1)) (Some (uniformTexture 0)) False) (1 / 2, 1 / 2)"
    by simp
  ultimately show ?thesis by (simp only:)
qed

text \<open>
  Claim C5 as stated fails: with raw category 1 and raw confidence 1 the stage inverts
  the confidence to 0, the blend factor is 0 and the mask never leaves 0.
\<close>

theorem C5_counterexample:
  "currentMask (renderRepeatedly 30 (constructedRenderer 640 480) (greyFrame 640 480) defaultOptions
        (Some (uniformTexture 1)) (Some (uniformTexture 1)) False) (1 / 2, 1 / 2) = 0"
proof -
  let ?r = "constructedRenderer 640 480"
  let ?U = "stateUniformsOf defaultOptions False (displayWidth (greyFrame 640 480))
              (displayHeight (greyFrame 640 480))"
  have run: "running ?r" and live: "\<not> contextLost (gl ?r)" by (simp_all add: constructed_fields)
  have typed: "wellTypedSource (backgroundSource defaultOptions)"
    by (simp add: defaultOptions_def wellTypedSource_def)
  have size: "0 < displayWidth (greyFrame 640 480)" "0 < displayHeight (greyFrame 640 480)"
    by (simp_all add: greyFrame_def)
  have U: "u_smoothingFactor ?U = 0.7" "u_smoothstepMin ?U = 0.25" "u_smoothstepMax ?U = 0.85"
    "u_selfieModel ?U \<noteq> 1"
    by (simp_all add: stateUniformsOf_def defaultOptions_def)
  have start: "\<And>c. currentMask ?r c = (\<lambda>k::nat. 0::real) 0" by (simp add: constructed_mask)
  have step: "\<And>k::nat. (\<lambda>k::nat. 0::real) (Suc k) = clamp (spec_pixel ?U 1 1 ((\<lambda>k::nat. 0::real) k)) 0 1"
    by (simp add: default_fg_stuck [OF U] clamp_def)
  from repeated_uniform [OF constructed_reachable run live typed size, where v = "\<lambda>k. 0" and a = 1
      and b = 1 and sm = False and k = 30, OF start step]
  show ?thesis by simp
qed

text \<open>
  Claim C3, as amended. A render call on a running renderer with a live context that
  receives no category texture or no confidence texture returns with a canvas whose
  pixels all have alpha 1, the context having been created without an alpha channel;
  wherever the input frame pixel is opaque the canvas pixel equals it. The blending
  program is drawn with \<^verbatim>\<open>u_enabled\<close> set to 0, and with that setting its result is the
  frame sample whatever the mask-state and background samplers hold; the mask textures,
  the current index and the background render info are as before.
\<close>

theorem C3_passthrough_identity:
  assumes "reachable r" and "running r" and "\<not> contextLost (gl r)"
    and "categoryTexture = None \<or> confidenceTexture = None"
  shows "\<exists>r'. render r videoFrame options categoryTexture confidenceTexture useSelfieModel = Inr r'
      \<and> (\<forall>q. alpha_channel (canvasPixel (gl r') q) = 1)
      \<and> (\<forall>q. opaquePixel (frame_pixels videoFrame q) \<longrightarrow>
               canvasPixel (gl r') q = frame_pixels videoFrame q)
      \<and> u_enabled (blendUniformValues r') = 0
      \<and> (\<forall>state background c.
            blend_main (blendUniformValues r') (frame_pixels videoFrame) state background c
              = frame_pixels videoFrame c)
      \<and> storedStateTextures r' = storedStateTextures r
      \<and> currentStateIndex r' = currentStateIndex r
      \<and> backgroundRenderInfo r' = backgroundRenderInfo r"
proof -
  let ?r0 = "resizeCanvas r (displayWidth videoFrame) (displayHeight videoFrame)"
  let ?r' = "renderPassthrough ?r0 videoFrame"
  have wf: "wellFormed r" using assms(1) by (rule reachable_wellFormed)
  have live0: "\<not> contextLost (gl ?r0)" using assms(3) by (simp add: resizeCanvas_props)
  have r: "render r videoFrame options categoryTexture confidenceTexture useSelfieModel = Inr ?r'"
    using assms(2,4) by (rule render_passthrough)
  have c: "\<And>q. canvasPixel (gl ?r') q = opaqueColor (clampColor (frame_pixels videoFrame q))"
    using passthrough_canvas(2) [OF wf assms(2-4), of videoFrame options useSelfieModel]
    by (simp add: r)
  have a: "\<forall>q. alpha_channel (canvasPixel (gl ?r') q) = 1"
    by (simp add: c opaqueColor_alpha)
  have b: "\<forall>q. opaquePixel (frame_pixels videoFrame q) \<longrightarrow>
               canvasPixel (gl ?r') q = frame_pixels videoFrame q"
    by (simp add: c clampColor_opaque)
  have e: "u_enabled (blendUniformValues ?r') = 0"
    by (rule renderPassthrough_live(6) [OF live0])
  have d: "\<forall>state background c.
            blend_main (blendUniformValues ?r') (frame_pixels videoFrame) state background c
              = frame_pixels videoFrame c"
    using e by (simp add: blend_main_disabled)
  have f: "storedStateTextures ?r' = storedStateTextures r"
    "currentStateIndex ?r' = currentStateIndex r"
    "backgroundRenderInfo ?r' = backgroundRenderInfo r"
    by (simp_all add: renderPassthrough_fields resizeCanvas_props)
  show ?thesis using r a b e d f by blast
qed

theorem C3_passthrough_identity_witness:
  "\<exists>r'. render (constructedRenderer 640 480) (greyFrame 640 480) defaultOptions None None False = Inr r'
      \<and> canvasPixel (gl r') (1 / 4, 3 / 4) = (1 / 2, 1 / 2, 1 / 2, 1)"
proof -
  have "running (constructedRenderer 640 480)" "\<not> contextLost (gl (constructedRenderer 640 480))"
    "(None :: sampler2D option) = None \<or> (None :: sampler2D option) = None"
    by (simp_all add: constructed_fields)
  from C3_passthrough_identity [OF constructed_reachable this, of "greyFrame 640 480" defaultOptions False]
  obtain r' where "render (constructedRenderer 640 480) (greyFrame 640 480) defaultOptions None None False = Inr r'"
    "\<forall>q. opaquePixel (frame_pixels (greyFrame 640 480) q) \<longrightarrow>
         canvasPixel (gl r') q = frame_pixels (greyFrame 640 480) q" by blast
  then show ?thesis by (auto simp: greyFrame_def)
qed

text \<open>
  Claim C3 as stated fails for a frame that is not opaque. The renderer's context is
  created with \<^verbatim>\<open>alpha: false\<close>, so a frame whose pixels have alpha one half comes out with
  alpha 1: the canvas pixel differs from the frame pixel.
\<close>

theorem C3_counterexample:
  "canvasPixel (gl (stateAfter (render (constructedRenderer 640 480)
        (solidFrame 640 480 (1 / 2, 1 / 2, 1 / 2, 1 / 2)) defaultOptions None None False))) (1 / 4, 3 / 4)
     \<noteq> frame_pixels (solidFrame 640 480 (1 / 2, 1 / 2, 1 / 2, 1 / 2)) (1 / 4, 3 / 4)
   \<and> alpha_channel (canvasPixel (gl (stateAfter (render (constructedRenderer 640 480)
        (solidFrame 640 480 (1 / 2, 1 / 2, 1 / 2, 1 / 2)) defaultOptions None None False))) (1 / 4, 3 / 4))
     = 1"
proof -
  have h: "running (constructedRenderer 640 480)" "\<not> contextLost (gl (constructedRenderer 640 480))"
    "(None :: sampler2D option) = None \<or> (None :: sampler2D option) = None"
    by (simp_all add: constructed_fields)
  show ?thesis
    unfolding passthrough_canvas(2) [OF constructed_wellFormed h]
    by (simp add: solidFrame_def alpha_channel_def clamp_def)
qed

text \<open>
  Claim C6. In every reachable renderer state the current index is 0 or 1, the write
  index differs from the read index, and while the renderer runs the two indices name
  two different textures. A render call that runs the state-update pass advances the
  current index to the write index; a render call on a closed renderer, a passthrough
  call and a call that throws before the pass leave it unchanged.
\<close>

theorem C6_ping_pong_indices:
  assumes "reachable r"
  shows "currentStateIndex r < 2
      \<and> (currentStateIndex r + 1) mod 2 \<noteq> currentStateIndex r
      \<and> (running r \<longrightarrow>
            element (storedStateTextures r) (currentStateIndex r)
              \<noteq> element (storedStateTextures r) ((currentStateIndex r + 1) mod 2))
      \<and> (\<not> running r \<longrightarrow>
            render r videoFrame options categoryTexture confidenceTexture useSelfieModel = Inr r)
      \<and> (running r \<and> (categoryTexture = None \<or> confidenceTexture = None) \<longrightarrow>
            (\<exists>r'. render r videoFrame options categoryTexture confidenceTexture useSelfieModel = Inr r'
                 \<and> currentStateIndex r' = currentStateIndex r))
      \<and> (running r \<and> render r videoFrame options (Some category) (Some confidence) useSelfieModel = Inr r1 \<longrightarrow>
            currentStateIndex r1 = (currentStateIndex r + 1) mod 2)
      \<and> (render r videoFrame options categoryTexture confidenceTexture useSelfieModel = Inl (e, r2) \<longrightarrow>
            currentStateIndex r2 = currentStateIndex r)"
proof -
  have wf: "wellFormed r" using assms by (rule reachable_wellFormed)
  have c2: "currentStateIndex r < 2" using wf by (simp add: wellFormed_def)
  have ne: "(currentStateIndex r + 1) mod 2 \<noteq> currentStateIndex r" by presburger
  have apartI: "running r \<longrightarrow>
            element (storedStateTextures r) (currentStateIndex r)
              \<noteq> element (storedStateTextures r) ((currentStateIndex r + 1) mod 2)"
  proof
    assume run: "running r"
    from wellFormed_stored [OF wf run] obtain a b where
      ab: "storedStateTextures r = [Some a, Some b]" "a \<noteq> b" by blast
    from ab(1) c2 show "element (storedStateTextures r) (currentStateIndex r)
              \<noteq> element (storedStateTextures r) ((currentStateIndex r + 1) mod 2)"
      by (cases rule: index_cases) (use ab(2) in simp_all)
  qed
  have closedI: "\<not> running r \<longrightarrow>
            render r videoFrame options categoryTexture confidenceTexture useSelfieModel = Inr r"
    by (simp add: render_closed)
  have passI: "running r \<and> (categoryTexture = None \<or> confidenceTexture = None) \<longrightarrow>
            (\<exists>r'. render r videoFrame options categoryTexture confidenceTexture useSelfieModel = Inr r'
                 \<and> currentStateIndex r' = currentStateIndex r)"
    by (auto simp: render_passthrough renderPassthrough_fields resizeCanvas_props)
  have effI: "running r \<and> render r videoFrame options (Some category) (Some confidence) useSelfieModel = Inr r1 \<longrightarrow>
            currentStateIndex r1 = (currentStateIndex r + 1) mod 2"
  proof
    assume a: "running r \<and> render r videoFrame options (Some category) (Some confidence) useSelfieModel = Inr r1"
    show "currentStateIndex r1 = (currentStateIndex r + 1) mod 2"
      by (rule render_effect_ok [OF wf conjunct1 [OF a] conjunct2 [OF a]]) simp
  qed
  have thrI: "render r videoFrame options categoryTexture confidenceTexture useSelfieModel = Inl (e, r2) \<longrightarrow>
            currentStateIndex r2 = currentStateIndex r"
  proof
    assume t: "render r videoFrame options categoryTexture confidenceTexture useSelfieModel = Inl (e, r2)"
    let ?r0 = "resizeCanvas r (displayWidth videoFrame) (displayHeight videoFrame)"
    have run: "running r" using t by (cases "running r") (simp_all add: render_closed)
    have both: "\<not> (categoryTexture = None \<or> confidenceTexture = None)"
      using t run by (cases "categoryTexture = None \<or> confidenceTexture = None")
        (simp_all add: render_passthrough)
    then obtain c1 c2 where c: "categoryTexture = Some c1" "confidenceTexture = Some c2" by auto
    have "updateBackgroundIfNeeded ?r0 (backgroundSource options) = Inl (e, r2)"
      using t run unfolding c
      by (cases "updateBackgroundIfNeeded ?r0 (backgroundSource options)") (simp_all add: render_effect)
    then have "r2 = stateAfter (updateBackgroundIfNeeded ?r0 (backgroundSource options))" by simp
    moreover have "sameButTextures ?r0 (stateAfter (updateBackgroundIfNeeded ?r0 (backgroundSource options)))"
      by (rule update_frame)
    ultimately show "currentStateIndex r2 = currentStateIndex r"
      by (simp add: sameButTextures_def resizeCanvas_props)
  qed
  show ?thesis using c2 ne apartI closedI passI effI thrI by blast
qed

theorem C6_ping_pong_indices_witness:
  "\<exists>r1. render (constructedRenderer 640 480) (greyFrame 640 480) defaultOptions
           (Some (uniformTexture 1)) (Some (uniformTexture 0)) False = Inr r1
      \<and> currentStateIndex r1 = 1
      \<and> currentStateIndex (close r1) = 1"
proof -
  let ?r = "constructedRenderer 640 480"
  have run: "running ?r" and live: "\<not> contextLost (gl ?r)" by (simp_all add: constructed_fields)
  have typed: "wellTypedSource (backgroundSource defaultOptions)"
    by (simp add: wellTypedSource_def defaultOptions_def)
  from render_effect_returns [OF run live typed, of "greyFrame 640 480" "uniformTexture 1" "uniformTexture 0" False]
  obtain r1 where ok: "render ?r (greyFrame 640 480) defaultOptions
           (Some (uniformTexture 1)) (Some (uniformTexture 0)) False = Inr r1" and run1: "running r1"
    by blast
  from C6_ping_pong_indices [OF constructed_reachable, where videoFrame = "greyFrame 640 480"
      and options = defaultOptions and useSelfieModel = False and category = "uniformTexture 1"
      and confidence = "uniformTexture 0" and ?r1.0 = r1]
    run ok
  have i: "currentStateIndex r1 = 1" by (simp add: constructed_fields)
  have "currentStateIndex (close r1) = currentStateIndex r1"
    by (simp add: close_def Let_def split: option.splits)
  then show ?thesis using ok i by simp
qed

text \<open>
  Claim C8, as amended. Every render call that runs the state-update pass on a live
  context with a frame of positive size, whether or not the frame's resolution differs
  from the previous one, reallocates the write mask texture at the frame's resolution
  and fills it from the read mask texture as that texture was before the call (the
  values of the pass, stored in the texture's format); the read texture itself keeps its
  size and its image, so the smoothing history carries over a change of resolution.
\<close>

theorem C8_only_write_buffer_reallocated:
  assumes "reachable r" and "running r" and "\<not> contextLost (gl r)"
    and "0 < displayWidth videoFrame" and "0 < displayHeight videoFrame"
    and "render r videoFrame options (Some categoryTexture) (Some confidenceTexture) useSelfieModel = Inr r'"
  shows "\<exists>rd wr.
      element (storedStateTextures r) (currentStateIndex r) = Some rd
      \<and> element (storedStateTextures r) ((currentStateIndex r + 1) mod 2) = Some wr
      \<and> rd \<noteq> wr
      \<and> textures (gl r') rd = textures (gl r) rd
      \<and> textures (gl r') wr =
            Some \<lparr>tex_width = displayWidth videoFrame, tex_height = displayHeight videoFrame,
                  tex_image = storedImage (drawQuad (stateUpdate_main
                     (stateUniformsOf options useSelfieModel (displayWidth videoFrame) (displayHeight videoFrame))
                     categoryTexture confidenceTexture
                     (gl_texture2D (gl r) (Some rd))))\<rparr>"
  using render_effect_textures [OF reachable_wellFormed [OF assms(1)] assms(2) assms(6)] assms(3-5)
  by blast

theorem C8_only_write_buffer_reallocated_witness:
  "\<exists>r'. render (constructedRenderer 640 480) (greyFrame 4 4) defaultOptions
           (Some (uniformTexture 1)) (Some (uniformTexture 0)) False = Inr r'
      \<and> textureSize (gl r') 1 = Some (4, 4)
      \<and> textureSize (gl r') 0 = Some (1, 1)"
proof -
  let ?r = "constructedRenderer 640 480"
  have run: "running ?r" and live: "\<not> contextLost (gl ?r)" by (simp_all add: constructed_fields)
  have typed: "wellTypedSource (backgroundSource defaultOptions)"
    by (simp add: wellTypedSource_def defaultOptions_def)
  from render_effect_returns [OF run live typed, of "greyFrame 4 4" "uniformTexture 1" "uniformTexture 0" False]
  obtain r' where ok: "render ?r (greyFrame 4 4) defaultOptions
           (Some (uniformTexture 1)) (Some (uniformTexture 0)) False = Inr r'" by blast
  have size: "0 < displayWidth (greyFrame 4 4)" "0 < displayHeight (greyFrame 4 4)"
    by (simp_all add: greyFrame_def)
  from C8_only_write_buffer_reallocated [OF constructed_reachable run live size ok]
  have "textureSize (gl r') 1 = Some (4, 4) \<and> textureSize (gl r') 0 = Some (1, 1)"
    by (auto simp: constructed_fields element_def textureSize_def greyFrame_def)
  then show ?thesis using ok by blast
qed

text \<open>
  Claim C8 as stated fails. A first frame of 4 by 4 pixels, all foreground, is rendered
  on the new renderer; it writes mask texture 1, which becomes the read texture. The
  next frame is 8 by 8. After that second call the read texture still is 4 by 4 and
  still holds the mask value 0.7 of the first frame, while the write texture is 8 by 8
  and its value for a background pixel, about 0.55, continues from that history.
\<close>

theorem C8_counterexample:
  "element (storedStateTextures
       (stateAfter (render (constructedRenderer 640 480) (greyFrame 4 4) defaultOptions
          (Some (uniformTexture 1)) (Some (uniformTexture 0)) False)))
     (currentStateIndex
       (stateAfter (render (constructedRenderer 640 480) (greyFrame 4 4) defaultOptions
          (Some (uniformTexture 1)) (Some (uniformTexture 0)) False))) = Some 1
   \<and> textureSize (gl (stateAfter (render
        (stateAfter (render (constructedRenderer 640 480) (greyFrame 4 4) defaultOptions
           (Some (uniformTexture 1)) (Some (uniformTexture 0)) False))
        (greyFrame 8 8) defaultOptions (Some (uniformTexture 0)) (Some (uniformTexture 1)) False))) 1
     = Some (4, 4)
   \<and> maskAt (gl_texture2D (gl (stateAfter (render
        (stateAfter (render (constructedRenderer 640 480) (greyFrame 4 4) defaultOptions
           (Some (uniformTexture 1)) (Some (uniformTexture 0)) False))
        (greyFrame 8 8) defaultOptions (Some (uniformTexture 0)) (Some (uniformTexture 1)) False)))
       (Some 1)) (1 / 2, 1 / 2) = 7 / 10
   \<and> textureSize (gl (stateAfter (render
        (stateAfter (render (constructedRenderer 640 480) (greyFrame 4 4) defaultOptions
           (Some (uniformTexture 1)) (Some (uniformTexture 0)) False))
        (greyFrame 8 8) defaultOptions (Some (uniformTexture 0)) (Some (uniformTexture 1)) False))) 0
     = Some (8, 8)
   \<and> maskAt (gl_texture2D (gl (stateAfter (render
        (stateAfter (render (constructedRenderer 640 480) (greyFrame 4 4) defaultOptions
           (Some (uniformTexture 1)) (Some (uniformTexture 0)) False))
        (greyFrame 8 8) defaultOptions (Some (uniformTexture 0)) (Some (uniformTexture 1)) False)))
       (Some 0)) (1 / 2, 1 / 2) = 69321 / 125000"
proof -
  define r1 where "r1 = stateAfter (render (constructedRenderer 640 480) (greyFrame 4 4) defaultOptions
                       (Some (uniformTexture 1)) (Some (uniformTexture 0)) False)"
  have typed: "wellTypedSource (backgroundSource defaultOptions)"
    by (simp add: wellTypedSource_def defaultOptions_def)
  have size4: "0 < displayWidth (greyFrame 4 4)" "0 < displayHeight (greyFrame 4 4)"
    by (simp_all add: greyFrame_def)
  have f1: "reachable r1" "running r1" "\<not> contextLost (gl r1)" "currentStateIndex r1 = 1"
    "storedStateTextures r1 = [Some 0, Some 1]"
    unfolding r1_def by (rule first_render(2-6) [OF typed size4])+
  have t1: "textureSize (gl r1) 1 = Some (4, 4)"
    unfolding r1_def first_render(7) [OF typed size4] by (simp add: greyFrame_def)
  have m1: "\<And>c. maskAt (gl_texture2D (gl r1) (Some 1)) c = 7 / 10"
    unfolding r1_def first_render(8) [OF typed size4]
    by (simp add: spec_pixel_def spec_category_def spec_confidence_def spec_alphaBase_def
        spec_stickiness_def spec_newMask_def Let_def smoothstep_def clamp_def
        stateUniformsOf_def defaultOptions_def)
  from render_effect_returns [OF f1(2) f1(3) typed, of "greyFrame 8 8" "uniformTexture 0" "uniformTexture 1" False]
  obtain r2 where ok: "render r1 (greyFrame 8 8) defaultOptions
           (Some (uniformTexture 0)) (Some (uniformTexture 1)) False = Inr r2" by blast
  have size: "0 < displayWidth (greyFrame 8 8)" "0 < displayHeight (greyFrame 8 8)"
    by (simp_all add: greyFrame_def)
  from render_effect_textures [OF reachable_wellFormed [OF f1(1)] f1(2) ok] f1(3) size
  have t: "textures (gl r2) 1 = textures (gl r1) 1"
    and w: "textures (gl r2) 0 =
            Some \<lparr>tex_width = displayWidth (greyFrame 8 8), tex_height = displayHeight (greyFrame 8 8),
                  tex_image = storedImage (drawQuad (stateUpdate_main
                     (stateUniformsOf defaultOptions False (displayWidth (greyFrame 8 8)) (displayHeight (greyFrame 8 8)))
                     (uniformTexture 0) (uniformTexture 1)
                     (gl_texture2D (gl r1) (Some 1))))\<rparr>"
    by (simp_all add: f1(4,5) element_def)
  have a: "element (storedStateTextures r1) (currentStateIndex r1) = Some 1"
    by (simp add: f1(4,5) element_def)
  have b: "textureSize (gl r2) 1 = Some (4, 4)"
    using t1 t by (simp add: textureSize_def)
  have s1: "gl_texture2D (gl r2) (Some 1) = gl_texture2D (gl r1) (Some 1)"
    using t by (simp add: gl_texture2D_def)
  have c: "maskAt (gl_texture2D (gl r2) (Some 1)) (1 / 2, 1 / 2) = 7 / 10"
    unfolding s1 by (rule m1)
  have d: "textureSize (gl r2) 0 = Some (8, 8)"
    using w by (simp add: textureSize_def greyFrame_def)
  have prev: "\<And>p. red (gl_texture2D (gl r1) (Some 1) p) = 7 / 10"
  proof -
    fix p :: vec2
    have "maskAt (gl_texture2D (gl r1) (Some 1)) (fst p, 1 - snd p) = 7 / 10" by (rule m1)
    then show "red (gl_texture2D (gl r1) (Some 1) p) = 7 / 10" by (simp add: maskAt_def)
  qed
  have s0: "gl_texture2D (gl r2) (Some 0) = storedImage (drawQuad (stateUpdate_main
                     (stateUniformsOf defaultOptions False (displayWidth (greyFrame 8 8)) (displayHeight (greyFrame 8 8)))
                     (uniformTexture 0) (uniformTexture 1)
                     (gl_texture2D (gl r1) (Some 1))))"
    unfolding gl_texture2D_def [of "gl r2"] using w by simp
  have "maskAt (gl_texture2D (gl r2) (Some 0)) (1 / 2, 1 / 2) =
      clamp (spec_pixel (stateUniformsOf defaultOptions False (displayWidth (greyFrame 8 8))
                (displayHeight (greyFrame 8 8))) 0 1 (7 / 10)) 0 1"
    unfolding maskAt_def s0 by (rule stored_uniform [OF prev])
  also have "\<dots> = 69321 / 125000"
    by (simp add: spec_pixel_def spec_category_def spec_confidence_def spec_alphaBase_def
        spec_stickiness_def spec_newMask_def Let_def smoothstep_def clamp_def mix_def
        stateUniformsOf_def defaultOptions_def)
  finally have e: "maskAt (gl_texture2D (gl r2) (Some 0)) (1 / 2, 1 / 2) = 69321 / 125000" .
  have r2: "stateAfter (render r1 (greyFrame 8 8) defaultOptions
           (Some (uniformTexture 0)) (Some (uniformTexture 1)) False) = r2" by (simp add: ok)
  show ?thesis
    unfolding r1_def [symmetric] r2 using a b c d e by blast
qed

end
